(* ===== verification/Prelude.thy ===== *)
theory Prelude
  imports Complex_Main "HOL-Library.Sublist" "HOL-Library.Multiset"
begin

text \<open>
  Shared vocabulary of the pharmacy-store development. JavaScript numbers that
  carry money (prices, discounts, tax, totals) are modelled as exact rationals
  (\<open>rat\<close>): the source performs no rounding of its own, and the model
  abstracts from IEEE-754 rounding. Counts and day numbers are \<open>int\<close>,
  timestamps are milliseconds since the epoch (\<open>int\<close>). Strings are
  \<open>string\<close>. The generic lemmas here (the JavaScript \<open>reduce\<close> idiom,
  sums over filtered lists, the ASCII \<open>toLowerCase\<close> and \<open>includes\<close>
  helpers) are used by every component theory.
\<close>

type_synonym money = rat
type_synonym millis = int

named_theorems model_simps \<open>equations that evaluate the model's helpers\<close>

subsection \<open>Definitions: JavaScript built-ins the components use\<close>

text \<open>
  \<^verbatim>\<open>xs.reduce((sum, x) => sum + f(x), 0)\<close> is a left fold.
\<close>

definition js_sum :: "('a \<Rightarrow> 'b::comm_monoid_add) \<Rightarrow> 'a list \<Rightarrow> 'b" where
  "js_sum f xs = foldl (\<lambda>s x. s + f x) 0 xs"

text \<open>
  \<open>toLowerCase\<close> is modelled on ASCII letters; other characters are left
  unchanged (the mock data and all UI labels are ASCII).
\<close>

definition js_lower_char :: "char \<Rightarrow> char" where
  "js_lower_char c =
     (let n = (of_char c :: nat) in if 65 \<le> n \<and> n \<le> 90 then char_of (n + 32) else c)"

definition js_lower :: "string \<Rightarrow> string" where
  "js_lower s = map js_lower_char s"

text \<open>\<^verbatim>\<open>hay.includes(needle)\<close>: the needle occurs as a contiguous block.\<close>

fun js_includes :: "string \<Rightarrow> string \<Rightarrow> bool" where
  "js_includes [] needle = (needle = [])"
| "js_includes (h # hs) needle = (prefix needle (h # hs) \<or> js_includes hs needle)"

text \<open>JavaScript whitespace, restricted to the ASCII whitespace characters.\<close>

definition js_space :: "char \<Rightarrow> bool" where
  "js_space c \<longleftrightarrow> c \<in> {CHR '' '', CHR 0x09, CHR 0x0A, CHR 0x0B, CHR 0x0C, CHR 0x0D}"

definition js_trim :: "string \<Rightarrow> string" where
  "js_trim s = rev (dropWhile js_space (rev (dropWhile js_space s)))"

text \<open>
  A JavaScript number that may be \<open>NaN\<close> (or come from \<open>undefined\<close>):
  \<open>None\<close> is NaN, and arithmetic with NaN is NaN.
\<close>

type_synonym jsnum = "rat option"

definition js_plus :: "jsnum \<Rightarrow> jsnum \<Rightarrow> jsnum" where
  "js_plus a b = (case (a, b) of (Some x, Some y) \<Rightarrow> Some (x + y) | _ \<Rightarrow> None)"

definition js_minus :: "jsnum \<Rightarrow> jsnum \<Rightarrow> jsnum" where
  "js_minus a b = (case (a, b) of (Some x, Some y) \<Rightarrow> Some (x - y) | _ \<Rightarrow> None)"

text \<open>\<^verbatim>\<open>xs.reduce((sum, x) => sum + f(x), 0)\<close> over values that may be NaN.\<close>

definition js_sum_num :: "('a \<Rightarrow> jsnum) \<Rightarrow> 'a list \<Rightarrow> jsnum" where
  "js_sum_num f xs = foldl (\<lambda>s x. js_plus s (f x)) (Some 0) xs"

text \<open>\<open>n.toString()\<close> of a non-negative integer.\<close>

fun nat_str :: "nat \<Rightarrow> string" where
  "nat_str n = (if n < 10 then [char_of (48 + n)] else nat_str (n div 10) @ [char_of (48 + n mod 10)])"

subsection \<open>The \<open>reduce\<close> idiom\<close>

lemma foldl_add_sum_list:
  "foldl (\<lambda>s x. s + f x) a xs = a + sum_list (map f xs)"
  by (induction xs arbitrary: a) (simp_all add: add.assoc)

lemma js_sum_eq [model_simps]: "js_sum f xs = sum_list (map f xs)"
  by (simp add: js_sum_def foldl_add_sum_list)

lemma js_sum_append [simp]: "js_sum f (xs @ ys) = js_sum f xs + js_sum f ys"
  by (simp add: js_sum_eq)

lemma js_sum_Nil [simp]: "js_sum f [] = 0"
  by (simp add: js_sum_def)

lemma js_sum_Cons [simp]: "js_sum f (x # xs) = f x + js_sum f xs"
  by (simp add: js_sum_eq)

lemma js_sum_filter_split:
  "js_sum f (filter P xs) + js_sum f (filter (\<lambda>x. \<not> P x) xs) = js_sum f xs"
  by (induction xs) (simp_all add: algebra_simps)

lemma js_sum_nonneg:
  "(\<And>x. x \<in> set xs \<Longrightarrow> (0::'b::ordered_comm_monoid_add) \<le> f x) \<Longrightarrow> 0 \<le> js_sum f xs"
  by (induction xs) (simp_all add: add_nonneg_nonneg)

lemma js_sum_mono:
  "(\<And>x. x \<in> set xs \<Longrightarrow> f x \<le> (g x::'b::ordered_comm_monoid_add)) \<Longrightarrow> js_sum f xs \<le> js_sum g xs"
  by (induction xs) (simp_all add: add_mono)

lemma js_sum_cong:
  "(\<And>x. x \<in> set xs \<Longrightarrow> f x = g x) \<Longrightarrow> js_sum f xs = js_sum g xs"
  by (induction xs) simp_all

subsection \<open>Sums that may be NaN\<close>

lemma js_plus_Some [simp]: "js_plus (Some x) (Some y) = Some (x + y)"
  by (simp add: js_plus_def)

lemma js_plus_None [simp]: "js_plus None b = None" "js_plus a None = None"
  by (simp_all add: js_plus_def split: option.splits)

lemma js_minus_Some [simp]: "js_minus (Some x) (Some y) = Some (x - y)"
  by (simp add: js_minus_def)

lemma foldl_js_plus_None: "foldl (\<lambda>s x. js_plus s (f x)) None xs = None"
  by (induction xs) simp_all

lemma foldl_js_plus_Some:
  "(\<forall>x \<in> set xs. f x \<noteq> None) \<Longrightarrow>
   foldl (\<lambda>s x. js_plus s (f x)) (Some a) xs = Some (a + sum_list (map (the \<circ> f) xs))"
  by (induction xs arbitrary: a) (auto simp: add.assoc)

lemma js_sum_num_Some:
  "(\<forall>x \<in> set xs. f x \<noteq> None) \<Longrightarrow> js_sum_num f xs = Some (sum_list (map (the \<circ> f) xs))"
  by (simp add: js_sum_num_def foldl_js_plus_Some)

lemma js_sum_num_Some_map:
  "js_sum_num (\<lambda>x. Some (g x)) xs = Some (sum_list (map g xs))"
  by (simp add: js_sum_num_Some comp_def)

lemma js_sum_num_None:
  "x \<in> set xs \<Longrightarrow> f x = None \<Longrightarrow> js_sum_num f xs = None"
proof (induction xs arbitrary: x rule: rev_induct)
  case Nil then show ?case by simp
next
  case (snoc y ys)
  show ?case
  proof (cases "x = y")
    case True
    with snoc.prems show ?thesis by (simp add: js_sum_num_def)
  next
    case False
    with snoc.prems have "js_sum_num f ys = None" by (intro snoc.IH) auto
    then show ?thesis by (simp add: js_sum_num_def)
  qed
qed

lemma js_sum_num_append:
  "js_sum_num f (xs @ ys) = js_plus (js_sum_num f xs) (js_sum_num f ys)"
proof (cases "\<forall>x \<in> set (xs @ ys). f x \<noteq> None")
  case True
  then show ?thesis by (simp add: js_sum_num_Some)
next
  case False
  then obtain x where x: "x \<in> set (xs @ ys)" "f x = None" by auto
  then have "js_sum_num f (xs @ ys) = None" by (rule js_sum_num_None)
  moreover have "js_sum_num f xs = None \<or> js_sum_num f ys = None"
    using x js_sum_num_None[of x xs f] js_sum_num_None[of x ys f] by auto
  ultimately show ?thesis by auto
qed

subsection \<open>Strings: \<open>toLowerCase\<close>, \<open>includes\<close>, \<open>trim\<close>\<close>

lemma js_includes_sublist [model_simps]: "js_includes hay needle = sublist needle hay"
  by (induction hay) (auto simp: sublist_Cons_right)

lemma js_trim_Nil_iff: "js_trim s = [] \<longleftrightarrow> (\<forall>c \<in> set s. js_space c)"
proof -
  have "(\<forall>x \<in> set (dropWhile js_space s). js_space x) \<longleftrightarrow> (\<forall>c \<in> set s. js_space c)"
    by (induction s) auto
  then show ?thesis by (simp add: js_trim_def)
qed

subsection \<open>Lists\<close>

lemma filter_subseq: "subseq (filter P xs) xs"
  by (induction xs) auto

lemma subseq_filter_filter: "subseq (filter P (filter Q xs)) xs"
  by (rule subseq_order.order_trans[OF filter_subseq filter_subseq])

end
