(* ===== verification/Dates.thy ===== *)
theory Dates
  imports Prelude
begin

text \<open>
  Calendar dates as JavaScript's \<open>Date\<close> sees them, and the day arithmetic of
  \<open>calculateDaysUntilExpiry\<close> (src/src/lib/utils.ts) and of the inline
  computation in the expiry page (src/src/app/expiry/page.tsx).

  A \<open>Date\<close> is a UTC timestamp in milliseconds. \<open>new Date('YYYY-MM-DD')\<close>
  is UTC midnight of that day (ECMAScript's MakeDay); any other string is the
  invalid date, whose time value is NaN, modelled as \<open>None\<close>. The host's time
  zone is a fixed offset \<open>tz\<close> in milliseconds (local = UTC + tz); daylight
  saving is not modelled. \<open>setHours(0,0,0,0)\<close> moves a timestamp to the
  preceding local midnight.
\<close>

definition day_ms :: int where
  "day_ms = 1000 * 60 * 60 * 24"

subsection \<open>ECMAScript day numbers\<close>

definition leap_year :: "int \<Rightarrow> bool" where
  "leap_year y \<longleftrightarrow> y mod 4 = 0 \<and> (y mod 100 \<noteq> 0 \<or> y mod 400 = 0)"

definition days_in_month :: "int \<Rightarrow> int \<Rightarrow> int" where
  "days_in_month y m =
     (if m = 2 then (if leap_year y then 29 else 28)
      else if m \<in> {4, 6, 9, 11} then 30 else 31)"

text \<open>DayFromYear: the day number of 1 January of year \<open>y\<close>.\<close>

definition day_from_year :: "int \<Rightarrow> int" where
  "day_from_year y =
     365 * (y - 1970) + (y - 1969) div 4 - (y - 1901) div 100 + (y - 1601) div 400"

definition days_before_month :: "int \<Rightarrow> int \<Rightarrow> int" where
  "days_before_month y m = sum_list (map (days_in_month y) [1..m - 1])"

definition make_day :: "int \<Rightarrow> int \<Rightarrow> int \<Rightarrow> int" where
  "make_day y m d = day_from_year y + days_before_month y m + (d - 1)"

definition valid_ymd :: "int \<Rightarrow> int \<Rightarrow> int \<Rightarrow> bool" where
  "valid_ymd y m d \<longleftrightarrow> 1 \<le> m \<and> m \<le> 12 \<and> 1 \<le> d \<and> d \<le> days_in_month y m"

subsection \<open>Parsing the date-only ISO format\<close>

definition digit_val :: "char \<Rightarrow> int option" where
  "digit_val c = (let n = (of_char c :: nat) in if 48 \<le> n \<and> n \<le> 57 then Some (int n - 48) else None)"

fun digits_val :: "string \<Rightarrow> int option" where
  "digits_val [] = Some 0"
| "digits_val (c # cs) =
     (case digit_val c of None \<Rightarrow> None
      | Some d \<Rightarrow> (case digits_val cs of None \<Rightarrow> None
                  | Some r \<Rightarrow> Some (d * 10 ^ length cs + r)))"

text \<open>
  \<open>new Date(s).getTime()\<close> for a date-only string \<open>YYYY-MM-DD\<close>: UTC midnight
  of the day, or NaN (\<open>None\<close>) for a string that is not a valid date.
\<close>

definition parse_date :: "string \<Rightarrow> millis option" where
  "parse_date s =
     (if length s = 10 \<and> s ! 4 = CHR ''-'' \<and> s ! 7 = CHR ''-'' then
        (case (digits_val (take 4 s), digits_val (take 2 (drop 5 s)), digits_val (drop 8 s)) of
           (Some y, Some m, Some d) \<Rightarrow>
             if valid_ymd y m d then Some (make_day y m d * day_ms) else None
         | _ \<Rightarrow> None)
      else None)"

subsection \<open>Local midnight and the day difference\<close>

text \<open>\<open>d.setHours(0, 0, 0, 0)\<close> in a time zone \<open>tz\<close> milliseconds ahead of UTC.\<close>

definition set_hours_zero :: "millis \<Rightarrow> millis \<Rightarrow> millis" where
  "set_hours_zero tz t = ((t + tz) div day_ms) * day_ms - tz"

text \<open>The local calendar day of a timestamp.\<close>

definition local_day :: "millis \<Rightarrow> millis \<Rightarrow> int" where
  "local_day tz t = (t + tz) div day_ms"

text \<open>
  \<open>calculateDaysUntilExpiry(expiryDate)\<close>, utils.ts lines 50--64, with the
  wall clock \<open>new Date()\<close> as the argument \<open>now\<close>. The empty string is
  falsy and returns 0; an unparsable string yields NaN (\<open>None\<close>).
\<close>

definition calculateDaysUntilExpiry :: "millis \<Rightarrow> millis \<Rightarrow> string \<Rightarrow> int option" where
  "calculateDaysUntilExpiry tz now expiryDate =
     (if expiryDate = [] then Some 0
      else case parse_date expiryDate of
        None \<Rightarrow> None
      | Some e \<Rightarrow>
          (let expiry = set_hours_zero tz e;
               today = set_hours_zero tz now;
               diffTime = expiry - today
           in Some \<lceil>(of_int diffTime / of_int day_ms :: rat)\<rceil>))"

text \<open>
  The expiry page's own count (page.tsx lines 52--62) does not truncate
  either timestamp to midnight:
  \<^verbatim>\<open>Math.ceil((expiryDate.getTime() - currentDate.getTime()) / (1000*60*60*24))\<close>.
\<close>

definition page_days_until_expiry :: "millis \<Rightarrow> string \<Rightarrow> int option" where
  "page_days_until_expiry now expiryDate =
     (case parse_date expiryDate of
        None \<Rightarrow> None
      | Some e \<Rightarrow> Some \<lceil>(of_int (e - now) / of_int day_ms :: rat)\<rceil>)"

subsection \<open>Arithmetic of the day difference\<close>

lemma day_ms_val [model_simps]: "day_ms = 86400000"
  by (simp add: day_ms_def)

lemmas date_eval = parse_date_def digit_val_def valid_ymd_def days_in_month_def leap_year_def
  make_day_def day_from_year_def days_before_month_def day_ms_def upto.simps
  calculateDaysUntilExpiry_def page_days_until_expiry_def set_hours_zero_def

lemma ceiling_int_div: "0 < l \<Longrightarrow> \<lceil>(of_int k / of_int l :: rat)\<rceil> = - ((- k) div l)"
proof -
  assume l: "0 < l"
  have "\<lceil>(of_int k / of_int l :: rat)\<rceil> = - \<lfloor>(of_int (- k) / of_int l :: rat)\<rfloor>"
    by (simp add: ceiling_def)
  also have "\<dots> = - ((- k) div l)"
    by (simp only: floor_divide_of_int_eq)
  finally show ?thesis .
qed

lemma ceiling_mult_div: "0 < l \<Longrightarrow> \<lceil>(of_int (k * l) / of_int l :: rat)\<rceil> = k"
  by simp

lemma set_hours_zero_diff:
  "set_hours_zero tz a - set_hours_zero tz b = (local_day tz a - local_day tz b) * day_ms"
  by (simp add: set_hours_zero_def local_day_def algebra_simps)

lemma local_day_midnight:
  "0 \<le> tz \<Longrightarrow> tz < day_ms \<Longrightarrow> local_day tz (n * day_ms) = n"
  by (simp add: local_day_def day_ms_def)

lemma local_day_midnight_west:
  "- day_ms \<le> tz \<Longrightarrow> tz < 0 \<Longrightarrow> local_day tz (n * day_ms) = n - 1"
proof -
  assume a: "- day_ms \<le> tz" "tz < 0"
  have "n * day_ms + tz = (n - 1) * day_ms + (day_ms + tz)"
    by (simp add: algebra_simps)
  moreover have "0 \<le> day_ms + tz" "day_ms + tz < day_ms" using a by simp_all
  ultimately show ?thesis
    by (simp add: local_day_def day_ms_def)
qed

lemma calculateDaysUntilExpiry_parsed:
  "parse_date s = Some e \<Longrightarrow>
   calculateDaysUntilExpiry tz now s = Some (local_day tz e - local_day tz now)"
proof -
  assume p: "parse_date s = Some e"
  then have "s \<noteq> []" by (auto simp: parse_date_def)
  moreover have "0 < day_ms" by (simp add: day_ms_def)
  ultimately show ?thesis
    using p by (simp add: calculateDaysUntilExpiry_def set_hours_zero_diff ceiling_mult_div del: of_int_mult of_int_diff)
qed

lemma parse_date_midnight: "parse_date s = Some e \<Longrightarrow> \<exists>n. e = n * day_ms"
  by (auto simp: parse_date_def split: if_splits option.splits)

lemma parse_date_day: "parse_date s = Some e \<Longrightarrow> e = (e div day_ms) * day_ms"
  by (auto dest: parse_date_midnight simp: day_ms_def)

subsection \<open>The day difference is a difference of calendar days\<close>

text \<open>
  C4: in a time zone at or east of UTC (offset in [0, one day)), the number of
  days until expiry computed by calculateDaysUntilExpiry is the calendar date
  written in the expiry string minus today's local calendar date; the partial
  day of the wall clock never biases it.
\<close>

theorem days_until_expiry_local_calendar:
  assumes "0 \<le> tz" and "tz < day_ms" and "parse_date s = Some e"
  shows "calculateDaysUntilExpiry tz now s = Some (e div day_ms - local_day tz now)"
proof -
  have "local_day tz e = e div day_ms"
    using parse_date_day[OF assms(3)] local_day_midnight[OF assms(1,2)] by metis
  then show ?thesis
    using calculateDaysUntilExpiry_parsed[OF assms(3)] by simp
qed

text \<open>
  C16: in a time zone west of UTC (offset in [-one day, 0)) the date-only string
  is parsed as UTC midnight, which is the evening before in local time, and
  setHours(0,0,0,0) moves it to the previous local day: calculateDaysUntilExpiry
  is one less than the calendar difference, so a medicine reads as expired
  (-1 days) on its own expiry date.
\<close>

theorem days_until_expiry_west_off_by_one:
  assumes "- day_ms \<le> tz" and "tz < 0" and "parse_date s = Some e"
  shows "calculateDaysUntilExpiry tz now s = Some (e div day_ms - 1 - local_day tz now)"
proof -
  have "local_day tz e = e div day_ms - 1"
    using parse_date_day[OF assms(3)] local_day_midnight_west[OF assms(1,2)] by metis
  then show ?thesis
    using calculateDaysUntilExpiry_parsed[OF assms(3)] by simp
qed

text \<open>
  The expiry page's own stat count (no truncation to midnight) is the
  difference of UTC calendar days, whatever the host's time zone.
\<close>

theorem page_days_until_expiry_utc:
  assumes "parse_date s = Some e"
  shows "page_days_until_expiry now s = Some (e div day_ms - now div day_ms)"
proof -
  have D: "0 < day_ms" by (simp add: day_ms_def)
  have e: "e = (e div day_ms) * day_ms" using parse_date_day[OF assms] .
  have "- ((now - e) div day_ms) = e div day_ms - now div day_ms"
  proof -
    have "now - e = now + (- (e div day_ms)) * day_ms"
      by (subst e) simp
    moreover have "(now + (- (e div day_ms)) * day_ms) div day_ms = - (e div day_ms) + now div day_ms"
      by (rule div_mult_self1) (use D in simp)
    ultimately show ?thesis by simp
  qed
  then show ?thesis
    using assms by (simp add: page_days_until_expiry_def ceiling_int_div[OF D] del: of_int_diff)
qed

text \<open>
  The two day counts of the expiry feature disagree: at 01:00 India
  Standard Time (UTC+5:30) on 2024-04-17, calculateDaysUntilExpiry gives 3
  days to 2024-04-20 while the expiry page's stat count gives 4.
\<close>

theorem expiry_day_counts_disagree:
  "calculateDaysUntilExpiry 19800000 1713295800000 ''2024-04-20'' = Some 3 \<and>
   page_days_until_expiry 1713295800000 ''2024-04-20'' = Some 4"
  by (simp add: date_eval ceiling_eq_iff)

subsection \<open>Witnesses\<close>

theorem days_until_expiry_local_calendar_witness:
  "0 \<le> (19800000::int) \<and> 19800000 < day_ms \<and>
   parse_date ''2024-04-20'' = Some 1713571200000 \<and>
   calculateDaysUntilExpiry 19800000 1713295800000 ''2024-04-20'' = Some 3"
proof -
  have h: "0 \<le> (19800000::int)" "19800000 < day_ms"
      "parse_date ''2024-04-20'' = Some 1713571200000"
    by (simp_all add: date_eval)
  show ?thesis
    using h days_until_expiry_local_calendar[OF h, of 1713295800000]
    by (simp add: local_day_def day_ms_def)
qed

theorem days_until_expiry_west_off_by_one_witness:
  "- day_ms \<le> (-18000000::int) \<and> -18000000 < (0::int) \<and>
   parse_date ''2024-04-20'' = Some 1713571200000 \<and>
   calculateDaysUntilExpiry (-18000000) 1713625200000 ''2024-04-20'' = Some (-1)"
proof -
  have h: "- day_ms \<le> (-18000000::int)" "-18000000 < (0::int)"
      "parse_date ''2024-04-20'' = Some 1713571200000"
    by (simp_all add: date_eval)
  show ?thesis
    using h days_until_expiry_west_off_by_one[OF h, of 1713625200000]
    by (simp add: local_day_def day_ms_def)
qed

theorem page_days_until_expiry_utc_witness:
  "parse_date ''2024-04-20'' = Some 1713571200000 \<and>
   page_days_until_expiry 1713295800000 ''2024-04-20'' = Some 4"
proof -
  have h: "parse_date ''2024-04-20'' = Some 1713571200000"
    by (simp add: date_eval)
  show ?thesis
    using h page_days_until_expiry_utc[OF h, of 1713295800000]
    by (simp add: day_ms_def)
qed

end
