(* ===== verification/DateOrder.thy ===== *)
theory DateOrder
  imports Dates "HOL-Library.List_Lexorder" "HOL-Library.Char_ord"
begin

text \<open>
  The order of ISO dates. The tables sort their Expiry Date column with
  \<open>localeCompare\<close> on the \<open>YYYY-MM-DD\<close> strings (Medicine.thy), which orders
  them character by character. On strings \<open>new Date\<close> accepts
  (\<open>parse_date\<close> of Dates.thy) this is the order of the days they denote:
  equal-length digit groups compare as their values (\<open>digits_val_less\<close>),
  and MakeDay is strictly increasing in (year, month, day) on valid dates
  (\<open>make_day_less_iff\<close>), which rests on the length of a year being the sum
  of its months (\<open>year_length\<close>).
\<close>

subsection \<open>Digit strings\<close>

lemma digit_val_Some:
  "digit_val c = Some v \<Longrightarrow> v = int (of_char c) - 48 \<and> 0 \<le> v \<and> v \<le> 9"
  by (auto simp: digit_val_def Let_def split: if_splits)

lemma digit_less: "digit_val c = Some v \<Longrightarrow> digit_val c' = Some v' \<Longrightarrow> c < c' \<longleftrightarrow> v < v'"
  by (auto simp: less_char_def dest!: digit_val_Some)

lemma digits_val_bound: "digits_val s = Some v \<Longrightarrow> 0 \<le> v \<and> v < 10 ^ length s"
proof (induction s arbitrary: v)
  case (Cons c cs)
  then obtain d r where d: "digit_val c = Some d" and r: "digits_val cs = Some r" and v: "v = d * 10 ^ length cs + r"
    by (auto split: option.splits)
  have "0 \<le> d" "d \<le> 9" using digit_val_Some[OF d] by auto
  moreover have "0 \<le> r" "r < 10 ^ length cs" using Cons.IH[OF r] by auto
  moreover have "d * 10 ^ length cs \<le> 9 * 10 ^ length cs"
    using \<open>d \<le> 9\<close> by (intro mult_right_mono) simp_all
  ultimately have "d * 10 ^ length cs + r < 10 * 10 ^ length cs" by linarith
  then show ?case using v \<open>0 \<le> d\<close> \<open>0 \<le> r\<close> by simp
qed simp

lemma digits_val_Cons_Some:
  "digits_val (c # cs) = Some v \<longleftrightarrow>
   (\<exists>d r. digit_val c = Some d \<and> digits_val cs = Some r \<and> v = d * 10 ^ length cs + r)"
  by (auto split: option.splits)

lemma digit_eq: "digit_val c = Some v \<Longrightarrow> digit_val c' = Some v' \<Longrightarrow> c = c' \<longleftrightarrow> v = v'"
  by (auto dest!: digit_val_Some)

lemma place_value_less:
  fixes B :: int
  assumes "0 \<le> rc" "rc < B" "0 \<le> re" "re < B"
  shows "dc * B + rc < de * B + re \<longleftrightarrow> dc < de \<or> dc = de \<and> rc < re"
proof -
  have lt: "x * B + rx < y * B + ry" if "x < y" "0 \<le> ry" "rx < B" for x y rx ry
  proof -
    have "(x + 1) * B \<le> y * B" using that assms by (intro mult_right_mono) simp_all
    then show ?thesis using that by (simp add: algebra_simps)
  qed
  show ?thesis
  proof (cases dc de rule: linorder_cases)
    case less then show ?thesis using lt[of dc de re rc] assms by simp
  next
    case greater then show ?thesis using lt[of de dc rc re] assms by simp
  qed simp
qed

lemma digits_val_less:
  "length a = length b \<Longrightarrow> digits_val a = Some va \<Longrightarrow> digits_val b = Some vb \<Longrightarrow> a < b \<longleftrightarrow> va < vb"
proof (induction a arbitrary: b va vb)
  case (Cons c cs)
  then obtain e es where b: "b = e # es" and len: "length es = length cs" by (cases b) auto
  from Cons.prems(2) obtain dc rc where
    dc: "digit_val c = Some dc" and rc: "digits_val cs = Some rc" and va: "va = dc * 10 ^ length cs + rc"
    unfolding digits_val_Cons_Some by blast
  from Cons.prems(3) obtain de re where
    de: "digit_val e = Some de" and re: "digits_val es = Some re" and vb: "vb = de * 10 ^ length cs + re"
    unfolding b digits_val_Cons_Some len by blast
  have "va < vb \<longleftrightarrow> dc < de \<or> dc = de \<and> rc < re"
    unfolding va vb using digits_val_bound[OF rc] digits_val_bound[OF re] len by (intro place_value_less) simp_all
  then show ?case
    using Cons.IH[OF len[symmetric] rc re] digit_less[OF dc de] digit_eq[OF dc de] b by auto
qed simp

subsection \<open>Strings of equal-length fields\<close>

lemma less_append_same_length:
  fixes a b :: "'a::linorder list"
  shows "length a = length b \<Longrightarrow> a @ x < b @ y \<longleftrightarrow> a < b \<or> a = b \<and> x < y"
proof (induction a arbitrary: b)
  case (Cons c cs)
  then obtain e es where "b = e # es" by (cases b) auto
  with Cons show ?case by auto
qed simp

lemma digits_val_eq:
  "length a = length b \<Longrightarrow> digits_val a = Some va \<Longrightarrow> digits_val b = Some vb \<Longrightarrow> a = b \<longleftrightarrow> va = vb"
  using digits_val_less[of a b va vb] digits_val_less[of b a vb va]
  by (metis less_irrefl neq_iff)

subsection \<open>MakeDay is increasing\<close>

lemma days_before_month_Suc:
  "1 \<le> m \<Longrightarrow> days_before_month y (m + 1) = days_before_month y m + days_in_month y m"
  by (simp add: days_before_month_def upto_rec2)

lemma days_in_month_pos: "0 < days_in_month y m"
  by (simp add: days_in_month_def)

lemma days_before_month_mono:
  assumes "1 \<le> m" "m \<le> m'"
  shows "days_before_month y m \<le> days_before_month y m'"
  using assms(2)
proof (induction m' rule: int_ge_induct)
  case (step k)
  then show ?case using days_before_month_Suc[of k y] days_in_month_pos[of y k] assms(1) by simp
qed simp

lemma day_in_month_bound:
  "valid_ymd y m d \<Longrightarrow> days_before_month y m + (d - 1) < days_before_month y (m + 1)"
  by (simp add: valid_ymd_def days_before_month_Suc)

lemma div_succ_diff:
  "(0::int) < n \<Longrightarrow> (a + 1) div n - a div n = (if (a + 1) mod n = 0 then 1 else 0)"
proof -
  assume n: "(0::int) < n"
  define q r where "q = a div n" and "r = a mod n"
  have a: "a + 1 = (r + 1) + n * q" and r: "0 \<le> r" "r < n"
    using n by (simp_all add: q_def r_def)
  show ?thesis
  proof (cases "r + 1 = n")
    case True
    then have "a + 1 = n * (q + 1)" using a by (simp add: algebra_simps)
    then show ?thesis using n by (simp add: q_def)
  next
    case False
    then have "(r + 1) div n = 0" "(r + 1) mod n = r + 1" using r by simp_all
    then show ?thesis unfolding a using n r by (simp add: q_def)
  qed
qed


lemma mod_shift: "(0::int) < n \<Longrightarrow> (y - k * n) mod n = y mod n"
  by (metis mod_mult_self1 diff_conv_add_uminus mult_minus_left)

lemma year_diff_4: "(y + 1 - 1969) div 4 - (y - 1969) div 4 = (if y mod 4 = 0 then 1 else (0::int))"
proof -
  have "(y - 1969 + 1) div 4 - (y - 1969) div 4 = (if (y - 1969 + 1) mod 4 = 0 then 1 else 0)"
    by (rule div_succ_diff) simp
  moreover have "y - 1969 + 1 = y - 492 * 4" "y + 1 - 1969 = y - 1969 + 1" by simp_all
  ultimately show ?thesis using mod_shift[of 4 y 492] by simp
qed

lemma year_diff_100: "(y + 1 - 1901) div 100 - (y - 1901) div 100 = (if y mod 100 = 0 then 1 else (0::int))"
proof -
  have "(y - 1901 + 1) div 100 - (y - 1901) div 100 = (if (y - 1901 + 1) mod 100 = 0 then 1 else 0)"
    by (rule div_succ_diff) simp
  moreover have "y - 1901 + 1 = y - 19 * 100" "y + 1 - 1901 = y - 1901 + 1" by simp_all
  ultimately show ?thesis using mod_shift[of 100 y 19] by simp
qed

lemma year_diff_400: "(y + 1 - 1601) div 400 - (y - 1601) div 400 = (if y mod 400 = 0 then 1 else (0::int))"
proof -
  have "(y - 1601 + 1) div 400 - (y - 1601) div 400 = (if (y - 1601 + 1) mod 400 = 0 then 1 else 0)"
    by (rule div_succ_diff) simp
  moreover have "y - 1601 + 1 = y - 4 * 400" "y + 1 - 1601 = y - 1601 + 1" by simp_all
  ultimately show ?thesis using mod_shift[of 400 y 4] by simp
qed

lemma feb_days: "days_in_month y 2 = 28 + (if y mod 4 = 0 then 1 else 0) - (if y mod 100 = 0 then 1 else 0)
             + (if y mod 400 = 0 then 1 else 0)"
proof -
  have h1: "y mod 400 = 0 \<Longrightarrow> y mod 100 = 0"
    using dvd_trans[of 100 400 y] by (simp add: dvd_eq_mod_eq_0[symmetric])
  have h2: "y mod 100 = 0 \<Longrightarrow> y mod 4 = 0"
    using dvd_trans[of 4 100 y] by (simp add: dvd_eq_mod_eq_0[symmetric])
  show ?thesis
  proof (cases "y mod 400 = 0")
    case True then show ?thesis using h1 h2 by (simp add: days_in_month_def leap_year_def)
  next
    case n400: False
    show ?thesis
    proof (cases "y mod 100 = 0")
      case True then show ?thesis using n400 h2 by (simp add: days_in_month_def leap_year_def)
    qed (use n400 in \<open>simp add: days_in_month_def leap_year_def\<close>)
  qed
qed

lemma year_length:
  "day_from_year (y + 1) - day_from_year y = days_before_month y 13"
proof -
  have d: "day_from_year (y + 1) - day_from_year y =
           365 + ((y + 1 - 1969) div 4 - (y - 1969) div 4) - ((y + 1 - 1901) div 100 - (y - 1901) div 100)
           + ((y + 1 - 1601) div 400 - (y - 1601) div 400)"
    by (simp add: day_from_year_def algebra_simps)
  have m: "days_before_month y 13 = 337 + days_in_month y 2"
    by (simp add: days_before_month_def upto.simps days_in_month_def)
  show ?thesis unfolding d m year_diff_4 year_diff_100 year_diff_400 feb_days by linarith
qed

lemma days_before_month_nonneg: "1 \<le> m \<Longrightarrow> 0 \<le> days_before_month y m"
  using days_before_month_mono[of 1 m y] by (simp add: days_before_month_def)

lemma make_day_bounds:
  assumes "valid_ymd y m d"
  shows "day_from_year y \<le> make_day y m d" and "make_day y m d < day_from_year (y + 1)"
proof -
  have v: "1 \<le> m" "m + 1 \<le> 13" "1 \<le> d" using assms by (simp_all add: valid_ymd_def)
  show "day_from_year y \<le> make_day y m d"
    using days_before_month_nonneg[OF v(1), of y] v(3) by (simp add: make_day_def)
  have "days_before_month y (m + 1) \<le> days_before_month y 13"
    using v by (intro days_before_month_mono) simp_all
  then show "make_day y m d < day_from_year (y + 1)"
    using day_in_month_bound[OF assms] year_length[of y] by (simp add: make_day_def)
qed

lemma day_from_year_mono: "y < y' \<Longrightarrow> day_from_year (y + 1) \<le> day_from_year y'"
proof (induction y' rule: int_gr_induct)
  case (step k)
  have "0 \<le> days_before_month k 13" by (rule days_before_month_nonneg) simp
  then show ?case using step.IH year_length[of k] by simp
qed simp

lemma make_day_lex_less:
  assumes v: "valid_ymd y m d" "valid_ymd y' m' d'"
      and lex: "y < y' \<or> y = y' \<and> (m < m' \<or> m = m' \<and> d < d')"
  shows "make_day y m d < make_day y' m' d'"
proof -
  consider "y < y'" | "y = y'" "m < m'" | "y = y'" "m = m'" "d < d'" using lex by blast
  then show ?thesis
  proof cases
    case 1
    then show ?thesis using make_day_bounds[OF v(1)] make_day_bounds[OF v(2)] day_from_year_mono[OF 1] by simp
  next
    case 2
    have "1 \<le> m" using v(1) by (simp add: valid_ymd_def)
    then have "days_before_month y (m + 1) \<le> days_before_month y m'" using 2 by (intro days_before_month_mono) simp_all
    moreover have "1 \<le> d'" using v(2) by (simp add: valid_ymd_def)
    ultimately show ?thesis using day_in_month_bound[OF v(1)] 2 by (simp add: make_day_def)
  next
    case 3 then show ?thesis by (simp add: make_day_def)
  qed
qed

lemma make_day_less_iff:
  "valid_ymd y m d \<Longrightarrow> valid_ymd y' m' d' \<Longrightarrow>
   make_day y m d < make_day y' m' d' \<longleftrightarrow> y < y' \<or> y = y' \<and> (m < m' \<or> m = m' \<and> d < d')"
  using make_day_lex_less[of y m d y' m' d'] make_day_lex_less[of y' m' d' y m d]
  by (smt (verit))

subsection \<open>Date strings\<close>

lemma length_10_cases:
  assumes "length s = 10"
  obtains c0 c1 c2 c3 c4 c5 c6 c7 c8 c9 where "s = [c0, c1, c2, c3, c4, c5, c6, c7, c8, c9]"
  using assms by (auto simp: length_Suc_conv numeral_eq_Suc)

lemma date_string_split:
  assumes "length s = 10" "s ! 4 = CHR ''-''" "s ! 7 = CHR ''-''"
  shows "s = take 4 s @ CHR ''-'' # take 2 (drop 5 s) @ CHR ''-'' # drop 8 s"
  using assms by (cases rule: length_10_cases[OF assms(1)]) simp

lemma parse_date_Some:
  assumes "parse_date s = Some t"
  obtains Y M D y m d where
    "s = Y @ CHR ''-'' # M @ CHR ''-'' # D" "length Y = 4" "length M = 2" "length D = 2"
    "digits_val Y = Some y" "digits_val M = Some m" "digits_val D = Some d" "valid_ymd y m d"
    "t = make_day y m d * day_ms"
proof -
  have h: "length s = 10" "s ! 4 = CHR ''-''" "s ! 7 = CHR ''-''"
    using assms by (simp_all add: parse_date_def split: if_splits)
  then obtain y m d where "digits_val (take 4 s) = Some y" "digits_val (take 2 (drop 5 s)) = Some m"
      "digits_val (drop 8 s) = Some d" "valid_ymd y m d" "t = make_day y m d * day_ms"
    using assms by (auto simp: parse_date_def split: option.splits if_splits)
  with h show ?thesis using date_string_split[OF h] that by simp
qed

lemma date_string_less:
  assumes "length Y = 4" "length M = 2" "length D = 2" "length Y' = 4" "length M' = 2" "length D' = 2"
  shows "Y @ CHR ''-'' # M @ CHR ''-'' # D < Y' @ CHR ''-'' # M' @ CHR ''-'' # D' \<longleftrightarrow>
         Y < Y' \<or> Y = Y' \<and> (M < M' \<or> M = M' \<and> D < D')"
  using assms by (simp add: less_append_same_length)

lemma parse_date_less:
  assumes "parse_date a = Some x" "parse_date b = Some z"
  shows "a < b \<longleftrightarrow> x < z"
proof -
  obtain Y M D y m d where a: "a = Y @ CHR ''-'' # M @ CHR ''-'' # D" "length Y = 4" "length M = 2" "length D = 2"
      "digits_val Y = Some y" "digits_val M = Some m" "digits_val D = Some d" "valid_ymd y m d"
      "x = make_day y m d * day_ms" using parse_date_Some[OF assms(1)] by blast
  obtain Y' M' D' y' m' d' where b: "b = Y' @ CHR ''-'' # M' @ CHR ''-'' # D'" "length Y' = 4" "length M' = 2"
      "length D' = 2" "digits_val Y' = Some y'" "digits_val M' = Some m'" "digits_val D' = Some d'"
      "valid_ymd y' m' d'" "z = make_day y' m' d' * day_ms" using parse_date_Some[OF assms(2)] by blast
  have "a < b \<longleftrightarrow> y < y' \<or> y = y' \<and> (m < m' \<or> m = m' \<and> d < d')"
    unfolding a(1) b(1) date_string_less[OF a(2-4) b(2-4)]
    using digits_val_less[of Y Y' y y'] digits_val_eq[of Y Y' y y'] digits_val_less[of M M' m m']
      digits_val_eq[of M M' m m'] digits_val_less[of D D' d d'] a b by simp
  also have "\<dots> \<longleftrightarrow> make_day y m d < make_day y' m' d'" using make_day_less_iff[OF a(8) b(8)] by simp
  also have "\<dots> \<longleftrightarrow> x < z" using a(9) b(9) by (simp add: day_ms_def)
  finally show ?thesis .
qed

lemma parse_date_le:
  "parse_date a = Some x \<Longrightarrow> parse_date b = Some z \<Longrightarrow> a \<le> b \<longleftrightarrow> x \<le> z"
  using parse_date_less[of a x b z] parse_date_less[of b z a x] by (metis leD le_less_linear order.order_iff_strict)

end
