(* ===== verification/Medicine.thy ===== *)
theory Medicine
  imports DateOrder
begin

text \<open>
  The medicine row every inventory and expiry view receives (the \<open>Medicine\<close>
  interface of src/src/components/ExpiryList.tsx, InventoryTable.tsx and the
  inventory and expiry pages), the classification of its derived flags, and the
  column sort that InventoryTable.tsx and ExpiryList.tsx share.

  The derived flags come from the \<open>/api/medicines\<close> route, which is not part of
  the sources: \<open>classify\<close> is modelled from the specification (section 4.1)
  using the code's own \<open>calculateDaysUntilExpiry\<close> and \<open>isLowStock\<close>.
  JavaScript's \<open>Array.prototype.sort\<close> is stable (ES2019); it is modelled as
  a stable insertion sort driven by the component's comparator, and
  \<open>localeCompare\<close> as code-point lexicographic order (equal on ASCII names up
  to the locale's case rules, which the model does not cover).
\<close>

subsection \<open>Definitions\<close>

record medicine =
  medicine_id :: string
  name :: string
  stock :: int
  price :: money
  batch :: string
  supplier :: string
  expiryDate :: string
  schedule :: "string option"
  daysUntilExpiry :: int
  isLowStock :: bool
  isExpiringSoon :: bool
  isExpired :: bool

text \<open>\<open>isLowStock(stock, threshold = 10)\<close>, utils.ts lines 95--97.\<close>

definition isLowStock_util :: "int \<Rightarrow> int \<Rightarrow> bool" where
  "isLowStock_util s threshold \<longleftrightarrow> s < threshold"

datatype stock_variant = Destructive | Outline | Secondary

text \<open>\<open>getStockStatus(stock, threshold = 10)\<close>, utils.ts lines 102--106.\<close>

definition getStockStatus :: "int \<Rightarrow> int \<Rightarrow> stock_variant" where
  "getStockStatus s threshold =
     (if s = 0 then Destructive else if s < threshold then Outline else Secondary)"

text \<open>
  The derived flags of a row as the medicines route computes them (spec 4.1):
  days until expiry by \<open>calculateDaysUntilExpiry\<close>, expired when negative,
  expiring soon within the selected window, low stock below 10 units. An
  unparsable expiry date gives no row (\<open>None\<close>).
\<close>

definition classify :: "millis \<Rightarrow> millis \<Rightarrow> int \<Rightarrow> medicine \<Rightarrow> medicine option" where
  "classify tz now window m =
     (case calculateDaysUntilExpiry tz now (expiryDate m) of
        None \<Rightarrow> None
      | Some d \<Rightarrow> Some (m\<lparr>daysUntilExpiry := d,
                          isLowStock := isLowStock_util (stock m) 10,
                          isExpiringSoon := (0 \<le> d \<and> d \<le> window),
                          isExpired := d < 0\<rparr>))"

text \<open>The well-formedness of a row: its flags agree with its day count and stock.\<close>

definition flags_consistent :: "int \<Rightarrow> medicine \<Rightarrow> bool" where
  "flags_consistent window m \<longleftrightarrow>
     isExpired m = (daysUntilExpiry m < 0) \<and>
     isExpiringSoon m = (0 \<le> daysUntilExpiry m \<and> daysUntilExpiry m \<le> window) \<and>
     isLowStock m = (stock m < 10)"

subsubsection \<open>The column sort\<close>

datatype sort_direction = Asc | Desc

datatype medicine_field =
    F_id | F_name | F_stock | F_price | F_batch | F_supplier | F_expiryDate | F_schedule
  | F_daysUntilExpiry | F_isLowStock | F_isExpiringSoon | F_isExpired

text \<open>What \<open>a[sortField]\<close> is at run time: a string, a number, or anything else.\<close>

datatype field_value = StrVal string | NumVal rat | OtherVal

fun field_of :: "medicine_field \<Rightarrow> medicine \<Rightarrow> field_value" where
  "field_of F_id m = StrVal (medicine_id m)"
| "field_of F_name m = StrVal (name m)"
| "field_of F_stock m = NumVal (of_int (stock m))"
| "field_of F_price m = NumVal (price m)"
| "field_of F_batch m = StrVal (batch m)"
| "field_of F_supplier m = StrVal (supplier m)"
| "field_of F_expiryDate m = StrVal (expiryDate m)"
| "field_of F_schedule m = (case schedule m of Some s \<Rightarrow> StrVal s | None \<Rightarrow> OtherVal)"
| "field_of F_daysUntilExpiry m = NumVal (of_int (daysUntilExpiry m))"
| "field_of F_isLowStock m = OtherVal"
| "field_of F_isExpiringSoon m = OtherVal"
| "field_of F_isExpired m = OtherVal"

definition localeCompare :: "string \<Rightarrow> string \<Rightarrow> rat" where
  "localeCompare a b = (if a < b then -1 else if a = b then 0 else 1)"

text \<open>The comparator passed to \<open>sort\<close>, InventoryTable.tsx lines 51--66.\<close>

definition compare_medicines :: "medicine_field \<Rightarrow> sort_direction \<Rightarrow> medicine \<Rightarrow> medicine \<Rightarrow> rat" where
  "compare_medicines f dir a b =
     (case (field_of f a, field_of f b) of
        (StrVal x, StrVal y) \<Rightarrow> (if dir = Asc then localeCompare x y else localeCompare y x)
      | (NumVal x, NumVal y) \<Rightarrow> (if dir = Asc then x - y else y - x)
      | _ \<Rightarrow> 0)"

text \<open>A stable sort by a comparator: an element goes before the first element it does not exceed.\<close>

fun insort_cmp :: "('a \<Rightarrow> 'a \<Rightarrow> rat) \<Rightarrow> 'a \<Rightarrow> 'a list \<Rightarrow> 'a list" where
  "insort_cmp cmp x [] = [x]"
| "insort_cmp cmp x (y # ys) = (if cmp x y \<le> 0 then x # y # ys else y # insort_cmp cmp x ys)"

definition sort_cmp :: "('a \<Rightarrow> 'a \<Rightarrow> rat) \<Rightarrow> 'a list \<Rightarrow> 'a list" where
  "sort_cmp cmp xs = foldr (insort_cmp cmp) xs []"

text \<open>
  \<open>handleSort(field)\<close> (InventoryTable.tsx lines 42--49, ExpiryList.tsx lines
  38--45): clicking the current column flips the direction, another column
  becomes the sort column in ascending order.
\<close>

definition handleSort :: "medicine_field \<times> sort_direction \<Rightarrow> medicine_field \<Rightarrow> medicine_field \<times> sort_direction" where
  "handleSort st field =
     (let (sortField, sortDirection) = st in
      if sortField = field then (sortField, if sortDirection = Asc then Desc else Asc)
      else (field, Asc))"

subsection \<open>Lemmas\<close>

lemma isLowStock_util_default: "isLowStock_util s 10 \<longleftrightarrow> s < 10"
  by (simp add: isLowStock_util_def)

lemma classify_Some:
  "calculateDaysUntilExpiry tz now (expiryDate m) = Some d \<Longrightarrow>
   classify tz now window m = Some (m\<lparr>daysUntilExpiry := d, isLowStock := stock m < 10,
      isExpiringSoon := (0 \<le> d \<and> d \<le> window), isExpired := d < 0\<rparr>)"
  by (simp add: classify_def isLowStock_util_def)

lemma classify_consistent:
  "classify tz now window m = Some m' \<Longrightarrow> flags_consistent window m'"
  by (auto simp: classify_def flags_consistent_def isLowStock_util_def split: option.splits)

lemma classify_keeps_record:
  "classify tz now window m = Some m' \<Longrightarrow>
   name m' = name m \<and> stock m' = stock m \<and> price m' = price m \<and> expiryDate m' = expiryDate m \<and>
   batch m' = batch m \<and> supplier m' = supplier m \<and> schedule m' = schedule m"
  by (auto simp: classify_def split: option.splits)

lemma mset_insort_cmp: "mset (insort_cmp cmp x xs) = add_mset x (mset xs)"
  by (induction xs) auto

lemma mset_sort_cmp: "mset (sort_cmp cmp xs) = mset xs"
  by (induction xs) (simp_all add: sort_cmp_def mset_insort_cmp)

lemma insort_cmp_key:
  "(\<And>a b. cmp a b \<le> 0 \<longleftrightarrow> f a \<le> f b) \<Longrightarrow> insort_cmp cmp x xs = insort_key f x xs"
  by (induction xs) auto

lemma sort_cmp_key:
  "(\<And>a b. cmp a b \<le> 0 \<longleftrightarrow> f a \<le> f b) \<Longrightarrow> sort_cmp cmp xs = sort_key f xs"
  by (induction xs) (simp_all add: sort_cmp_def insort_cmp_key)

lemma localeCompare_le: "localeCompare x y \<le> 0 \<longleftrightarrow> x \<le> y"
  by (auto simp: localeCompare_def)

text \<open>The comparator need agree with the key only on the elements sorted.\<close>

lemma insort_cmp_key_on:
  "\<forall>b \<in> set xs. cmp x b \<le> 0 \<longleftrightarrow> f x \<le> f b \<Longrightarrow> insort_cmp cmp x xs = insort_key f x xs"
  by (induction xs) auto

lemma sort_cmp_key_on:
  "\<forall>a \<in> set xs. \<forall>b \<in> set xs. cmp a b \<le> 0 \<longleftrightarrow> f a \<le> f b \<Longrightarrow> sort_cmp cmp xs = sort_key f xs"
proof (induction xs)
  case (Cons x xs)
  then have "sort_cmp cmp xs = sort_key f xs" by simp
  moreover have "\<forall>b \<in> set (sort_key f xs). cmp x b \<le> 0 \<longleftrightarrow> f x \<le> f b" using Cons.prems by simp
  ultimately show ?case by (simp add: sort_cmp_def insort_cmp_key_on)
qed (simp add: sort_cmp_def)

end
