(* ===== verification/ExpiryList.thy ===== *)
theory ExpiryList
  imports Medicine
begin

text \<open>
  The expiry table of src/src/components/ExpiryList.tsx: the status filter, the
  search, the sort (which, without a filter, sorts the parent's array in place),
  the badge, the status column of the CSV export and the summary counts; and
  the statistics cards of src/src/app/expiry/page.tsx.
\<close>

subsection \<open>Definitions\<close>

datatype expiry_filter = FilterAll | FilterExpired | FilterCritical | FilterWarning

text \<open>The search of \<open>getFilteredMedicines\<close>, ExpiryList.tsx lines 50--57.\<close>

definition matches_search :: "string \<Rightarrow> medicine \<Rightarrow> bool" where
  "matches_search searchTerm m \<longleftrightarrow>
     js_includes (js_lower (name m)) (js_lower searchTerm) \<or>
     js_includes (js_lower (supplier m)) (js_lower searchTerm) \<or>
     js_includes (js_lower (batch m)) (js_lower searchTerm)"

text \<open>The status filter, ExpiryList.tsx lines 59--73.\<close>

fun filter_by :: "expiry_filter \<Rightarrow> medicine list \<Rightarrow> medicine list" where
  "filter_by FilterExpired ms = filter isExpired ms"
| "filter_by FilterCritical ms = filter (\<lambda>m. daysUntilExpiry m \<le> 15 \<and> daysUntilExpiry m > 0) ms"
| "filter_by FilterWarning ms = filter (\<lambda>m. daysUntilExpiry m > 15 \<and> daysUntilExpiry m \<le> 30) ms"
| "filter_by FilterAll ms = ms"

text \<open>
  \<open>getFilteredMedicines()\<close>, ExpiryList.tsx lines 47--92. The result is the
  displayed list and the parent's \<open>medicines\<close> array after the call:
  \<open>Array.prototype.sort\<close> sorts in place, and with an empty search and the
  filter \<open>'all'\<close> the array it sorts is the \<open>medicines\<close> prop itself.
\<close>

definition getFilteredMedicines ::
  "string \<Rightarrow> expiry_filter \<Rightarrow> medicine_field \<times> sort_direction \<Rightarrow> medicine list \<Rightarrow>
   medicine list \<times> medicine list" where
  "getFilteredMedicines searchTerm filterBy st medicines =
     (let filtered = (if searchTerm \<noteq> [] then filter (matches_search searchTerm) medicines
                      else medicines);
          filtered = filter_by filterBy filtered;
          aliased = (searchTerm = [] \<and> filterBy = FilterAll);
          sorted = sort_cmp (compare_medicines (fst st) (snd st)) filtered
      in (sorted, if aliased then sorted else medicines))"

datatype expiry_badge = BadgeExpired | BadgeCritical | BadgeWarning | BadgeNormal

text \<open>\<open>getExpiryBadge(medicine)\<close>, ExpiryList.tsx lines 105--116.\<close>

definition getExpiryBadge :: "medicine \<Rightarrow> expiry_badge" where
  "getExpiryBadge m =
     (if isExpired m then BadgeExpired
      else if daysUntilExpiry m \<le> 15 then BadgeCritical
      else if daysUntilExpiry m \<le> 30 then BadgeWarning
      else BadgeNormal)"

text \<open>The text each badge shows.\<close>

fun badge_label :: "expiry_badge \<Rightarrow> string" where
  "badge_label BadgeExpired = ''Expired''"
| "badge_label BadgeCritical = ''Critical''"
| "badge_label BadgeWarning = ''Warning''"
| "badge_label BadgeNormal = ''Normal''"

text \<open>The \<open>Status\<close> column of the CSV export, ExpiryList.tsx line 147.\<close>

definition export_status :: "medicine \<Rightarrow> string" where
  "export_status m =
     (if isExpired m then ''Expired''
      else if daysUntilExpiry m \<le> 15 then ''Critical''
      else if daysUntilExpiry m \<le> 30 then ''Warning'' else ''Normal'')"

record expiry_summary =
  sum_expired :: nat
  sum_critical :: nat
  sum_warning :: nat
  sum_total_value :: money

text \<open>The summary line under the table, ExpiryList.tsx lines 325--333.\<close>

definition expiry_list_summary :: "medicine list \<Rightarrow> expiry_summary" where
  "expiry_list_summary fm =
     \<lparr>sum_expired = length (filter isExpired fm),
      sum_critical = length (filter (\<lambda>m. daysUntilExpiry m \<le> 15 \<and> \<not> isExpired m) fm),
      sum_warning = length (filter (\<lambda>m. daysUntilExpiry m > 15 \<and> daysUntilExpiry m \<le> 30) fm),
      sum_total_value = js_sum (\<lambda>m. of_int (stock m) * price m) fm\<rparr>"

record expiry_stats =
  expiring15Days :: nat
  expiring30Days :: nat
  expired_count :: nat
  totalValue :: money

text \<open>
  The statistics cards of the expiry page, page.tsx lines 50--73. The day
  count is the page's own (\<open>page_days_until_expiry\<close>); a NaN count fails both
  comparisons.
\<close>

definition page_window :: "millis \<Rightarrow> int \<Rightarrow> medicine \<Rightarrow> bool" where
  "page_window now limit m =
     (case page_days_until_expiry now (expiryDate m) of
        None \<Rightarrow> False
      | Some d \<Rightarrow> d \<le> limit \<and> d > 0)"

definition expiry_page_stats :: "millis \<Rightarrow> medicine list \<Rightarrow> expiry_stats" where
  "expiry_page_stats now ms =
     \<lparr>expiring15Days = length (filter (page_window now 15) ms),
      expiring30Days = length (filter (page_window now 30) ms),
      expired_count = length (filter isExpired ms),
      totalValue = js_sum (\<lambda>m. of_int (stock m) * price m) ms\<rparr>"

text \<open>A row of the expiry table with the given day count, as the medicines route returns it.\<close>

definition demo_row :: "string \<Rightarrow> int \<Rightarrow> medicine" where
  "demo_row n d =
     \<lparr>medicine_id = n, name = n, stock = 20, price = 12, batch = ''B1'', supplier = ''PharmaCorp'',
      expiryDate = ''2024-04-20'', schedule = None, daysUntilExpiry = d, isLowStock = False,
      isExpiringSoon = (0 \<le> d \<and> d \<le> 30), isExpired = d < 0\<rparr>"

subsection \<open>Lemmas\<close>

lemma getExpiryBadge_cases:
  "flags_consistent w m \<Longrightarrow>
   getExpiryBadge m =
     (if daysUntilExpiry m < 0 then BadgeExpired
      else if daysUntilExpiry m \<le> 15 then BadgeCritical
      else if daysUntilExpiry m \<le> 30 then BadgeWarning else BadgeNormal)"
  by (simp add: getExpiryBadge_def flags_consistent_def)

lemma badge_critical_iff:
  "flags_consistent w m \<Longrightarrow>
   getExpiryBadge m = BadgeCritical \<longleftrightarrow> 0 \<le> daysUntilExpiry m \<and> daysUntilExpiry m \<le> 15"
  by (auto simp: getExpiryBadge_cases)

lemma filter_by_subseq: "subseq (filter_by f ms) ms"
  by (cases f) (simp_all add: filter_subseq)

lemma compare_days_le:
  "compare_medicines F_daysUntilExpiry Asc a b \<le> 0 \<longleftrightarrow> daysUntilExpiry a \<le> daysUntilExpiry b"
  by (simp add: compare_medicines_def)

lemma compare_name_le:
  "compare_medicines F_name Asc a b \<le> 0 \<longleftrightarrow> name a \<le> name b"
  by (simp add: compare_medicines_def localeCompare_le)

lemma compare_stock_desc_le:
  "compare_medicines F_stock Desc a b \<le> 0 \<longleftrightarrow> - stock a \<le> - stock b"
  by (simp add: compare_medicines_def)

lemma sort_days_key:
  "sort_cmp (compare_medicines F_daysUntilExpiry Asc) xs = sort_key daysUntilExpiry xs"
  by (rule sort_cmp_key) (rule compare_days_le)

lemma flags_critical_cong:
  assumes "\<forall>m \<in> set ms. flags_consistent w m"
  shows "filter (\<lambda>m. daysUntilExpiry m \<le> 15 \<and> daysUntilExpiry m > 0) ms =
           filter (\<lambda>m. getExpiryBadge m = BadgeCritical \<and> daysUntilExpiry m \<noteq> 0) ms"
    and "filter (\<lambda>m. daysUntilExpiry m \<le> 15 \<and> \<not> isExpired m) ms =
           filter (\<lambda>m. getExpiryBadge m = BadgeCritical) ms"
proof -
  have fc: "flags_consistent w m" if "m \<in> set ms" for m
    using assms that by blast
  show "filter (\<lambda>m. daysUntilExpiry m \<le> 15 \<and> daysUntilExpiry m > 0) ms =
          filter (\<lambda>m. getExpiryBadge m = BadgeCritical \<and> daysUntilExpiry m \<noteq> 0) ms"
  proof (rule filter_cong[OF refl])
    fix m assume "m \<in> set ms"
    from badge_critical_iff[OF fc[OF this]]
    show "(daysUntilExpiry m \<le> 15 \<and> daysUntilExpiry m > 0) =
            (getExpiryBadge m = BadgeCritical \<and> daysUntilExpiry m \<noteq> 0)"
      by arith
  qed
  show "filter (\<lambda>m. daysUntilExpiry m \<le> 15 \<and> \<not> isExpired m) ms =
          filter (\<lambda>m. getExpiryBadge m = BadgeCritical) ms"
  proof (rule filter_cong[OF refl])
    fix m assume m: "m \<in> set ms"
    have "isExpired m = (daysUntilExpiry m < 0)"
      using fc[OF m] by (simp add: flags_consistent_def)
    with badge_critical_iff[OF fc[OF m]]
    show "(daysUntilExpiry m \<le> 15 \<and> \<not> isExpired m) = (getExpiryBadge m = BadgeCritical)"
      by arith
  qed
qed

subsection \<open>Properties\<close>

text \<open>
  The Status column of the expiry CSV export is always the label of the
  badge the table shows for the same row (Expired, Critical, Warning, Normal).
\<close>

theorem export_status_matches_badge: "export_status m = badge_label (getExpiryBadge m)"
  by (simp add: export_status_def getExpiryBadge_def)

text \<open>
  C23: on rows whose flags are consistent, the Critical badge and the summary's
  Critical count cover the days 0 to 15, while the Critical filter keeps only
  the days 1 to 15: a medicine expiring today is labelled and counted Critical
  but is not shown under the Critical filter.
\<close>

theorem critical_filter_excludes_day_zero:
  assumes "\<forall>m \<in> set ms. flags_consistent w m"
  shows "filter_by FilterCritical ms =
           filter (\<lambda>m. getExpiryBadge m = BadgeCritical \<and> daysUntilExpiry m \<noteq> 0) ms \<and>
         sum_critical (expiry_list_summary ms) =
           length (filter (\<lambda>m. getExpiryBadge m = BadgeCritical) ms)"
  using flags_critical_cong[OF assms] by (simp add: expiry_list_summary_def)

text \<open>
  C35: The default view of the expiry table is sorted by days until expiry,
  ascending, and is a rearrangement of the searched and filtered rows: it is
  the library's stable sort by that key.
\<close>

theorem expiry_table_sorted_by_days:
  "fst (getFilteredMedicines s f (F_daysUntilExpiry, Asc) ms) =
     sort_key daysUntilExpiry (filter_by f (if s = [] then ms else filter (matches_search s) ms)) \<and>
   sorted (map daysUntilExpiry (fst (getFilteredMedicines s f (F_daysUntilExpiry, Asc) ms))) \<and>
   mset (fst (getFilteredMedicines s f (F_daysUntilExpiry, Asc) ms)) =
     mset (filter_by f (if s = [] then ms else filter (matches_search s) ms))"
  by (simp add: getFilteredMedicines_def Let_def sort_days_key)

text \<open>
  With an empty search and the filter 'all', getFilteredMedicines sorts the
  parent's medicines array itself: after the call the prop holds the sorted
  rows, not the order the parent stored.
\<close>

theorem expiry_sort_mutates_prop:
  "snd (getFilteredMedicines [] FilterAll st ms) = sort_cmp (compare_medicines (fst st) (snd st)) ms \<and>
   snd (getFilteredMedicines (c # cs) f st ms) = ms"
  by (simp add: getFilteredMedicines_def Let_def)

text \<open>
  Clicking a column header twice returns the sort state to where it was if
  that column was already the sort column, and otherwise leaves the column
  sorted descending; the clicked column is always the sort column.
\<close>

theorem handleSort_twice:
  "fst (handleSort st f) = f \<and>
   handleSort (handleSort st f) f = (if fst st = f then st else (f, Desc))"
  by (cases st; cases "snd st") (auto simp: handleSort_def)

subsection \<open>Witnesses\<close>

theorem critical_filter_excludes_day_zero_witness:
  "filter_by FilterCritical [demo_row ''A'' 0, demo_row ''B'' 7] = [demo_row ''B'' 7] \<and>
   sum_critical (expiry_list_summary [demo_row ''A'' 0, demo_row ''B'' 7]) = 2"
proof -
  have h: "\<forall>m \<in> set [demo_row ''A'' 0, demo_row ''B'' 7]. flags_consistent 30 m"
    by (simp add: demo_row_def flags_consistent_def)
  have b: "getExpiryBadge (demo_row ''A'' 0) = BadgeCritical" "getExpiryBadge (demo_row ''B'' 7) = BadgeCritical"
    by (simp_all add: demo_row_def getExpiryBadge_def)
  have d: "daysUntilExpiry (demo_row ''A'' 0) = 0" "daysUntilExpiry (demo_row ''B'' 7) = 7"
    by (simp_all add: demo_row_def)
  show ?thesis
    using critical_filter_excludes_day_zero[OF h] b d by simp
qed
end
