(* ===== verification/Csv.thy ===== *)
theory Csv
  imports Prelude
begin

text \<open>
  CSV export. \<open>exportToCSV(data, headers, filename)\<close> of src/src/lib/utils.ts
  builds the file's text from row objects: a header line of the bare header
  names, then one line per row whose cells are \<open>row[header] || ''\<close> converted
  with \<open>String\<close>, quotes doubled and the whole cell quoted. The download
  itself (Blob, link, click) is not modelled. To state that the text means
  what it should, the theory defines a reader for RFC 4180 CSV (quoted fields
  with doubled quotes, fields separated by commas, records by newlines) as a
  character-level state machine, and proves that it reads back the header
  line and every cell.

  A cell value is what the row object holds under a key: a string, a number
  or \<open>undefined\<close> (a missing key or a missing property). JavaScript's
  \<open>String(number)\<close> is a parameter \<open>num_str\<close> of the model: the theorems hold
  for any number formatting.
\<close>

subsection \<open>Definitions\<close>

datatype cell = CStr string | CNum rat | CUndef

type_synonym csv_row = "(string \<times> cell) list"

text \<open>\<open>row[header]\<close> on an object literal: the value under the key, \<open>undefined\<close> if absent.\<close>

definition row_get :: "csv_row \<Rightarrow> string \<Rightarrow> cell" where
  "row_get row h = (case map_of row h of Some c \<Rightarrow> c | None \<Rightarrow> CUndef)"

text \<open>\<open>value || ''\<close>: a falsy value (empty string, 0, \<open>undefined\<close>) becomes the empty string.\<close>

definition or_empty :: "cell \<Rightarrow> cell" where
  "or_empty c = (case c of CStr s \<Rightarrow> CStr s | CNum r \<Rightarrow> (if r = 0 then CStr [] else CNum r) | CUndef \<Rightarrow> CStr [])"

text \<open>\<open>a || b\<close> for an optional string \<open>a\<close> and a string \<open>b\<close>.\<close>

definition or_str :: "string option \<Rightarrow> string \<Rightarrow> string" where
  "or_str a b = (case a of Some s \<Rightarrow> if s = [] then b else s | None \<Rightarrow> b)"

definition cell_text :: "(rat \<Rightarrow> string) \<Rightarrow> cell \<Rightarrow> string" where
  "cell_text num_str c = (case c of CStr s \<Rightarrow> s | CNum r \<Rightarrow> num_str r | CUndef \<Rightarrow> ''undefined'')"

text \<open>\<open>Array.prototype.join(sep)\<close>.\<close>

fun js_join :: "string \<Rightarrow> string list \<Rightarrow> string" where
  "js_join sep [] = []"
| "js_join sep [x] = x"
| "js_join sep (x # y # ys) = x @ sep @ js_join sep (y # ys)"

definition dq :: char where "dq = CHR 0x22"
definition nl :: char where "nl = CHR 0x0A"
definition comma :: char where "comma = CHR 0x2C"

text \<open>\<open>String(value).replace(/"/g, '""')\<close> inside quotes.\<close>

definition csv_quote :: "string \<Rightarrow> string" where
  "csv_quote v = dq # concat (map (\<lambda>c. if c = dq then [dq, dq] else [c]) v) @ [dq]"

datatype csv_error = NoDataToExport

text \<open>The text \<open>exportToCSV\<close> writes, utils.ts lines 11--29; empty data throws.\<close>

definition exportToCSV :: "(rat \<Rightarrow> string) \<Rightarrow> csv_row list \<Rightarrow> string list \<Rightarrow> csv_error + string" where
  "exportToCSV num_str data headers =
     (if data = [] then Inl NoDataToExport
      else Inr (js_join [nl]
        (js_join [comma] headers #
         map (\<lambda>row. js_join [comma]
                (map (\<lambda>h. csv_quote (cell_text num_str (or_empty (row_get row h)))) headers)) data)))"

text \<open>The reader's states: at the start of a field, in an unquoted field, in a quoted field, after a quote in a quoted field.\<close>

datatype lex_state = FieldStart | Unquoted | Quoted | QuoteSeen

fun csv_lex :: "lex_state \<Rightarrow> string \<Rightarrow> string list \<Rightarrow> string list list \<Rightarrow> string \<Rightarrow> string list list option" where
  "csv_lex st fld rc rcs [] = (if st = Quoted then None else Some (rcs @ [rc @ [fld]]))"
| "csv_lex st fld rc rcs (c # cs) =
     (case st of
        FieldStart \<Rightarrow>
          if c = dq then csv_lex Quoted [] rc rcs cs
          else if c = comma then csv_lex FieldStart [] (rc @ [[]]) rcs cs
          else if c = nl then csv_lex FieldStart [] [] (rcs @ [rc @ [[]]]) cs
          else csv_lex Unquoted [c] rc rcs cs
      | Unquoted \<Rightarrow>
          if c = comma then csv_lex FieldStart [] (rc @ [fld]) rcs cs
          else if c = nl then csv_lex FieldStart [] [] (rcs @ [rc @ [fld]]) cs
          else csv_lex Unquoted (fld @ [c]) rc rcs cs
      | Quoted \<Rightarrow>
          if c = dq then csv_lex QuoteSeen fld rc rcs cs else csv_lex Quoted (fld @ [c]) rc rcs cs
      | QuoteSeen \<Rightarrow>
          if c = dq then csv_lex Quoted (fld @ [dq]) rc rcs cs
          else if c = comma then csv_lex FieldStart [] (rc @ [fld]) rcs cs
          else if c = nl then csv_lex FieldStart [] [] (rcs @ [rc @ [fld]]) cs
          else None)"

definition parse_csv :: "string \<Rightarrow> string list list option" where
  "parse_csv s = csv_lex FieldStart [] [] [] s"

text \<open>A header that can stand unquoted: non-empty, without comma, quote or newline.\<close>

definition plain_field :: "string \<Rightarrow> bool" where
  "plain_field h \<longleftrightarrow> h \<noteq> [] \<and> comma \<notin> set h \<and> dq \<notin> set h \<and> nl \<notin> set h"

definition export_cells :: "(rat \<Rightarrow> string) \<Rightarrow> string list \<Rightarrow> csv_row \<Rightarrow> string list" where
  "export_cells num_str headers row = map (\<lambda>h. cell_text num_str (or_empty (row_get row h))) headers"

text \<open>Sample rows: a cell with quotes and a comma, a cell holding 0, and a missing key.\<close>

definition sample_rows :: "csv_row list" where
  "sample_rows = [[(''name'', CStr ''Dr. \"Raj\", Clinic''), (''qty'', CNum 0)], [(''name'', CStr ''B'')]]"

subsection \<open>Lemmas\<close>

lemma js_join_Cons: "xs \<noteq> [] \<Longrightarrow> js_join sep (x # xs) = x @ sep @ js_join sep xs"
  by (cases xs) simp_all


lemma csv_chars_distinct [simp]:
  "dq \<noteq> comma" "dq \<noteq> nl" "comma \<noteq> nl" "comma \<noteq> dq" "nl \<noteq> dq" "nl \<noteq> comma"
  by (simp_all add: dq_def comma_def nl_def)

text \<open>Reading an escaped cell body and its closing quote.\<close>

lemma csv_lex_escaped:
  "csv_lex Quoted fld rc rcs (concat (map (\<lambda>c. if c = dq then [dq, dq] else [c]) v) @ dq # rest) =
   csv_lex QuoteSeen (fld @ v) rc rcs rest"
  by (induction v arbitrary: fld) auto

lemma csv_lex_quoted:
  "csv_lex FieldStart [] rc rcs (csv_quote v @ rest) = csv_lex QuoteSeen v rc rcs rest"
  using csv_lex_escaped[of "[]" rc rcs v rest] by (simp add: csv_quote_def)

lemma csv_lex_plain:
  "comma \<notin> set h \<Longrightarrow> nl \<notin> set h \<Longrightarrow>
   csv_lex Unquoted fld rc rcs (h @ rest) = csv_lex Unquoted (fld @ h) rc rcs rest"
  by (induction h arbitrary: fld) auto

lemma csv_lex_plain_start:
  "plain_field h \<Longrightarrow> csv_lex FieldStart [] rc rcs (h @ rest) = csv_lex Unquoted h rc rcs rest"
  by (cases h) (auto simp: plain_field_def csv_lex_plain)

lemma csv_lex_field_end:
  assumes "S = Unquoted \<or> S = QuoteSeen"
  shows "csv_lex S fld rc rcs [] = Some (rcs @ [rc @ [fld]])"
    and "csv_lex S fld rc rcs (comma # r) = csv_lex FieldStart [] (rc @ [fld]) rcs r"
    and "csv_lex S fld rc rcs (nl # r) = csv_lex FieldStart [] [] (rcs @ [rc @ [fld]]) r"
  using assms by auto

text \<open>A record of fields, each read by the field reader into an end-of-field state.\<close>

lemma csv_lex_record:
  assumes enc: "\<And>v rc rcs rest. v \<in> set vs \<Longrightarrow>
                  csv_lex FieldStart [] rc rcs (enc v @ rest) = csv_lex S v rc rcs rest"
    and S: "S = Unquoted \<or> S = QuoteSeen" and ne: "vs \<noteq> []"
  shows "csv_lex FieldStart [] rc rcs (js_join [comma] (map enc vs)) = Some (rcs @ [rc @ vs]) \<and>
         csv_lex FieldStart [] rc rcs (js_join [comma] (map enc vs) @ nl # rest) =
           csv_lex FieldStart [] [] (rcs @ [rc @ vs]) rest"
  using enc ne
proof (induction vs arbitrary: rc)
  case (Cons v vs)
  show ?case
  proof (cases "vs = []")
    case True
    then show ?thesis
      using Cons.prems(1)[of v rc rcs "[]"] Cons.prems(1)[of v rc rcs "nl # rest"] S by auto
  next
    case False
    have step: "csv_lex FieldStart [] rc rcs (js_join [comma] (map enc (v # vs)) @ r) =
          csv_lex FieldStart [] (rc @ [v]) rcs (js_join [comma] (map enc vs) @ r)" for r
      using Cons.prems(1)[of v rc rcs "comma # js_join [comma] (map enc vs) @ r"] False S
      by (cases vs) auto
    moreover have "csv_lex FieldStart [] (rc @ [v]) rcs (js_join [comma] (map enc vs)) =
                   Some (rcs @ [rc @ v # vs]) \<and>
                   csv_lex FieldStart [] (rc @ [v]) rcs (js_join [comma] (map enc vs) @ nl # rest) =
                   csv_lex FieldStart [] [] (rcs @ [rc @ v # vs]) rest"
      using Cons.IH[of "rc @ [v]"] Cons.prems(1) False by simp
    ultimately show ?thesis using step[of "[]"] by simp
  qed
qed simp

lemma csv_lex_plain_field:
  "plain_field h \<Longrightarrow> csv_lex FieldStart [] rc rcs (id h @ rest) = csv_lex Unquoted h rc rcs rest"
  by (simp add: csv_lex_plain_start)

text \<open>Lines of quoted records, one per row.\<close>

lemma csv_lex_quoted_lines:
  "rows \<noteq> [] \<Longrightarrow> (\<forall>r \<in> set rows. r \<noteq> []) \<Longrightarrow>
   csv_lex FieldStart [] [] rcs (js_join [nl] (map (\<lambda>r. js_join [comma] (map csv_quote r)) rows)) =
   Some (rcs @ rows)"
proof (induction rows arbitrary: rcs)
  case (Cons r rows)
  note rec = csv_lex_record[where enc = csv_quote and S = QuoteSeen and vs = r, OF csv_lex_quoted]
  show ?case
  proof (cases rows)
    case Nil
    then show ?thesis using rec[of "[]" rcs] Cons.prems by simp
  next
    case (Cons w ws)
    then show ?thesis using rec[of "[]" rcs] Cons.prems Cons.IH[of "rcs @ [r]"] by simp
  qed
qed simp

text \<open>A document: a line of plain headers, then one line of quoted fields per row.\<close>

lemma parse_csv_document:
  assumes "headers \<noteq> []" and "\<forall>h \<in> set headers. plain_field h" and "\<forall>r \<in> set rows. r \<noteq> []"
  shows "parse_csv (js_join [nl] (js_join [comma] headers # map (\<lambda>r. js_join [comma] (map csv_quote r)) rows)) =
         Some (headers # rows)"
proof -
  have hdr: "csv_lex FieldStart [] [] [] (js_join [comma] (map id headers) @ nl # rest) =
             csv_lex FieldStart [] [] [headers] rest" for rest
    using csv_lex_record[where enc = id and S = Unquoted and vs = headers, OF csv_lex_plain_field]
      assms(1,2) by simp
  have hdr0: "csv_lex FieldStart [] [] [] (js_join [comma] (map id headers)) = Some [headers]"
    using csv_lex_record[where enc = id and S = Unquoted and vs = headers, OF csv_lex_plain_field]
      assms(1,2) by simp
  show ?thesis
  proof (cases "rows = []")
    case True
    then show ?thesis using hdr0 by (simp add: parse_csv_def)
  next
    case False
    note lines = csv_lex_quoted_lines[OF False assms(3), of "[headers]"]
    show ?thesis using False hdr[of "js_join [nl] (map (\<lambda>r. js_join [comma] (map csv_quote r)) rows)"] lines
      by (simp add: parse_csv_def js_join_Cons)
  qed
qed

lemma csv_lex_quoted_plain:
  "dq \<notin> set x \<Longrightarrow> csv_lex Quoted fld rc rcs (x @ rest) = csv_lex Quoted (fld @ x) rc rcs rest"
  by (induction x arbitrary: fld) auto

subsection \<open>Properties\<close>

text \<open>
  C14: whenever \<open>exportToCSV\<close> produces a file for headers that can stand
  unquoted, a CSV reader reads back exactly the header line and, for each
  row, the text of each header's cell after \<open>|| ''\<close>: quotes, commas and
  newlines in cell values survive the export.
\<close>

theorem export_csv_roundtrip:
  assumes "headers \<noteq> []" and "\<forall>h \<in> set headers. plain_field h"
    and "exportToCSV num_str data headers = Inr s"
  shows "parse_csv s = Some (headers # map (export_cells num_str headers) data)"
proof -
  let ?rows = "map (export_cells num_str headers) data"
  have s: "s = js_join [nl] (js_join [comma] headers # map (\<lambda>r. js_join [comma] (map csv_quote r)) ?rows)"
    using assms(3) by (auto simp: exportToCSV_def export_cells_def comp_def split: if_splits)
  have "\<forall>r \<in> set ?rows. r \<noteq> []" using assms(1) by (auto simp: export_cells_def)
  from parse_csv_document[OF assms(1,2) this] show ?thesis unfolding s .
qed

theorem export_csv_roundtrip_witness:
  "\<exists>s. exportToCSV (\<lambda>r. ''#'') sample_rows [''name'', ''qty''] = Inr s \<and>
       parse_csv s = Some [[''name'', ''qty''], [''Dr. \"Raj\", Clinic'', []], [''B'', []]]"
proof -
  obtain s where s: "exportToCSV (\<lambda>r. ''#'') sample_rows [''name'', ''qty''] = Inr s"
    by (simp add: exportToCSV_def sample_rows_def)
  have h: "[''name'', ''qty''] \<noteq> []" "\<forall>h \<in> set [''name'', ''qty'']. plain_field h"
    by (simp_all add: plain_field_def dq_def comma_def nl_def)
  show ?thesis
    using export_csv_roundtrip[OF h s] s
    by (simp add: sample_rows_def export_cells_def row_get_def or_empty_def cell_text_def)
qed

end
