(* ===== verification/ExpiryExport.thy ===== *)
theory ExpiryExport
  imports ExpiryList Csv
begin

text \<open>
  The expiry report of src/src/components/ExpiryList.tsx: \<open>handleExportCSV\<close>
  builds one row object per listed medicine and hands it to \<open>exportToCSV\<close>
  (Csv.thy). JavaScript's \<open>String(number)\<close>, \<open>toFixed(2)\<close> and the
  \<open>en-IN\<close> date formatting are parameters \<open>num_str\<close>, \<open>fixed2\<close> and
  \<open>loc\<close>. The theorem gives the text of every cell of the file as a reader
  sees it, including the cells that \<open>|| ''\<close> blanks.
\<close>

subsection \<open>Definitions\<close>

text \<open>The rupee sign, U+20B9, in UTF-8.\<close>

definition rupee :: string where
  "rupee = [char_of (226::nat), char_of (130::nat), char_of (185::nat)]"

text \<open>\<open>formatDate(dateString)\<close>, ExpiryList.tsx lines 96--103, with the locale formatting as a parameter.\<close>

definition expiry_date_text :: "(string \<Rightarrow> string) \<Rightarrow> string \<Rightarrow> string" where
  "expiry_date_text loc s = (if s = [] then ''N/A'' else loc s)"

text \<open>The row object of \<open>handleExportCSV\<close>, lines 137--148.\<close>

definition expiry_csv_row ::
  "(rat \<Rightarrow> string) \<Rightarrow> (rat \<Rightarrow> string) \<Rightarrow> (string \<Rightarrow> string) \<Rightarrow> medicine \<Rightarrow> csv_row" where
  "expiry_csv_row num_str fixed2 loc m =
     [(''Medicine Name'', CStr (name m)), (''Batch Number'', CStr (batch m)),
      (''Supplier'', CStr (supplier m)), (''Expiry Date'', CStr (expiry_date_text loc (expiryDate m))),
      (''Days Until Expiry'', CNum (of_int (daysUntilExpiry m))), (''Current Stock'', CNum (of_int (stock m))),
      (''Price per Unit'', CStr (rupee @ num_str (price m))),
      (''Total Value'', CStr (rupee @ fixed2 (of_int (stock m) * price m))),
      (''Schedule'', CStr (or_str (schedule m) ''Regular'')), (''Status'', CStr (export_status m))]"

text \<open>The headers, lines 150--161.\<close>

definition expiry_headers :: "string list" where
  "expiry_headers =
     [''Medicine Name'', ''Batch Number'', ''Supplier'', ''Expiry Date'', ''Days Until Expiry'',
      ''Current Stock'', ''Price per Unit'', ''Total Value'', ''Schedule'', ''Status'']"

text \<open>\<open>handleExportCSV()\<close>, lines 131--166: no rows is an error (a toast), otherwise \<open>exportToCSV\<close>.\<close>

definition handleExportCSV ::
  "(rat \<Rightarrow> string) \<Rightarrow> (rat \<Rightarrow> string) \<Rightarrow> (string \<Rightarrow> string) \<Rightarrow> medicine list \<Rightarrow> csv_error + string" where
  "handleExportCSV num_str fixed2 loc filtered =
     (if filtered = [] then Inl NoDataToExport
      else exportToCSV num_str (map (expiry_csv_row num_str fixed2 loc) filtered) expiry_headers)"

text \<open>The text of each cell of a row, as the specification of the report reads it.\<close>

definition expiry_cells :: "(rat \<Rightarrow> string) \<Rightarrow> (rat \<Rightarrow> string) \<Rightarrow> (string \<Rightarrow> string) \<Rightarrow> medicine \<Rightarrow> string list" where
  "expiry_cells num_str fixed2 loc m =
     [name m, batch m, supplier m, expiry_date_text loc (expiryDate m),
      if daysUntilExpiry m = 0 then [] else num_str (of_int (daysUntilExpiry m)),
      if stock m = 0 then [] else num_str (of_int (stock m)),
      rupee @ num_str (price m), rupee @ fixed2 (of_int (stock m) * price m),
      or_str (schedule m) ''Regular'', export_status m]"

subsection \<open>Lemmas\<close>

lemma expiry_headers_plain: "\<forall>h \<in> set expiry_headers. plain_field h"
  by (simp add: expiry_headers_def plain_field_def dq_def comma_def nl_def)

lemma export_cells_expiry:
  "export_cells num_str expiry_headers (expiry_csv_row num_str fixed2 loc m) = expiry_cells num_str fixed2 loc m"
  by (simp add: export_cells_def expiry_headers_def expiry_csv_row_def expiry_cells_def row_get_def
      or_empty_def cell_text_def export_status_def)

subsection \<open>Properties\<close>

text \<open>
  The expiry report reads back as its header line and, for each listed
  medicine, its name, batch, supplier, formatted expiry date, day count and
  stock (blank when 0: \<open>|| ''\<close> treats 0 as missing), price and total
  value, schedule (Regular when none) and the badge's status label.
\<close>

theorem expiry_report_cells:
  assumes "handleExportCSV num_str fixed2 loc ms = Inr s"
  shows "parse_csv s = Some (expiry_headers # map (expiry_cells num_str fixed2 loc) ms)"
proof -
  let ?data = "map (expiry_csv_row num_str fixed2 loc) ms"
  have s: "s = js_join [nl] (js_join [comma] expiry_headers #
                 map (\<lambda>r. js_join [comma] (map csv_quote r)) (map (export_cells num_str expiry_headers) ?data))"
    using assms by (auto simp: handleExportCSV_def exportToCSV_def export_cells_def comp_def split: if_splits)
  have rows: "map (export_cells num_str expiry_headers) ?data = map (expiry_cells num_str fixed2 loc) ms"
    by (simp add: export_cells_expiry)
  have ne: "\<forall>r \<in> set (map (expiry_cells num_str fixed2 loc) ms). r \<noteq> []" by (simp add: expiry_cells_def)
  have hne: "expiry_headers \<noteq> []" by (simp add: expiry_headers_def)
  from parse_csv_document[OF hne expiry_headers_plain ne] show ?thesis unfolding s rows .
qed

theorem expiry_report_cells_witness:
  "\<exists>s. handleExportCSV (\<lambda>_. ''#'') (\<lambda>_. ''#'') (\<lambda>_. ''20 Apr 2024'') [demo_row ''A'' 0] = Inr s \<and>
       parse_csv s = Some [expiry_headers,
         [''A'', ''B1'', ''PharmaCorp'', ''20 Apr 2024'', [], ''#'', rupee @ ''#'', rupee @ ''#'', ''Regular'', ''Critical'']]"
proof -
  obtain s where s: "handleExportCSV (\<lambda>_. ''#'') (\<lambda>_. ''#'') (\<lambda>_. ''20 Apr 2024'') [demo_row ''A'' 0] = Inr s"
    by (simp add: handleExportCSV_def exportToCSV_def)
  show ?thesis using expiry_report_cells[OF s] s
    by (simp add: expiry_cells_def demo_row_def expiry_date_text_def or_str_def export_status_def)
qed

end
