(* ===== verification/ExpiryView.thy ===== *)
theory ExpiryView
  imports ExpiryList
begin

text \<open>
  The expiry feature as components. ExpiryList (src/src/components/ExpiryList.tsx)
  renders, from its props and its state (search, sort, status filter), either
  the empty message or the table with its export button, rows and summary; a
  render also sorts the parent's array in place when no filter applies
  (\<open>getFilteredMedicines\<close>, ExpiryList.thy). The expiry page
  (src/src/app/expiry/page.tsx) fetches the medicines expiring within the
  selected window, computes its statistics cards from the reply and mounts
  the list. While loading, the page renders only a skeleton, so the list is
  unmounted and its state is lost; it mounts afresh when the reply arrives.
  As in AccountingFlow.thy, a fetch is its request and its reply (replies in
  any order, the medicines the absent route returns and the clock reading
  \<open>new Date()\<close> of the reply are parameters of the reply event).
\<close>

subsection \<open>Definitions\<close>

subsubsection \<open>The rendered table\<close>

datatype tone = ToneRed | ToneOrange | ToneGreen

datatype expiry_text = ExpiredAgo int | DaysLeft tone int

text \<open>\<open>getExpiryText(medicine)\<close>, lines 118--129.\<close>

definition getExpiryText :: "medicine \<Rightarrow> expiry_text" where
  "getExpiryText m =
     (if isExpired m then ExpiredAgo \<bar>daysUntilExpiry m\<bar>
      else if daysUntilExpiry m \<le> 15 then DaysLeft ToneRed (daysUntilExpiry m)
      else if daysUntilExpiry m \<le> 30 then DaysLeft ToneOrange (daysUntilExpiry m)
      else DaysLeft ToneGreen (daysUntilExpiry m))"

datatype days_cell = DaysAgo int | DaysCount int

text \<open>The Days Left cell, lines 290--298: its colour and its text.\<close>

definition days_left_cell :: "medicine \<Rightarrow> tone \<times> days_cell" where
  "days_left_cell m =
     ((if isExpired m then ToneRed else if daysUntilExpiry m \<le> 15 then ToneRed
       else if daysUntilExpiry m \<le> 30 then ToneOrange else ToneGreen),
      (if isExpired m then DaysAgo \<bar>daysUntilExpiry m\<bar> else DaysCount (daysUntilExpiry m)))"

datatype el_tint = ElRed | ElOrange | ElYellow

text \<open>The background classes of a row, lines 266--270, in template order.\<close>

definition el_row_tints :: "medicine \<Rightarrow> el_tint list" where
  "el_row_tints m =
     (if isExpired m then [ElRed] else []) @
     (if daysUntilExpiry m \<le> 15 \<and> \<not> isExpired m then [ElOrange] else []) @
     (if daysUntilExpiry m \<le> 30 \<and> daysUntilExpiry m > 15 then [ElYellow] else [])"

text \<open>\<open>formatDate\<close>, lines 96--103, with \<open>toLocaleDateString\<close> as the parameter \<open>fmt\<close>.\<close>

definition format_expiry :: "(string \<Rightarrow> string) \<Rightarrow> string \<Rightarrow> string" where
  "format_expiry fmt s = (if s = [] then ''N/A'' else fmt s)"

record el_row =
  er_name :: string
  er_scheduleH :: bool
  er_date :: string
  er_text :: expiry_text
  er_days :: "tone \<times> days_cell"
  er_batch :: string
  er_supplier :: string
  er_stock :: int
  er_lowStock :: bool
  er_value :: money
  er_badge :: expiry_badge
  er_tints :: "el_tint list"

text \<open>A row of the table, lines 263--318.\<close>

definition expiry_row :: "(string \<Rightarrow> string) \<Rightarrow> medicine \<Rightarrow> el_row" where
  "expiry_row fmt m =
     \<lparr>er_name = name m, er_scheduleH = (schedule m = Some ''H''), er_date = format_expiry fmt (expiryDate m),
      er_text = getExpiryText m, er_days = days_left_cell m,
      er_batch = (if batch m = [] then ''N/A'' else batch m),
      er_supplier = (if supplier m = [] then ''N/A'' else supplier m),
      er_stock = stock m, er_lowStock = isLowStock m, er_value = of_int (stock m) * price m,
      er_badge = getExpiryBadge m, er_tints = el_row_tints m\<rparr>"

record el_table =
  et_exportCount :: nat
  et_rows :: "el_row list"
  et_shown :: nat
  et_total :: nat
  et_summary :: expiry_summary

datatype el_view = NoneExpiring int | ExpiryTable el_table

text \<open>The list's state, lines 33--36, and its initial value (a fresh mount).\<close>

record el_state =
  el_search :: string
  el_sort :: "medicine_field \<times> sort_direction"
  el_filter :: expiry_filter

definition el_init :: el_state where
  "el_init = \<lparr>el_search = [], el_sort = (F_daysUntilExpiry, Asc), el_filter = FilterAll\<rparr>"

text \<open>
  A render of ExpiryList, lines 94 and 168--336: the view, and the parent's
  array after it (sorted in place when no filter applies).
\<close>

definition ExpiryList_render ::
  "(string \<Rightarrow> string) \<Rightarrow> int \<Rightarrow> el_state \<Rightarrow> medicine list \<Rightarrow> el_view \<times> medicine list" where
  "ExpiryList_render fmt expiryDays st medicines =
     (let (fm, parent) = getFilteredMedicines (el_search st) (el_filter st) (el_sort st) medicines
      in (if medicines = [] then NoneExpiring expiryDays
          else ExpiryTable \<lparr>et_exportCount = length fm, et_rows = map (expiry_row fmt) fm,
                            et_shown = length fm, et_total = length medicines,
                            et_summary = expiry_list_summary fm\<rparr>,
          parent))"

datatype el_event = EL_Search string | EL_Filter expiry_filter | EL_Sort medicine_field

text \<open>The list's inputs: the search box (line 187), the filter select (line 190) and the sortable headers.\<close>

fun el_step :: "el_state \<Rightarrow> el_event \<Rightarrow> el_state" where
  "el_step st (EL_Search t) = st\<lparr>el_search := t\<rparr>"
| "el_step st (EL_Filter f) = st\<lparr>el_filter := f\<rparr>"
| "el_step st (EL_Sort f) = st\<lparr>el_sort := handleSort (el_sort st) f\<rparr>"

subsubsection \<open>The expiry page\<close>

text \<open>
  The page's state, lines 27--35, with the requests in flight (the window
  each asked for), the state of the mounted list, and, as ghost state, the
  clock reading of the reply whose medicines are shown.
\<close>

record expiry_page =
  xp_medicines :: "medicine list"
  xp_loading :: bool
  xp_days :: string
  xp_stats :: expiry_stats
  xp_requests :: "string list"
  xp_list :: el_state
  xp_at :: millis

definition zero_stats :: expiry_stats where
  "zero_stats = \<lparr>expiring15Days = 0, expiring30Days = 0, expired_count = 0, totalValue = 0\<rparr>"

text \<open>The mount: the effect of lines 37--39 fetches with the default window of 30 days.\<close>

definition xp_fetch :: "expiry_page \<Rightarrow> expiry_page" where
  "xp_fetch s = s\<lparr>xp_loading := True, xp_requests := xp_requests s @ [xp_days s]\<rparr>"

definition xp_init :: expiry_page where
  "xp_init =
     xp_fetch \<lparr>xp_medicines = [], xp_loading = True, xp_days = ''30'', xp_stats = zero_stats,
               xp_requests = [], xp_list = el_init, xp_at = 0\<rparr>"

datatype xp_event =
    XP_SetDays string | XP_Refresh | XP_Reply nat millis "medicine list" | XP_Fail nat | XP_List el_event

text \<open>
  The handlers: the window select (line 166; the effect refetches when the
  value changed; like every control it is rendered only when not loading), Refresh Data (lines 82--85), a reply (lines 47--73, then
  \<open>finally\<close>), a failed request (lines 75--79), and an input of the list.
  While loading the list is not rendered, so its inputs are gone, and its
  state is lost: it mounts afresh when loading ends.
\<close>

fun xp_handle :: "expiry_page \<Rightarrow> xp_event \<Rightarrow> expiry_page" where
  "xp_handle s (XP_SetDays d) =
     (if xp_loading s \<or> d = xp_days s then s else xp_fetch (s\<lparr>xp_days := d\<rparr>))"
| "xp_handle s XP_Refresh = (if xp_loading s then s else xp_fetch s)"
| "xp_handle s (XP_Reply i now ms) =
     (if i < length (xp_requests s)
      then s\<lparr>xp_medicines := ms, xp_stats := expiry_page_stats now ms, xp_loading := False,
             xp_requests := take i (xp_requests s) @ drop (Suc i) (xp_requests s), xp_at := now\<rparr>
      else s)"
| "xp_handle s (XP_Fail i) =
     (if i < length (xp_requests s)
      then s\<lparr>xp_loading := False, xp_requests := take i (xp_requests s) @ drop (Suc i) (xp_requests s)\<rparr>
      else s)"
| "xp_handle s (XP_List e) = (if xp_loading s then s else s\<lparr>xp_list := el_step (xp_list s) e\<rparr>)"

text \<open>
  An event and the render after it: entering the loading state unmounts the
  list (its state is reset), and a render of the loaded page renders the
  list, which may sort the page's array in place (the second component of
  \<open>getFilteredMedicines\<close>, as in \<open>ExpiryList_render\<close>).
\<close>

definition xp_next :: "expiry_page \<Rightarrow> xp_event \<Rightarrow> expiry_page" where
  "xp_next s e =
     (let s' = xp_handle s e
      in if xp_loading s' then s'\<lparr>xp_list := el_init\<rparr>
         else s'\<lparr>xp_medicines := snd (getFilteredMedicines (el_search (xp_list s')) (el_filter (xp_list s'))
                                          (el_sort (xp_list s')) (xp_medicines s'))\<rparr>)"

definition xp_run :: "xp_event list \<Rightarrow> expiry_page" where
  "xp_run es = foldl xp_next xp_init es"

text \<open>
  What the page renders, lines 87--255: the skeleton, or the cards, the
  window, the item count, the list (given \<open>parseInt(expiryDays)\<close>, a
  parameter like the date format \<open>fmt\<close>) and the recommendations.
\<close>

record xp_recommendations =
  rec_urgent :: "nat option"
  rec_clearance :: "nat option"
  rec_cleanup :: "nat option"

datatype xp_view = XP_Loading | XP_Page expiry_stats string nat el_view "xp_recommendations option"

definition xp_view :: "(string \<Rightarrow> string) \<Rightarrow> (string \<Rightarrow> int) \<Rightarrow> expiry_page \<Rightarrow> xp_view" where
  "xp_view fmt parseInt s =
     (if xp_loading s then XP_Loading
      else XP_Page (xp_stats s) (xp_days s) (length (xp_medicines s))
             (fst (ExpiryList_render fmt (parseInt (xp_days s)) (xp_list s) (xp_medicines s)))
             (if xp_medicines s = [] then None
              else Some \<lparr>rec_urgent = (if expiring15Days (xp_stats s) > 0 then Some (expiring15Days (xp_stats s)) else None),
                         rec_clearance = (if expiring30Days (xp_stats s) > 0 then Some (expiring30Days (xp_stats s)) else None),
                         rec_cleanup = (if expired_count (xp_stats s) > 0 then Some (expired_count (xp_stats s)) else None)\<rparr>))"

text \<open>The page's invariant: the cards are the statistics of the medicines shown, at the time of their reply.\<close>

definition xp_inv :: "expiry_page \<Rightarrow> bool" where
  "xp_inv s \<longleftrightarrow> xp_stats s = expiry_page_stats (xp_at s) (xp_medicines s)"

subsection \<open>Lemmas\<close>

lemma getFilteredMedicines_parent_mset:
  "mset (snd (getFilteredMedicines q f st ms)) = mset ms"
  by (simp add: getFilteredMedicines_def Let_def mset_sort_cmp)

lemma length_filter_mset: "mset xs = mset ys \<Longrightarrow> length (filter P xs) = length (filter P ys)"
  by (metis mset_filter size_mset)

lemma js_sum_mset: "mset xs = mset ys \<Longrightarrow> js_sum f xs = js_sum f ys"
  by (metis js_sum_eq mset_map sum_mset_sum_list)

lemma expiry_page_stats_mset:
  assumes "mset xs = mset ys" shows "expiry_page_stats now xs = expiry_page_stats now ys"
  unfolding expiry_page_stats_def
  using length_filter_mset[OF assms] js_sum_mset[OF assms, of "\<lambda>m. of_int (stock m) * price m"] by (simp only:)

lemma xp_init_inv: "xp_inv xp_init"
  by (simp add: xp_inv_def xp_init_def xp_fetch_def zero_stats_def expiry_page_stats_def)

lemma xp_handle_inv: "xp_inv s \<Longrightarrow> xp_inv (xp_handle s e)"
  by (cases e) (simp_all add: xp_inv_def xp_fetch_def)

lemma xp_next_inv: "xp_inv s \<Longrightarrow> xp_inv (xp_next s e)"
  using xp_handle_inv[of s e]
  by (auto simp: xp_next_def Let_def xp_inv_def intro: expiry_page_stats_mset getFilteredMedicines_parent_mset[symmetric])

lemma xp_run_inv: "xp_inv (xp_run es)"
proof (induction es rule: rev_induct)
  case (snoc e es) then show ?case by (simp add: xp_run_def xp_next_inv)
qed (simp add: xp_run_def xp_init_inv)


lemma xp_run_snoc: "xp_run (es @ [e]) = xp_next (xp_run es) e"
  by (simp add: xp_run_def)

subsection \<open>Properties\<close>

text \<open>
  C15: in every state of the expiry page the statistics cards are the
  statistics of the medicines the page holds, as of the reply that delivered
  them: the list's in-place sorting of the page's array never makes the
  cards disagree with it.
\<close>

theorem expiry_cards_match_list:
  "xp_stats (xp_run es) = expiry_page_stats (xp_at (xp_run es)) (xp_medicines (xp_run es))"
  using xp_run_inv[of es] by (simp add: xp_inv_def)

text \<open>
  C20: Refresh Data unmounts the list: whatever the user had typed in its
  search box, chosen in its filter or clicked to sort, once the refreshed
  data arrives the list is back to no search, all items, sorted by days left.
\<close>

theorem refresh_resets_list:
  assumes "\<not> xp_loading (xp_run es)"
  shows "xp_list (xp_run (es @ [XP_Refresh, XP_Reply (length (xp_requests (xp_run es))) now ms])) = el_init"
  using assms by (simp add: xp_run_snoc[of "es @ [XP_Refresh]", simplified] xp_run_snoc xp_next_def xp_fetch_def Let_def)

theorem refresh_resets_list_witness:
  "\<not> xp_loading (xp_run [XP_Reply 0 0 [demo_row ''Amoxicillin'' 10], XP_List (EL_Search ''amox'')]) \<and>
   el_search (xp_list (xp_run [XP_Reply 0 0 [demo_row ''Amoxicillin'' 10], XP_List (EL_Search ''amox'')])) = ''amox'' \<and>
   xp_list (xp_run ([XP_Reply 0 0 [demo_row ''Amoxicillin'' 10], XP_List (EL_Search ''amox'')] @
     [XP_Refresh, XP_Reply (length (xp_requests (xp_run [XP_Reply 0 0 [demo_row ''Amoxicillin'' 10],
        XP_List (EL_Search ''amox'')]))) 0 []])) = el_init"
proof -
  have l: "\<not> xp_loading (xp_run [XP_Reply 0 0 [demo_row ''Amoxicillin'' 10], XP_List (EL_Search ''amox'')]) \<and>
    el_search (xp_list (xp_run [XP_Reply 0 0 [demo_row ''Amoxicillin'' 10], XP_List (EL_Search ''amox'')])) = ''amox''"
    by (simp add: xp_run_def xp_init_def xp_fetch_def xp_next_def Let_def el_init_def)
  then show ?thesis using refresh_resets_list[of "[XP_Reply 0 0 [demo_row ''Amoxicillin'' 10], XP_List (EL_Search ''amox'')]" 0 "[]"]
    by blast
qed

text \<open>
  On a row whose flags agree with its day count, the row's background is
  the colour of its status badge: red for Expired, orange for Critical,
  yellow for Warning, none for Normal.
\<close>

theorem expiry_tint_matches_badge:
  assumes "flags_consistent w m"
  shows "el_row_tints m =
         (case getExpiryBadge m of BadgeExpired \<Rightarrow> [ElRed] | BadgeCritical \<Rightarrow> [ElOrange]
          | BadgeWarning \<Rightarrow> [ElYellow] | BadgeNormal \<Rightarrow> [])"
  using assms by (auto simp: el_row_tints_def getExpiryBadge_def flags_consistent_def)

theorem expiry_tint_matches_badge_witness:
  "flags_consistent 30 (demo_row ''Crocin'' 10) \<and> el_row_tints (demo_row ''Crocin'' 10) = [ElOrange]"
  using expiry_tint_matches_badge[of 30 "demo_row ''Crocin'' 10"]
  by (simp add: flags_consistent_def demo_row_def getExpiryBadge_def)

end
