(* ===== verification/Accounting.thy ===== *)
theory Accounting
  imports Dates
begin

text \<open>
  The accounting API of src/src/app/api/accounting/transactions/route.ts: the
  module-level array \<open>accountingTransactions\<close> (the store), the \<open>GET\<close>
  handler that filters it by financial year and date range and computes the tax
  summary, and the \<open>POST\<close> handler that validates a body and appends it.

  The store is explicit state: \<open>GET\<close> reads a transaction list and \<open>POST\<close>
  returns the new list. JavaScript numbers are \<open>jsnum\<close> where they can be
  \<open>undefined\<close> or NaN: a posted body may omit \<open>discountAmount\<close>, and the
  summary then adds \<open>undefined\<close>. A request body is modelled by the fields the
  handlers read, each optional (absent in the JSON), numbers being numbers; the
  ISO \<open>timestamp\<close> the handler adds is not read by any code and is left out.
\<close>

subsection \<open>Definitions\<close>

record tx_item =
  item_medicineName :: string
  item_quantity :: rat
  item_price :: rat
  item_discount :: rat
  item_taxRate :: rat
  item_taxableAmount :: rat
  item_taxAmount :: rat
  item_totalAmount :: rat

text \<open>A stored accounting transaction (the \<open>Transaction\<close> interface of the accounting page).\<close>

record transaction =
  tx_id :: string
  tx_date :: string
  tx_type :: string
  tx_items :: "tx_item list"
  invoiceNumber :: string
  customerName :: "string option"
  supplierName :: "string option"
  gstNumber :: "string option"
  totalAmount :: rat
  taxAmount :: rat
  discountAmount :: jsnum
  netAmount :: rat
  paymentMethod :: "string option"
  financialYear :: string
  tx_notes :: "string option"

record tax_summary =
  totalSales :: jsnum
  totalPurchases :: jsnum
  totalTaxCollected :: jsnum
  totalTaxPaid :: jsnum
  totalDiscounts :: jsnum
  netTaxLiability :: jsnum

definition mk_item :: "string \<Rightarrow> rat \<Rightarrow> rat \<Rightarrow> rat \<Rightarrow> rat \<Rightarrow> rat \<Rightarrow> rat \<Rightarrow> rat \<Rightarrow> tx_item" where
  "mk_item n q p d r ta tx tot =
     \<lparr>item_medicineName = n, item_quantity = q, item_price = p, item_discount = d, item_taxRate = r,
      item_taxableAmount = ta, item_taxAmount = tx, item_totalAmount = tot\<rparr>"

text \<open>The initial store, route.ts lines 4--86.\<close>

definition accountingTransactions :: "transaction list" where
  "accountingTransactions =
    [\<lparr>tx_id = ''1'', tx_date = ''2024-04-15'', tx_type = ''sell'',
      tx_items = [mk_item ''Paracetamol 500mg'' 10 12 0 12 120 14.4 134.4],
      invoiceNumber = ''INV-2024-001'', customerName = Some ''ABC Medical Store'', supplierName = None,
      gstNumber = Some ''27AABCU9603R1ZX'', totalAmount = 134.4, taxAmount = 14.4,
      discountAmount = Some 0, netAmount = 134.4, paymentMethod = Some ''Cash'',
      financialYear = ''2024-2025'', tx_notes = Some ''Regular sale''\<rparr>,
     \<lparr>tx_id = ''2'', tx_date = ''2024-04-16'', tx_type = ''purchase'',
      tx_items = [mk_item ''Amoxicillin 250mg'' 50 45 5 12 2250 270 2520],
      invoiceNumber = ''PUR-2024-001'', customerName = None, supplierName = Some ''PharmaCorp Ltd'',
      gstNumber = Some ''27AABCU9603R1ZY'', totalAmount = 2520, taxAmount = 270,
      discountAmount = Some 112.5, netAmount = 2677.5, paymentMethod = Some ''Bank Transfer'',
      financialYear = ''2024-2025'', tx_notes = Some ''Bulk purchase''\<rparr>,
     \<lparr>tx_id = ''3'', tx_date = ''2024-04-17'', tx_type = ''sell'',
      tx_items = [mk_item ''Ibuprofen 400mg'' 20 18 10 12 360 43.2 403.2],
      invoiceNumber = ''INV-2024-002'', customerName = Some ''XYZ Pharmacy'', supplierName = None,
      gstNumber = Some ''27AABCU9603R1ZZ'', totalAmount = 403.2, taxAmount = 43.2,
      discountAmount = Some 36, netAmount = 410.4, paymentMethod = Some ''Credit Card'',
      financialYear = ''2024-2025'', tx_notes = Some ''Discount applied''\<rparr>]"

subsubsection \<open>GET\<close>

text \<open>The query string: \<open>searchParams.get\<close> is \<open>None\<close> for a missing parameter.\<close>

record get_query =
  q_financialYear :: "string option"
  q_from :: "string option"
  q_to :: "string option"
  q_month :: "string option"

text \<open>JavaScript truthiness of an optional string: present and non-empty.\<close>

definition truthy_str :: "string option \<Rightarrow> bool" where
  "truthy_str s \<longleftrightarrow> s \<noteq> None \<and> s \<noteq> Some []"

text \<open>\<open>d1 >= d2\<close> on two \<open>Date\<close>s compares their time values; NaN compares false.\<close>

definition date_ge :: "string \<Rightarrow> string \<Rightarrow> bool" where
  "date_ge a b =
     (case (parse_date a, parse_date b) of (Some x, Some y) \<Rightarrow> x \<ge> y | _ \<Rightarrow> False)"

definition in_date_range :: "string \<Rightarrow> string \<Rightarrow> transaction \<Rightarrow> bool" where
  "in_date_range from to t \<longleftrightarrow> date_ge (tx_date t) from \<and> date_ge to (tx_date t)"

text \<open>The filtering of the \<open>GET\<close> handler, route.ts lines 90--108.\<close>

definition get_filtered :: "get_query \<Rightarrow> transaction list \<Rightarrow> transaction list" where
  "get_filtered q store =
     (let fy = (if truthy_str (q_financialYear q) then the (q_financialYear q) else ''2024-2025'');
          filtered = filter (\<lambda>t. financialYear t = fy) store
      in if truthy_str (q_from q) \<and> truthy_str (q_to q)
         then filter (in_date_range (the (q_from q)) (the (q_to q))) filtered
         else filtered)"

text \<open>The tax summary, route.ts lines 110--122.\<close>

definition tax_summary_of :: "transaction list \<Rightarrow> tax_summary" where
  "tax_summary_of filtered =
     (let sales = filter (\<lambda>t. tx_type t = ''sell'') filtered;
          purchases = filter (\<lambda>t. tx_type t = ''purchase'') filtered
      in \<lparr>totalSales = js_sum_num (\<lambda>t. Some (netAmount t)) sales,
          totalPurchases = js_sum_num (\<lambda>t. Some (netAmount t)) purchases,
          totalTaxCollected = js_sum_num (\<lambda>t. Some (taxAmount t)) sales,
          totalTaxPaid = js_sum_num (\<lambda>t. Some (taxAmount t)) purchases,
          totalDiscounts = js_sum_num discountAmount filtered,
          netTaxLiability = js_minus (js_sum_num (\<lambda>t. Some (taxAmount t)) sales)
                                     (js_sum_num (\<lambda>t. Some (taxAmount t)) purchases)\<rparr>)"

record get_response =
  resp_transactions :: "transaction list"
  resp_taxSummary :: tax_summary
  resp_total :: nat

text \<open>\<open>GET(request)\<close>, route.ts lines 88--137. Nothing in the handler can throw, so its 500 branch is unreachable.\<close>

definition accounting_GET :: "get_query \<Rightarrow> transaction list \<Rightarrow> get_response" where
  "accounting_GET q store =
     (let filtered = get_filtered q store
      in \<lparr>resp_transactions = filtered, resp_taxSummary = tax_summary_of filtered,
          resp_total = length filtered\<rparr>)"

subsubsection \<open>POST\<close>

record post_body =
  b_id :: "string option"
  b_date :: "string option"
  b_type :: "string option"
  b_items :: "tx_item list option"
  b_invoiceNumber :: "string option"
  b_customerName :: "string option"
  b_supplierName :: "string option"
  b_gstNumber :: "string option"
  b_totalAmount :: "rat option"
  b_taxAmount :: "rat option"
  b_discountAmount :: "rat option"
  b_netAmount :: "rat option"
  b_paymentMethod :: "string option"
  b_financialYear :: "string option"
  b_notes :: "string option"

text \<open>Truthiness of an optional number: present and not zero.\<close>

definition truthy_num :: "rat option \<Rightarrow> bool" where
  "truthy_num n \<longleftrightarrow> n \<noteq> None \<and> n \<noteq> Some 0"

datatype post_error = MissingRequiredFields

text \<open>
  \<open>POST(request)\<close>, route.ts lines 139--176, with \<open>Date.now()\<close> as the argument
  \<open>now\<close>: the 400 response is \<open>Inl MissingRequiredFields\<close>, success returns the
  stored transaction and the new store. An array is always truthy, so only a
  missing \<open>items\<close> is rejected. In \<open>{ id, ...body, financialYear }\<close> the
  body's own \<open>id\<close> overrides the generated one.
\<close>

definition accounting_POST :: "nat \<Rightarrow> post_body \<Rightarrow> transaction list \<Rightarrow>
    post_error + (transaction \<times> transaction list)" where
  "accounting_POST now body store =
     (if \<not> truthy_str (b_date body) \<or> \<not> truthy_str (b_type body) \<or> b_items body = None \<or>
         \<not> truthy_str (b_invoiceNumber body) \<or> \<not> truthy_num (b_totalAmount body) \<or>
         \<not> truthy_num (b_taxAmount body) \<or> \<not> truthy_num (b_netAmount body)
      then Inl MissingRequiredFields
      else
        (let t = \<lparr>tx_id = (case b_id body of Some i \<Rightarrow> i | None \<Rightarrow> nat_str now),
                  tx_date = the (b_date body), tx_type = the (b_type body),
                  tx_items = the (b_items body), invoiceNumber = the (b_invoiceNumber body),
                  customerName = b_customerName body, supplierName = b_supplierName body,
                  gstNumber = b_gstNumber body, totalAmount = the (b_totalAmount body),
                  taxAmount = the (b_taxAmount body), discountAmount = b_discountAmount body,
                  netAmount = the (b_netAmount body), paymentMethod = b_paymentMethod body,
                  financialYear = (if truthy_str (b_financialYear body)
                                   then the (b_financialYear body) else ''2024-2025''),
                  tx_notes = b_notes body\<rparr>
         in Inr (t, store @ [t])))"

subsubsection \<open>The abstract tax summary\<close>

text \<open>
  The specification's TaxSummary (spec section 3) over a filtered set, in exact
  arithmetic: sales and purchases by type, tax collected minus tax paid, and
  the discounts of every transaction.
\<close>

definition sum_by :: "(transaction \<Rightarrow> rat) \<Rightarrow> string \<Rightarrow> transaction list \<Rightarrow> rat" where
  "sum_by f ty ts = sum_list (map f (filter (\<lambda>t. tx_type t = ty) ts))"

definition summary_spec :: "transaction list \<Rightarrow> tax_summary" where
  "summary_spec ts =
     \<lparr>totalSales = Some (sum_by netAmount ''sell'' ts),
      totalPurchases = Some (sum_by netAmount ''purchase'' ts),
      totalTaxCollected = Some (sum_by taxAmount ''sell'' ts),
      totalTaxPaid = Some (sum_by taxAmount ''purchase'' ts),
      totalDiscounts = Some (sum_list (map (the \<circ> discountAmount) ts)),
      netTaxLiability = Some (sum_by taxAmount ''sell'' ts - sum_by taxAmount ''purchase'' ts)\<rparr>"

definition summary_add :: "tax_summary \<Rightarrow> tax_summary \<Rightarrow> tax_summary" where
  "summary_add a b =
     \<lparr>totalSales = js_plus (totalSales a) (totalSales b),
      totalPurchases = js_plus (totalPurchases a) (totalPurchases b),
      totalTaxCollected = js_plus (totalTaxCollected a) (totalTaxCollected b),
      totalTaxPaid = js_plus (totalTaxPaid a) (totalTaxPaid b),
      totalDiscounts = js_plus (totalDiscounts a) (totalDiscounts b),
      netTaxLiability = js_plus (netTaxLiability a) (netTaxLiability b)\<rparr>"

definition sale_body :: post_body where
  "sale_body =
     \<lparr>b_id = None, b_date = Some ''2024-05-02'', b_type = Some ''sell'',
      b_items = Some [mk_item ''Cetirizine 10mg'' 5 8 0 12 40 4.8 44.8],
      b_invoiceNumber = Some ''INV-2024-003'', b_customerName = Some ''Walk-in'', b_supplierName = None,
      b_gstNumber = None, b_totalAmount = Some 44.8, b_taxAmount = Some 4.8, b_discountAmount = None,
      b_netAmount = Some 44.8, b_paymentMethod = Some ''Cash'', b_financialYear = None, b_notes = None\<rparr>"

definition default_query :: get_query where
  "default_query = \<lparr>q_financialYear = None, q_from = None, q_to = None, q_month = None\<rparr>"

subsection \<open>Lemmas\<close>

lemmas post_eval = accounting_POST_def sale_body_def truthy_str_def truthy_num_def Let_def


lemma tax_summary_of_append:
  "tax_summary_of (xs @ ys) = summary_add (tax_summary_of xs) (tax_summary_of ys)"
  by (simp add: tax_summary_of_def summary_add_def Let_def js_sum_num_append js_sum_num_Some_map algebra_simps)

lemma get_filtered_append:
  "get_filtered q (xs @ ys) = get_filtered q xs @ get_filtered q ys"
  by (simp add: get_filtered_def Let_def)

lemma accounting_POST_Inr:
  "accounting_POST now b store = Inr (t, store') \<Longrightarrow> store' = store @ [t]"
  by (auto simp: accounting_POST_def Let_def split: if_splits)

subsection \<open>Properties\<close>

text \<open>
  C1: when every transaction carries its discountAmount, the tax summary the
  GET handler computes is the specification's TaxSummary of the filtered set:
  sales and purchases are the net amounts of sells and purchases, tax collected
  and paid the tax of each, the net liability their difference, and the
  discounts those of all transactions.
\<close>

theorem tax_summary_refines_spec:
  assumes "\<forall>t \<in> set ts. discountAmount t \<noteq> None"
  shows "tax_summary_of ts = summary_spec ts"
  by (simp add: tax_summary_of_def summary_spec_def sum_by_def Let_def js_sum_num_Some_map js_sum_num_Some[OF assms])


text \<open>
  C2: after a successful POST the GET handler returns, for any query, the
  transactions it returned before followed by the new one if it passes the
  query's filters, and every field of the tax summary grows by the new
  transaction's contribution (the store only ever grows at its end).
\<close>

theorem post_then_get:
  assumes "accounting_POST now b store = Inr (t, store')"
  shows "resp_taxSummary (accounting_GET q store') =
           summary_add (resp_taxSummary (accounting_GET q store)) (tax_summary_of (get_filtered q [t])) \<and>
         resp_transactions (accounting_GET q store') = resp_transactions (accounting_GET q store) @ get_filtered q [t]"
  using accounting_POST_Inr[OF assms]
  by (simp add: accounting_GET_def Let_def get_filtered_append tax_summary_of_append)

text \<open>
  On the initial store and the default query (financial year 2024-2025),
  the summary is: sales 544.8, purchases 2677.5, tax collected 57.6, tax paid
  270, discounts 148.5 and net tax liability 57.6 - 270 = -212.4.
\<close>

theorem fixture_tax_summary:
  "resp_taxSummary (accounting_GET \<lparr>q_financialYear = None, q_from = None, q_to = None, q_month = None\<rparr> accountingTransactions) =
     \<lparr>totalSales = Some 544.8, totalPurchases = Some 2677.5, totalTaxCollected = Some 57.6,
      totalTaxPaid = Some 270, totalDiscounts = Some 148.5, netTaxLiability = Some (-212.4)\<rparr>"
  by (simp add: accounting_GET_def get_filtered_def truthy_str_def accountingTransactions_def tax_summary_of_def js_sum_num_def Let_def)

text \<open>
  C32: The GET handler's response does not depend on the month parameter that
  the accounting page sends: selecting a month filters nothing.
\<close>

theorem get_ignores_month: "accounting_GET (q\<lparr>q_month := m\<rparr>) store = accounting_GET q store"
  by (simp add: accounting_GET_def get_filtered_def Let_def)

text \<open>
  Total sales plus total purchases is the sum of the net amounts of the
  transactions typed 'sell' or 'purchase'; a transaction of any other type is
  counted in neither.
\<close>

theorem sales_purchases_partition:
  "js_plus (totalSales (tax_summary_of ts)) (totalPurchases (tax_summary_of ts)) =
     Some (sum_list (map netAmount (filter (\<lambda>t. tx_type t \<in> {''sell'', ''purchase''}) ts)))"
  by (induction ts) (auto simp: tax_summary_of_def Let_def js_sum_num_Some_map)

text \<open>
  C5: POST stores a transaction exactly when date, type and invoice number are
  non-empty strings, items is present, and totalAmount, taxAmount and netAmount
  are non-zero numbers; the line items themselves are never inspected, so
  negative prices or quantities, or discounts outside 0..100, are accepted.
\<close>

theorem post_validation_iff:
  "(\<exists>r. accounting_POST now b store = Inr r) \<longleftrightarrow>
     truthy_str (b_date b) \<and> truthy_str (b_type b) \<and> b_items b \<noteq> None \<and>
     truthy_str (b_invoiceNumber b) \<and> truthy_num (b_totalAmount b) \<and>
     truthy_num (b_taxAmount b) \<and> truthy_num (b_netAmount b)"
  by (simp add: accounting_POST_def Let_def)

text \<open>
  C31: A body that carries its own id keeps it: the id generated from
  Date.now() is overwritten by the spread of the body, so a client can store a
  transaction under an id that already exists.
\<close>

theorem post_body_id_overrides:
  "b_id b = Some i \<Longrightarrow> accounting_POST now b store = Inr (t, store') \<Longrightarrow> tx_id t = i"
  by (auto simp: accounting_POST_def Let_def split: if_splits)

text \<open>
  A posted body without discountAmount makes the totalDiscounts of every
  later GET whose filters it passes NaN (undefined is added to the sum).
\<close>

theorem post_missing_discount_nan:
  assumes "accounting_POST now b store = Inr (t, store')"
    and "b_discountAmount b = None"
    and "get_filtered q [t] = [t]"
  shows "totalDiscounts (resp_taxSummary (accounting_GET q store')) = None"
proof -
  have "discountAmount t = None"
    using assms(1,2) by (auto simp: accounting_POST_def Let_def split: if_splits)
  moreover have "t \<in> set (get_filtered q store')"
    using accounting_POST_Inr[OF assms(1)] assms(3) by (simp add: get_filtered_append)
  ultimately show ?thesis
    by (simp add: accounting_GET_def tax_summary_of_def Let_def js_sum_num_None)
qed

text \<open>
  The initial store is not internally consistent: the Amoxicillin line has
  taxableAmount 2250 where quantity x price x (1 - discount/100) is 2137.5, and
  the first transaction's netAmount is total minus discount while the second's
  is total plus tax minus discount.
\<close>

theorem fixture_rows_inconsistent:
  "(let it = hd (tx_items (accountingTransactions ! 1))
    in item_taxableAmount it = 2250 \<and>
       item_quantity it * item_price it * (1 - item_discount it / 100) = 2137.5) \<and>
   netAmount (accountingTransactions ! 0) = totalAmount (accountingTransactions ! 0) - the (discountAmount (accountingTransactions ! 0)) \<and>
   netAmount (accountingTransactions ! 1) = totalAmount (accountingTransactions ! 1) + taxAmount (accountingTransactions ! 1) - the (discountAmount (accountingTransactions ! 1)) \<and>
   netAmount (accountingTransactions ! 1) \<noteq> totalAmount (accountingTransactions ! 1) - the (discountAmount (accountingTransactions ! 1))"
  by (simp add: accountingTransactions_def mk_item_def)
subsection \<open>Witnesses\<close>

theorem post_then_get_witness:
  "\<exists>t s. accounting_POST 1714608000000 sale_body accountingTransactions = Inr (t, s) \<and>
     resp_total (accounting_GET default_query s) = 4"
proof -
  have "\<exists>t s. accounting_POST 1714608000000 sale_body accountingTransactions = Inr (t, s)"
    by (simp add: post_eval)
  then obtain t s where h: "accounting_POST 1714608000000 sale_body accountingTransactions = Inr (t, s)"
    by blast
  have fy: "financialYear t = ''2024-2025''"
    using h by (auto simp: post_eval split: if_splits)
  have "resp_transactions (accounting_GET default_query s) =
          resp_transactions (accounting_GET default_query accountingTransactions) @ get_filtered default_query [t]"
    using post_then_get[OF h] by blast
  then show ?thesis
    using h fy by (simp add: accounting_GET_def get_filtered_def default_query_def truthy_str_def
        accountingTransactions_def Let_def)
qed

theorem post_body_id_overrides_witness:
  "\<exists>t s. accounting_POST 1714608000000 (sale_body\<lparr>b_id := Some ''1''\<rparr>) accountingTransactions = Inr (t, s) \<and>
     length (filter (\<lambda>x. tx_id x = ''1'') s) = 2"
proof -
  have "\<exists>t s. accounting_POST 1714608000000 (sale_body\<lparr>b_id := Some ''1''\<rparr>) accountingTransactions = Inr (t, s)"
    by (simp add: post_eval)
  then obtain t s where h: "accounting_POST 1714608000000 (sale_body\<lparr>b_id := Some ''1''\<rparr>) accountingTransactions = Inr (t, s)"
    by blast
  have "tx_id t = ''1''" using post_body_id_overrides[OF _ h] by simp
  then show ?thesis
    using h accounting_POST_Inr[OF h] by (simp add: accountingTransactions_def)
qed

theorem post_missing_discount_nan_witness:
  "\<exists>t s. accounting_POST 1714608000000 sale_body accountingTransactions = Inr (t, s) \<and>
     totalDiscounts (resp_taxSummary (accounting_GET default_query s)) = None"
proof -
  have "\<exists>t s. accounting_POST 1714608000000 sale_body accountingTransactions = Inr (t, s)"
    by (simp add: post_eval)
  then obtain t s where h: "accounting_POST 1714608000000 sale_body accountingTransactions = Inr (t, s)"
    by blast
  have fy: "financialYear t = ''2024-2025''"
    using h by (auto simp: post_eval split: if_splits)
  have "get_filtered default_query [t] = [t]"
    using fy by (simp add: get_filtered_def default_query_def truthy_str_def Let_def)
  then show ?thesis
    using h post_missing_discount_nan[OF h] by (simp add: sale_body_def)
qed

theorem tax_summary_refines_spec_witness:
  "tax_summary_of accountingTransactions = summary_spec accountingTransactions"
  by (rule tax_summary_refines_spec) (simp add: accountingTransactions_def del: not_None_eq)

end
