(* ===== verification/AccountingPage.thy ===== *)
theory AccountingPage
  imports Accounting Csv
begin

text \<open>
  The accounting page of src/src/app/accounting/page.tsx on the transactions
  the API returned: the client-side search and tab filter
  (\<open>filterTransactions\<close>), the party column its table and its export share,
  and its own CSV export, which quotes every cell but, unlike \<open>exportToCSV\<close>
  of utils.ts (Csv.thy), does not double the quotes inside a cell. The fetch,
  the effects, the summary cards and the table are in AccountingFlow.thy. As in Csv.thy, \<open>String(number)\<close> is a parameter \<open>num_str\<close>, and the
  date formatting \<open>toLocaleDateString('en-IN')\<close> is a parameter \<open>fmt_date\<close>.
\<close>

subsection \<open>Definitions\<close>

text \<open>\<open>toUpperCase()\<close> on ASCII letters.\<close>

definition js_upper_char :: "char \<Rightarrow> char" where
  "js_upper_char c =
     (let n = (of_char c :: nat) in if 97 \<le> n \<and> n \<le> 122 then char_of (n - 32) else c)"

definition js_upper :: "string \<Rightarrow> string" where
  "js_upper s = map js_upper_char s"

text \<open>\<open>a?.toLowerCase().includes(q)\<close> on an optional string: \<open>undefined\<close> is falsy.\<close>

definition opt_includes :: "string option \<Rightarrow> string \<Rightarrow> bool" where
  "opt_includes a q = (case a of None \<Rightarrow> False | Some s \<Rightarrow> js_includes (js_lower s) (js_lower q))"

text \<open>The search of \<open>filterTransactions\<close>, page.tsx lines 106--115.\<close>

definition acct_search :: "string \<Rightarrow> transaction \<Rightarrow> bool" where
  "acct_search searchTerm t \<longleftrightarrow>
     js_includes (js_lower (invoiceNumber t)) (js_lower searchTerm) \<or>
     opt_includes (customerName t) searchTerm \<or>
     opt_includes (supplierName t) searchTerm \<or>
     list_ex (\<lambda>it. js_includes (js_lower (item_medicineName it)) (js_lower searchTerm)) (tx_items t)"

text \<open>\<open>filterTransactions()\<close>, lines 102--123: the search (when the term is non-empty), then the tab.\<close>

definition filterTransactions :: "string \<Rightarrow> string \<Rightarrow> transaction list \<Rightarrow> transaction list" where
  "filterTransactions searchTerm activeTab ts =
     (let filtered = (if searchTerm \<noteq> [] then filter (acct_search searchTerm) ts else ts)
      in if activeTab \<noteq> ''all'' then filter (\<lambda>t. tx_type t = activeTab) filtered else filtered)"

text \<open>The party shown for a transaction, lines 142 and 397: \<open>customerName || supplierName || 'N/A'\<close>.\<close>

definition party :: "transaction \<Rightarrow> string" where
  "party t = or_str (customerName t) (or_str (supplierName t) ''N/A'')"

text \<open>The row object of the export, lines 138--150.\<close>

definition acct_csv_row :: "(string \<Rightarrow> string) \<Rightarrow> transaction \<Rightarrow> csv_row" where
  "acct_csv_row fmt_date t =
     [(''Date'', CStr (fmt_date (tx_date t))), (''Type'', CStr (js_upper (tx_type t))),
      (''Invoice Number'', CStr (invoiceNumber t)), (''Customer/Supplier'', CStr (party t)),
      (''GST Number'', CStr (or_str (gstNumber t) ''N/A'')),
      (''Total Amount'', CNum (totalAmount t)), (''Tax Amount'', CNum (taxAmount t)),
      (''Discount Amount'', (case discountAmount t of Some d \<Rightarrow> CNum d | None \<Rightarrow> CUndef)),
      (''Net Amount'', CNum (netAmount t)),
      (''Payment Method'', (case paymentMethod t of Some p \<Rightarrow> CStr p | None \<Rightarrow> CUndef)),
      (''Financial Year'', CStr (financialYear t))]"

definition acct_headers :: "string list" where
  "acct_headers =
     [''Date'', ''Type'', ''Invoice Number'', ''Customer/Supplier'', ''GST Number'', ''Total Amount'',
      ''Tax Amount'', ''Discount Amount'', ''Net Amount'', ''Payment Method'', ''Financial Year'']"

text \<open>The export's text, lines 166--171: \<open>`"${row[header] || ''}"`\<close>, with no escaping.\<close>

definition acct_cell :: "(rat \<Rightarrow> string) \<Rightarrow> (string \<Rightarrow> string) \<Rightarrow> transaction \<Rightarrow> string \<Rightarrow> string" where
  "acct_cell num_str fmt_date t h = cell_text num_str (or_empty (row_get (acct_csv_row fmt_date t) h))"

definition accounting_csv :: "(rat \<Rightarrow> string) \<Rightarrow> (string \<Rightarrow> string) \<Rightarrow> transaction list \<Rightarrow> string" where
  "accounting_csv num_str fmt_date ts =
     js_join [nl] (js_join [comma] acct_headers #
       map (\<lambda>t. js_join [comma] (map (\<lambda>h. dq # acct_cell num_str fmt_date t h @ [dq]) acct_headers)) ts)"

text \<open>
  The file the export saves, lines 172--182: \<open>accounting-report-\<close> and the
  selected financial year as its name, the CSV above as its text.
\<close>

definition accounting_download ::
  "(rat \<Rightarrow> string) \<Rightarrow> (string \<Rightarrow> string) \<Rightarrow> string \<Rightarrow> transaction list \<Rightarrow> string \<times> string" where
  "accounting_download num_str fmt_date selectedFinancialYear ts =
     (''accounting-report-'' @ selectedFinancialYear @ ''.csv'', accounting_csv num_str fmt_date ts)"

subsection \<open>Lemmas\<close>

lemma csv_quote_plain: "dq \<notin> set x \<Longrightarrow> csv_quote x = dq # x @ [dq]"
proof -
  assume "dq \<notin> set x"
  then have "concat (map (\<lambda>c. if c = dq then [dq, dq] else [c]) x) = x" by (induction x) auto
  then show ?thesis by (simp add: csv_quote_def)
qed

lemma acct_headers_plain: "\<forall>h \<in> set acct_headers. plain_field h"
  by (simp add: acct_headers_def plain_field_def dq_def comma_def nl_def)

text \<open>
  Unlike utils.ts \<open>exportToCSV\<close>, which refuses an empty list, the page's
  own export saves a file holding the header line only.
\<close>

lemma accounting_download_empty:
  "accounting_download num_str fmt_date fy [] = (''accounting-report-'' @ fy @ ''.csv'', js_join [comma] acct_headers) \<and>
   exportToCSV num_str [] hs = Inl NoDataToExport"
  by (simp add: accounting_download_def accounting_csv_def exportToCSV_def)

subsection \<open>Properties\<close>

text \<open>
  Every transaction the accounting page lists was returned by the API,
  and under the Sales or Purchases tab it has that type.
\<close>

theorem filter_transactions_sound:
  assumes "t \<in> set (filterTransactions q tab ts)"
  shows "t \<in> set ts \<and> (tab \<noteq> ''all'' \<longrightarrow> tx_type t = tab)"
  using assms by (auto simp: filterTransactions_def Let_def split: if_splits)

theorem filter_transactions_sound_witness:
  "accountingTransactions ! 0 \<in> set (filterTransactions [] ''sell'' accountingTransactions) \<and>
   tx_type (accountingTransactions ! 0) = ''sell''"
proof -
  have m: "accountingTransactions ! 0 \<in> set (filterTransactions [] ''sell'' accountingTransactions)"
    by (simp add: filterTransactions_def accountingTransactions_def)
  show ?thesis using filter_transactions_sound[OF m] m by simp
qed

text \<open>
  C24: when no cell of the accounting export contains a double quote, a CSV
  reader reads the page's export back as the header line and, per listed
  transaction, the text of each column after \<open>|| ''\<close>.
\<close>

theorem accounting_csv_roundtrip:
  assumes "\<forall>t \<in> set ts. \<forall>h \<in> set acct_headers. dq \<notin> set (acct_cell num_str fmt_date t h)"
  shows "parse_csv (accounting_csv num_str fmt_date ts) =
         Some (acct_headers # map (\<lambda>t. map (acct_cell num_str fmt_date t) acct_headers) ts)"
proof -
  let ?rows = "map (\<lambda>t. map (acct_cell num_str fmt_date t) acct_headers) ts"
  have eq: "map (\<lambda>h. dq # acct_cell num_str fmt_date t h @ [dq]) acct_headers =
            map csv_quote (map (acct_cell num_str fmt_date t) acct_headers)" if "t \<in> set ts" for t
    using assms that by (auto simp: csv_quote_plain)
  have m': "map (\<lambda>t. js_join [comma] (map (\<lambda>h. dq # acct_cell num_str fmt_date t h @ [dq]) acct_headers)) ts =
            map (\<lambda>t. js_join [comma] (map csv_quote (map (acct_cell num_str fmt_date t) acct_headers))) ts"
    by (rule map_cong[OF refl], rule arg_cong[where f = "js_join [comma]"], erule eq)
  have m: "map (\<lambda>t. js_join [comma] (map (\<lambda>h. dq # acct_cell num_str fmt_date t h @ [dq]) acct_headers)) ts =
           map (\<lambda>r. js_join [comma] (map csv_quote r)) ?rows"
    unfolding m' by (simp only: map_map comp_def)
  have ne: "\<forall>r \<in> set ?rows. r \<noteq> []" by (simp add: acct_headers_def)
  have hne: "acct_headers \<noteq> []" by (simp add: acct_headers_def)
  show ?thesis unfolding accounting_csv_def m using parse_csv_document[OF hne acct_headers_plain ne] .
qed

theorem accounting_csv_roundtrip_witness:
  "parse_csv (accounting_csv (\<lambda>_. ''0'') (\<lambda>_. ''15/4/2024'') accountingTransactions) =
     Some (acct_headers # map (\<lambda>t. map (acct_cell (\<lambda>_. ''0'') (\<lambda>_. ''15/4/2024'') t) acct_headers) accountingTransactions)"
proof -
  have h: "\<forall>t \<in> set accountingTransactions. \<forall>h \<in> set acct_headers. dq \<notin> set (acct_cell (\<lambda>_. ''0'') (\<lambda>_. ''15/4/2024'') t h)"
    by code_simp
  show ?thesis using accounting_csv_roundtrip[OF h] .
qed

end
