(* ===== verification/AccountingFlow.thy ===== *)
theory AccountingFlow
  imports AccountingPage
begin

text \<open>
  The accounting page of src/src/app/accounting/page.tsx as a component with
  state, wired to the route of Accounting.thy. Its state (lines 51--65) is a
  record; a user action or the arrival of a reply is an event; after the
  handler, React runs the page's two effects (lines 73--79) whose
  dependencies changed, and renders again while an effect changed a
  dependency. That loop is \<open>ap_settle\<close>, a \<open>partial_function (option)\<close>: it
  need not end for an arbitrary component, and for this one it ends after one
  round (\<open>ap_settle_eq\<close>).

  A fetch is split into its request, kept in a list of requests in flight in
  the order they were sent, and its reply, an event naming the request it
  answers and carrying the server's store at that moment: the replies may
  arrive in any order. The JSON round trip of the reply is the identity on
  the values the page reads.
\<close>

subsection \<open>Definitions\<close>

record acct_page =
  ap_transactions :: "transaction list"
  ap_filtered :: "transaction list"
  ap_loading :: bool
  ap_tab :: string
  ap_year :: string
  ap_search :: string
  ap_month :: string
  ap_summary :: tax_summary
  ap_requests :: "get_query list"

text \<open>The initial state, lines 51--65.\<close>

definition zero_summary :: tax_summary where
  "zero_summary =
     \<lparr>totalSales = Some 0, totalPurchases = Some 0, totalTaxCollected = Some 0, totalTaxPaid = Some 0,
      totalDiscounts = Some 0, netTaxLiability = Some 0\<rparr>"

definition ap_init :: acct_page where
  "ap_init =
     \<lparr>ap_transactions = [], ap_filtered = [], ap_loading = True, ap_tab = ''all'', ap_year = ''2024-2025'',
      ap_search = [], ap_month = [], ap_summary = zero_summary, ap_requests = []\<rparr>"

text \<open>The query string of \<open>fetchTransactions\<close>, lines 84--87: the month only when one is selected.\<close>

definition ap_query :: "acct_page \<Rightarrow> get_query" where
  "ap_query s =
     \<lparr>q_financialYear = Some (ap_year s), q_from = None, q_to = None,
      q_month = (if ap_month s = [] then None else Some (ap_month s))\<rparr>"

text \<open>\<open>fetchTransactions()\<close> up to its \<open>await\<close>, lines 81--89: loading, and the request sent.\<close>

definition fetchTransactions :: "acct_page \<Rightarrow> acct_page" where
  "fetchTransactions s = s\<lparr>ap_loading := True, ap_requests := ap_requests s @ [ap_query s]\<rparr>"

text \<open>The second effect, lines 77--79, calling \<open>filterTransactions()\<close>.\<close>

definition filter_effect :: "acct_page \<Rightarrow> acct_page" where
  "filter_effect s = s\<lparr>ap_filtered := filterTransactions (ap_search s) (ap_tab s) (ap_transactions s)\<rparr>"

text \<open>The dependency arrays of the two effects, lines 75 and 79.\<close>

type_synonym ap_deps = "(string \<times> string) \<times> (transaction list \<times> string \<times> string)"

definition ap_deps :: "acct_page \<Rightarrow> ap_deps" where
  "ap_deps s = ((ap_year s, ap_month s), (ap_transactions s, ap_search s, ap_tab s))"

text \<open>
  One round of effects after a render: each effect runs, in the order the
  code declares them, on the first render (no previous dependencies) and
  whenever its dependencies differ from those of the previous render.
\<close>

definition ap_effects :: "acct_page \<Rightarrow> ap_deps option \<Rightarrow> acct_page" where
  "ap_effects s prev =
     (let s1 = (if map_option fst prev = Some (fst (ap_deps s)) then s else fetchTransactions s)
      in if map_option snd prev = Some (snd (ap_deps s)) then s1 else filter_effect s1)"

partial_function (option) ap_settle :: "acct_page \<Rightarrow> ap_deps option \<Rightarrow> acct_page option" where
  "ap_settle s prev =
     (if prev = Some (ap_deps s) then Some s else ap_settle (ap_effects s prev) (Some (ap_deps s)))"

text \<open>
  The events: the selects of lines 265 and 276, the search input (line 293),
  the tabs (line 303), and the success or failure of the request with the
  given position in the list of requests in flight (lines 89--99).
\<close>

datatype ap_event =
    AP_SetYear string | AP_SetMonth string | AP_SetSearch string | AP_SetTab string
  | AP_Reply nat "transaction list" | AP_Fail nat

definition drop_request :: "nat \<Rightarrow> acct_page \<Rightarrow> acct_page" where
  "drop_request i s = s\<lparr>ap_requests := take i (ap_requests s) @ drop (Suc i) (ap_requests s)\<rparr>"

text \<open>
  The handlers. The selects, the search input and the tabs exist only when
  the page is not loading: while \<open>loading\<close> it returns the skeleton (lines
  187--208), so they are no-ops then. A reply sets the transactions and the
  summary the route computed (lines 92--94) and, in \<open>finally\<close>, clears
  \<open>loading\<close> (line 98), whether or not other requests are in flight; a
  failure only clears it.
\<close>

fun ap_handle :: "acct_page \<Rightarrow> ap_event \<Rightarrow> acct_page" where
  "ap_handle s (AP_SetYear y) = (if ap_loading s then s else s\<lparr>ap_year := y\<rparr>)"
| "ap_handle s (AP_SetMonth m) = (if ap_loading s then s else s\<lparr>ap_month := m\<rparr>)"
| "ap_handle s (AP_SetSearch t) = (if ap_loading s then s else s\<lparr>ap_search := t\<rparr>)"
| "ap_handle s (AP_SetTab t) = (if ap_loading s then s else s\<lparr>ap_tab := t\<rparr>)"
| "ap_handle s (AP_Reply i store) =
     (if i < length (ap_requests s)
      then (let r = accounting_GET (ap_requests s ! i) store
            in drop_request i (s\<lparr>ap_transactions := resp_transactions r, ap_summary := resp_taxSummary r,
                                 ap_loading := False\<rparr>))
      else s)"
| "ap_handle s (AP_Fail i) =
     (if i < length (ap_requests s) then drop_request i (s\<lparr>ap_loading := False\<rparr>) else s)"

text \<open>An event: the handler, then the effects until they settle.\<close>

definition ap_step :: "acct_page \<Rightarrow> ap_event \<Rightarrow> acct_page option" where
  "ap_step s e = ap_settle (ap_handle s e) (Some (ap_deps s))"

fun ap_run :: "acct_page \<Rightarrow> ap_event list \<Rightarrow> acct_page option" where
  "ap_run s [] = Some s"
| "ap_run s (e # es) = (case ap_step s e of None \<Rightarrow> None | Some s' \<Rightarrow> ap_run s' es)"

text \<open>A visit to the page: the mount (the first render runs both effects), then the events.\<close>

definition ap_session :: "ap_event list \<Rightarrow> acct_page option" where
  "ap_session es = (case ap_settle ap_init None of None \<Rightarrow> None | Some s \<Rightarrow> ap_run s es)"

text \<open>The same session as a total function: the handler and one round of effects per event.\<close>

definition ap_next :: "acct_page \<Rightarrow> ap_event \<Rightarrow> acct_page" where
  "ap_next s e = (let s' = ap_handle s e in if ap_deps s' = ap_deps s then s' else ap_effects s' (Some (ap_deps s)))"

definition ap_trace :: "ap_event list \<Rightarrow> acct_page" where
  "ap_trace es = foldl ap_next (ap_effects ap_init None) es"

text \<open>
  What the page renders. \<open>AccountingTable\<close>, lines 356--413: "No transactions
  found" for no rows, otherwise one row per transaction; \<open>formatCurrency\<close>
  (\<open>Intl.NumberFormat\<close>, which prints \<open>undefined\<close> as NaN) and \<open>formatDate\<close>
  are the parameters \<open>fmt_cur\<close> and \<open>fmt_date\<close>, and a missing payment method
  renders an empty badge.
\<close>

record acct_row =
  ar_date :: string
  ar_invoice :: string
  ar_party :: string
  ar_gst :: string
  ar_total :: string
  ar_tax :: string
  ar_discount :: string
  ar_net :: string
  ar_payment :: string

definition acct_table_row :: "(jsnum \<Rightarrow> string) \<Rightarrow> (string \<Rightarrow> string) \<Rightarrow> transaction \<Rightarrow> acct_row" where
  "acct_table_row fmt_cur fmt_date t =
     \<lparr>ar_date = fmt_date (tx_date t), ar_invoice = invoiceNumber t, ar_party = party t,
      ar_gst = or_str (gstNumber t) ''N/A'', ar_total = fmt_cur (Some (totalAmount t)),
      ar_tax = fmt_cur (Some (taxAmount t)), ar_discount = fmt_cur (discountAmount t),
      ar_net = fmt_cur (Some (netAmount t)),
      ar_payment = (case paymentMethod t of Some p \<Rightarrow> p | None \<Rightarrow> [])\<rparr>"

datatype acct_table = NoTransactions | TxTable "acct_row list"

definition AccountingTable :: "(jsnum \<Rightarrow> string) \<Rightarrow> (string \<Rightarrow> string) \<Rightarrow> transaction list \<Rightarrow> acct_table" where
  "AccountingTable fmt_cur fmt_date ts =
     (if ts = [] then NoTransactions else TxTable (map (acct_table_row fmt_cur fmt_date) ts))"

text \<open>
  The page, lines 187--353: the skeleton while \<open>loading\<close>, otherwise the four
  summary cards (sales, purchases, tax collected, net liability) and the
  table of the filtered transactions; each tab renders the same table.
\<close>

datatype acct_view = AV_Loading | AV_Page "string list" acct_table

definition acct_cards :: "(jsnum \<Rightarrow> string) \<Rightarrow> tax_summary \<Rightarrow> string list" where
  "acct_cards fmt_cur sm =
     map fmt_cur [totalSales sm, totalPurchases sm, totalTaxCollected sm, netTaxLiability sm]"

definition acct_page_view :: "(jsnum \<Rightarrow> string) \<Rightarrow> (string \<Rightarrow> string) \<Rightarrow> acct_page \<Rightarrow> acct_view" where
  "acct_page_view fmt_cur fmt_date s =
     (if ap_loading s then AV_Loading
      else AV_Page (acct_cards fmt_cur (ap_summary s)) (AccountingTable fmt_cur fmt_date (ap_filtered s)))"

text \<open>The page's invariant: the table shows the filter of the fetched rows, the cards their summary.\<close>

definition ap_inv :: "acct_page \<Rightarrow> bool" where
  "ap_inv s \<longleftrightarrow>
     ap_filtered s = filterTransactions (ap_search s) (ap_tab s) (ap_transactions s) \<and>
     ap_summary s = tax_summary_of (ap_transactions s)"

subsection \<open>Lemmas\<close>

lemma ap_deps_effects [simp]: "ap_deps (ap_effects s prev) = ap_deps s"
  by (simp add: ap_effects_def Let_def fetchTransactions_def filter_effect_def ap_deps_def)

lemma ap_settle_eq:
  "ap_settle s prev = Some (if prev = Some (ap_deps s) then s else ap_effects s prev)"
proof (cases "prev = Some (ap_deps s)")
  case False
  have "ap_settle (ap_effects s prev) (Some (ap_deps s)) = Some (ap_effects s prev)"
    by (subst ap_settle.simps) simp
  with False show ?thesis by (subst ap_settle.simps) simp
qed (subst ap_settle.simps, simp)

lemma ap_step_eq: "ap_step s e = Some (ap_next s e)"
  by (auto simp: ap_step_def ap_next_def ap_settle_eq Let_def)

lemma ap_run_eq: "ap_run s es = Some (foldl ap_next s es)"
  by (induction es arbitrary: s) (simp_all add: ap_step_eq)

text \<open>The effects settle: a visit is a finite sequence of renders, one round of effects per event.\<close>

lemma ap_session_eq: "ap_session es = Some (ap_trace es)"
  by (simp add: ap_session_def ap_settle_eq ap_run_eq ap_trace_def)

lemma ap_trace_snoc: "ap_trace (es @ [e]) = ap_next (ap_trace es) e"
  by (simp add: ap_trace_def)

lemma tax_summary_of_Nil: "tax_summary_of [] = zero_summary"
  by (simp add: tax_summary_of_def zero_summary_def js_sum_num_def Let_def js_minus_def)

lemma ap_inv_effects:
  "ap_summary s = tax_summary_of (ap_transactions s) \<Longrightarrow>
   (map_option snd prev = Some (snd (ap_deps s)) \<longrightarrow>
      ap_filtered s = filterTransactions (ap_search s) (ap_tab s) (ap_transactions s)) \<Longrightarrow>
   ap_inv (ap_effects s prev)"
  by (auto simp: ap_inv_def ap_effects_def Let_def fetchTransactions_def filter_effect_def ap_deps_def)

lemma ap_handle_summary:
  "ap_inv s \<Longrightarrow> ap_summary (ap_handle s e) = tax_summary_of (ap_transactions (ap_handle s e))"
  by (cases e) (auto simp: ap_inv_def drop_request_def accounting_GET_def Let_def)

lemma ap_handle_filtered: "ap_filtered (ap_handle s e) = ap_filtered s"
  by (cases e) (simp_all add: drop_request_def Let_def)

lemma ap_next_inv: "ap_inv s \<Longrightarrow> ap_inv (ap_next s e)"
proof -
  assume inv: "ap_inv s"
  let ?h = "ap_handle s e"
  have sm: "ap_summary ?h = tax_summary_of (ap_transactions ?h)" using ap_handle_summary[OF inv] .
  show ?thesis
  proof (cases "ap_deps ?h = ap_deps s")
    case True
    then have "ap_inv ?h" using inv sm ap_handle_filtered[of s e] by (simp add: ap_inv_def ap_deps_def)
    with True show ?thesis by (simp add: ap_next_def)
  next
    case False
    have "ap_inv (ap_effects ?h (Some (ap_deps s)))"
      by (rule ap_inv_effects[OF sm]) (use inv ap_handle_filtered[of s e] in \<open>auto simp: ap_inv_def ap_deps_def\<close>)
    with False show ?thesis by (simp add: ap_next_def Let_def)
  qed
qed

lemma ap_trace_inv: "ap_inv (ap_trace es)"
proof (induction es rule: rev_induct)
  case Nil
  have "ap_summary ap_init = tax_summary_of (ap_transactions ap_init)"
    by (simp add: ap_init_def tax_summary_of_Nil)
  then show ?case unfolding ap_trace_def foldl_Nil by (rule ap_inv_effects) simp
next
  case (snoc e es) then show ?case by (simp add: ap_trace_snoc ap_next_inv)
qed

lemma ap_mount: "ap_trace [] = ap_init\<lparr>ap_requests := [ap_query ap_init]\<rparr>"
  by (simp add: ap_trace_def ap_effects_def Let_def fetchTransactions_def filter_effect_def ap_init_def
      filterTransactions_def)

subsection \<open>Properties\<close>

text \<open>
  C11: in every state of a visit, the page renders the skeleton while loading
  and otherwise the summary cards and the table of one and the same list of
  fetched transactions: the cards summarise all of them, the table shows the
  search and tab filter of them.
\<close>

theorem page_view_consistent:
  "acct_page_view fmt_cur fmt_date (ap_trace es) =
   (if ap_loading (ap_trace es) then AV_Loading
    else AV_Page (acct_cards fmt_cur (tax_summary_of (ap_transactions (ap_trace es))))
           (AccountingTable fmt_cur fmt_date
             (filterTransactions (ap_search (ap_trace es)) (ap_tab (ap_trace es)) (ap_transactions (ap_trace es)))))"
  using ap_trace_inv[of es] by (simp add: acct_page_view_def ap_inv_def)

text \<open>
  C18: when the reply to a request made with the current selection arrives,
  the page shows the route's answer to that selection: the cards of the
  summary of the rows the GET handler returns and the table of their filter.
\<close>

theorem reply_shows_selection:
  assumes "i < length (ap_requests (ap_trace es))"
      and "ap_requests (ap_trace es) ! i = ap_query (ap_trace es)"
  shows "acct_page_view fmt_cur fmt_date (ap_trace (es @ [AP_Reply i store])) =
         AV_Page (acct_cards fmt_cur (tax_summary_of (get_filtered (ap_query (ap_trace es)) store)))
                 (AccountingTable fmt_cur fmt_date
                   (filterTransactions (ap_search (ap_trace es)) (ap_tab (ap_trace es))
                     (get_filtered (ap_query (ap_trace es)) store)))"
proof -
  let ?s = "ap_trace es" and ?t = "ap_trace (es @ [AP_Reply i store])"
  have inv: "ap_inv ?t" by (rule ap_trace_inv)
  have h: "ap_transactions ?t = get_filtered (ap_query ?s) store \<and> \<not> ap_loading ?t \<and>
           ap_search ?t = ap_search ?s \<and> ap_tab ?t = ap_tab ?s"
    using assms by (auto simp: ap_trace_snoc ap_next_def Let_def drop_request_def accounting_GET_def
        ap_effects_def fetchTransactions_def filter_effect_def ap_deps_def)
  show ?thesis using inv h by (simp add: acct_page_view_def ap_inv_def)
qed

theorem reply_shows_selection_witness:
  "0 < length (ap_requests (ap_trace [])) \<and> ap_requests (ap_trace []) ! 0 = ap_query (ap_trace []) \<and>
   acct_page_view (\<lambda>_. ''x'') id (ap_trace ([] @ [AP_Reply 0 accountingTransactions])) =
   AV_Page (acct_cards (\<lambda>_. ''x'') (tax_summary_of (get_filtered (ap_query (ap_trace [])) accountingTransactions)))
     (AccountingTable (\<lambda>_. ''x'') id (filterTransactions (ap_search (ap_trace [])) (ap_tab (ap_trace []))
        (get_filtered (ap_query (ap_trace [])) accountingTransactions)))"
  using reply_shows_selection[of 0 "[]" "\<lambda>_. ''x''" id accountingTransactions] by (simp add: ap_mount ap_query_def)

end
