(* ===== verification/DateDisplay.thy ===== *)
theory DateDisplay
  imports ExpiryView AccountingFlow
begin

text \<open>
  How the app shows a date string: \<open>new Date(s).toLocaleDateString(...)\<close>
  in src/src/lib/utils.ts (\<open>formatDate\<close>, lines 80--90), InventoryTable.tsx
  (lines 68--75), ExpiryList.tsx (lines 96--103, \<open>format_expiry\<close> of
  ExpiryView.thy) and the accounting page (lines 133--135 and 373--375, the
  \<open>fmt_date\<close> of \<open>acct_table_row\<close> in AccountingFlow.thy).
  \<open>toLocaleDateString\<close> renders the calendar day of the instant in the host's
  time zone; which characters it prints for a day is Intl's locale data, a
  parameter \<open>fmt\<close> of the local day number (days since 1970-01-01). A string
  that is not a valid date gives the Invalid Date, printed "Invalid Date".
\<close>

subsection \<open>Definitions\<close>

definition toLocaleDateString :: "millis \<Rightarrow> (int \<Rightarrow> string) \<Rightarrow> string \<Rightarrow> string" where
  "toLocaleDateString tz fmt s =
     (case parse_date s of None \<Rightarrow> ''Invalid Date'' | Some e \<Rightarrow> fmt (local_day tz e))"

text \<open>utils.ts \<open>formatDate\<close> on a string (a falsy argument gives N/A).\<close>

definition formatDate :: "millis \<Rightarrow> (int \<Rightarrow> string) \<Rightarrow> string \<Rightarrow> string" where
  "formatDate tz fmt date = (if date = [] then ''N/A'' else toLocaleDateString tz fmt date)"

text \<open>InventoryTable's own \<open>formatDate\<close>, lines 68--75.\<close>

definition table_formatDate :: "millis \<Rightarrow> (int \<Rightarrow> string) \<Rightarrow> string \<Rightarrow> string" where
  "table_formatDate tz fmt dateString = (if dateString = [] then ''N/A'' else toLocaleDateString tz fmt dateString)"

text \<open>
  The accounting page's two \<open>formatDate\<close>s, lines 133--135 (the export) and
  373--375 (\<open>AccountingTable\<close>): no test for an empty string.
\<close>

definition acct_formatDate :: "millis \<Rightarrow> (int \<Rightarrow> string) \<Rightarrow> string \<Rightarrow> string" where
  "acct_formatDate tz fmt dateString = toLocaleDateString tz fmt dateString"

text \<open>The day a date string names: its UTC day number.\<close>

definition date_day :: "string \<Rightarrow> int option" where
  "date_day s = map_option (\<lambda>e. e div day_ms) (parse_date s)"

subsection \<open>Lemmas\<close>

lemma toLocaleDateString_day:
  assumes "parse_date s = Some e" and "- day_ms \<le> tz" and "tz < day_ms"
  shows "toLocaleDateString tz fmt s = fmt (if tz < 0 then e div day_ms - 1 else e div day_ms)"
proof -
  have e: "e = (e div day_ms) * day_ms" using parse_date_day[OF assms(1)] .
  show ?thesis
  proof (cases "tz < 0")
    case True
    then show ?thesis using assms local_day_midnight_west[of tz "e div day_ms"] e
      by (simp add: toLocaleDateString_def)
  next
    case False
    then show ?thesis using assms local_day_midnight[of tz "e div day_ms"] e
      by (simp add: toLocaleDateString_def)
  qed
qed

subsection \<open>Properties\<close>

text \<open>
  C19: every table shows a date string as the local calendar day of its UTC
  midnight: in a time zone at or east of UTC the day the string names, west
  of UTC the day before. The expiry list's Expiry Date cell, the inventory
  table's, the accounting table's Date cell and utils.ts \<open>formatDate\<close> all
  do so.
\<close>

theorem date_shown_local_day:
  assumes "date_day (expiryDate m) = Some d" and "tx_date t = expiryDate m"
    and "- day_ms \<le> tz" and "tz < day_ms"
  shows "er_date (expiry_row (toLocaleDateString tz fmt) m) = fmt (if tz < 0 then d - 1 else d) \<and>
         table_formatDate tz fmt (expiryDate m) = fmt (if tz < 0 then d - 1 else d) \<and>
         ar_date (acct_table_row fmt_cur (acct_formatDate tz fmt) t) = fmt (if tz < 0 then d - 1 else d) \<and>
         formatDate tz fmt (expiryDate m) = fmt (if tz < 0 then d - 1 else d)"
proof -
  obtain e where e: "parse_date (expiryDate m) = Some e" "d = e div day_ms"
    using assms(1) by (auto simp: date_day_def)
  then have "expiryDate m \<noteq> []" by (auto simp: parse_date_def)
  then show ?thesis using toLocaleDateString_day[OF e(1) assms(3,4), of fmt] e(2) assms(2)
    by (simp add: expiry_row_def format_expiry_def formatDate_def table_formatDate_def acct_table_row_def
        acct_formatDate_def)
qed

theorem date_shown_local_day_witness:
  "date_day (expiryDate (demo_row ''Crocin'' 10)) = Some 19833 \<and>
   tx_date ((accountingTransactions ! 0)\<lparr>tx_date := ''2024-04-20''\<rparr>) = expiryDate (demo_row ''Crocin'' 10) \<and>
   - day_ms \<le> (-18000000::int) \<and> (-18000000::int) < day_ms \<and>
   ar_date (acct_table_row (\<lambda>_. ''x'') (acct_formatDate (-18000000)
      (\<lambda>n. if n = 19833 then ''20 Apr 2024'' else if n = 19832 then ''19 Apr 2024'' else ''?''))
      ((accountingTransactions ! 0)\<lparr>tx_date := ''2024-04-20''\<rparr>)) = ''19 Apr 2024''"
proof -
  have d: "date_day (expiryDate (demo_row ''Crocin'' 10)) = Some 19833"
    by (simp add: date_day_def demo_row_def date_eval day_ms_def)
  have t: "tx_date ((accountingTransactions ! 0)\<lparr>tx_date := ''2024-04-20''\<rparr>) = expiryDate (demo_row ''Crocin'' 10)"
    by (simp add: demo_row_def)
  have z: "- day_ms \<le> (-18000000::int)" "(-18000000::int) < day_ms" by (simp_all add: day_ms_def)
  show ?thesis
    using date_shown_local_day[OF d t z, of "\<lambda>n. if n = 19833 then ''20 Apr 2024''
      else if n = 19832 then ''19 Apr 2024'' else ''?''" "\<lambda>_. ''x''"] d t z by simp
qed

end
