(* ===== verification/IsoDate.thy ===== *)
theory IsoDate
  imports DateOrder Csv
begin

text \<open>
  The date part of \<open>Date.prototype.toISOString()\<close>, as the sources use it in
  \<open>new Date().toISOString().split('T')[0]\<close>: the default name of a download
  in utils.ts \<open>exportToCSV\<close> (line 38) and the expiry report's file name
  (ExpiryList.tsx line 163). ECMAScript computes the UTC calendar date of a
  time value with YearFromTime (the year whose first day is the last one not
  after the day), MonthFromTime and DateFromTime; here YearFromTime is a
  search from an estimate, down while the year starts after the day and then
  up while the next year does not, and its termination is proved by a
  measure. The year is printed with four digits when it lies in 0..9999 and
  in the expanded six-digit form with a sign otherwise.
\<close>

subsection \<open>Definitions\<close>

function year_down :: "int \<Rightarrow> int \<Rightarrow> int" where
  "year_down d y = (if d < day_from_year y then year_down d (y - 1) else y)"
  by pat_completeness auto

function year_up :: "int \<Rightarrow> int \<Rightarrow> int" where
  "year_up d y = (if day_from_year (y + 1) \<le> d then year_up d (y + 1) else y)"
  by pat_completeness auto

text \<open>YearFromTime on day numbers, from the estimate \<open>1970 + d div 365\<close>.\<close>

definition year_of_day :: "int \<Rightarrow> int" where
  "year_of_day d = year_up d (year_down d (1970 + d div 365))"

text \<open>
  MonthFromTime and DateFromTime: the month is the last one whose first day
  is not after the day within the year; the date counts from 1.
\<close>

function month_search :: "int \<Rightarrow> int \<Rightarrow> int \<Rightarrow> int" where
  "month_search y doy m = (if m < 12 \<and> days_before_month y (m + 1) \<le> doy then month_search y doy (m + 1) else m)"
  by pat_completeness auto
termination by (relation "measure (\<lambda>(y, doy, m). nat (12 - m))") auto

definition civil_of_day :: "int \<Rightarrow> int \<times> int \<times> int" where
  "civil_of_day d =
     (let y = year_of_day d; doy = d - day_from_year y; m = month_search y doy 1
      in (y, m, doy - days_before_month y m + 1))"

text \<open>The \<open>k\<close> low decimal digits of \<open>n\<close>, most significant first.\<close>

fun pad_digits :: "nat \<Rightarrow> int \<Rightarrow> string" where
  "pad_digits 0 n = []"
| "pad_digits (Suc k) n = ''0123456789'' ! nat (n div 10 ^ k mod 10) # pad_digits k n"

text \<open>The year field of the ISO format (four digits, or a sign and six).\<close>

definition iso_year :: "int \<Rightarrow> string" where
  "iso_year y =
     (if 0 \<le> y \<and> y \<le> 9999 then pad_digits 4 y
      else (if y < 0 then CHR ''-'' else CHR ''+'') # pad_digits 6 \<bar>y\<bar>)"

definition iso_date :: "int \<Rightarrow> string" where
  "iso_date d =
     (let (y, m, dd) = civil_of_day d in iso_year y @ CHR ''-'' # pad_digits 2 m @ CHR ''-'' # pad_digits 2 dd)"

text \<open>\<open>t.toISOString().split('T')[0]\<close> for a time value \<open>t\<close>: the day is \<open>floor(t / msPerDay)\<close>.\<close>

definition iso_date_part :: "millis \<Rightarrow> string" where
  "iso_date_part t = iso_date (t div day_ms)"

text \<open>
  The name of the download, utils.ts line 38: \<open>filename || default\<close>, where
  the optional argument is absent or the empty string for the default.
\<close>

definition download_name :: "string option \<Rightarrow> millis \<Rightarrow> string" where
  "download_name filename now =
     (case filename of Some f \<Rightarrow> if f \<noteq> [] then f else ''export-'' @ iso_date_part now @ ''.csv''
      | None \<Rightarrow> ''export-'' @ iso_date_part now @ ''.csv'')"

text \<open>
  The whole of \<open>exportToCSV(data, headers, filename)\<close>, utils.ts lines
  11--44: the error for no data, or the file the browser saves, its name and
  its text, when the link supports the \<open>download\<close> attribute (line 35;
  otherwise nothing is saved).
\<close>

definition exportToCSV_download ::
  "bool \<Rightarrow> (rat \<Rightarrow> string) \<Rightarrow> csv_row list \<Rightarrow> string list \<Rightarrow> string option \<Rightarrow> millis \<Rightarrow>
   csv_error + (string \<times> string) option" where
  "exportToCSV_download has_download num_str data headers filename now =
     (case exportToCSV num_str data headers of
        Inl e \<Rightarrow> Inl e
      | Inr text \<Rightarrow> Inr (if has_download then Some (download_name filename now, text) else None))"

text \<open>The expiry report's name, ExpiryList.tsx line 163, for the window \<open>expiryDays\<close>.\<close>

definition expiry_report_filename :: "string \<Rightarrow> millis \<Rightarrow> string" where
  "expiry_report_filename expiryDays now = ''expiry-report-'' @ expiryDays @ ''days-'' @ iso_date_part now @ ''.csv''"

subsection \<open>Lemmas\<close>

lemma days_before_month_13: "days_before_month y 13 = (if leap_year y then 366 else 365)"
  by (simp add: days_before_month_def upto.simps days_in_month_def)

lemma day_from_year_Suc: "day_from_year y + 365 \<le> day_from_year (y + 1)"
  using year_length[of y] by (simp add: days_before_month_13 split: if_splits)

termination year_down
proof (relation "measure (\<lambda>(d, y). nat (day_from_year y - d))")
  fix d y :: int
  assume "d < day_from_year y"
  moreover have "day_from_year (y - 1) + 365 \<le> day_from_year y" using day_from_year_Suc[of "y - 1"] by simp
  ultimately show "((d, y - 1), d, y) \<in> measure (\<lambda>(d, y). nat (day_from_year y - d))" by simp
qed simp

termination year_up
proof (relation "measure (\<lambda>(d, y). nat (d - day_from_year y))")
  fix d y :: int
  assume "day_from_year (y + 1) \<le> d"
  then show "((d, y + 1), d, y) \<in> measure (\<lambda>(d, y). nat (d - day_from_year y))"
    using day_from_year_Suc[of y] by simp
qed simp

declare year_down.simps [simp del] year_up.simps [simp del] month_search.simps [simp del]


lemma year_down_le: "day_from_year (year_down d y) \<le> d"
proof (induction d y rule: year_down.induct)
  case (1 d y)
  then show ?case by (subst year_down.simps) (auto simp: not_less)
qed

lemma year_up_bounds:
  "day_from_year y \<le> d \<Longrightarrow> day_from_year (year_up d y) \<le> d \<and> d < day_from_year (year_up d y + 1)"
proof (induction d y rule: year_up.induct)
  case (1 d y)
  show ?case
  proof (cases "day_from_year (y + 1) \<le> d")
    case True
    then have "year_up d y = year_up d (y + 1)" by (simp add: year_up.simps)
    with 1 True show ?thesis by simp
  next
    case False
    then have "year_up d y = y" by (simp add: year_up.simps)
    with 1 False show ?thesis by simp
  qed
qed

lemma year_of_day_bounds:
  "day_from_year (year_of_day d) \<le> d \<and> d < day_from_year (year_of_day d + 1)"
  unfolding year_of_day_def by (rule year_up_bounds[OF year_down_le])

lemma year_unique:
  assumes "day_from_year y \<le> d" "d < day_from_year (y + 1)" "day_from_year y' \<le> d" "d < day_from_year (y' + 1)"
  shows "y = y'"
proof (rule ccontr)
  assume "y \<noteq> y'"
  then consider "y < y'" | "y' < y" by linarith
  then show False
  proof cases
    case 1 then show False using day_from_year_mono[OF 1] assms by simp
  next
    case 2 then show False using day_from_year_mono[OF 2] assms by simp
  qed
qed

lemma year_of_day_eq: "day_from_year y \<le> d \<Longrightarrow> d < day_from_year (y + 1) \<Longrightarrow> year_of_day d = y"
  using year_of_day_bounds[of d] year_unique by blast

lemma month_search_bounds:
  "1 \<le> m \<Longrightarrow> m \<le> 12 \<Longrightarrow> days_before_month y m \<le> doy \<Longrightarrow> doy < days_before_month y 13 \<Longrightarrow>
   1 \<le> month_search y doy m \<and> month_search y doy m \<le> 12 \<and>
   days_before_month y (month_search y doy m) \<le> doy \<and> doy < days_before_month y (month_search y doy m + 1)"
proof (induction y doy m rule: month_search.induct)
  case (1 y doy m)
  show ?case
  proof (cases "m < 12 \<and> days_before_month y (m + 1) \<le> doy")
    case True
    then have "month_search y doy m = month_search y doy (m + 1)" by (simp add: month_search.simps)
    with 1 True show ?thesis by simp
  next
    case False
    then have r: "month_search y doy m = m" by (simp add: month_search.simps)
    show ?thesis
    proof (cases "m < 12")
      case True then show ?thesis using 1(2-4) False r by simp
    next
      case False then show ?thesis using 1(2-5) r by simp
    qed
  qed
qed

lemma month_unique:
  assumes "1 \<le> m" "days_before_month y m \<le> doy" "doy < days_before_month y (m + 1)"
      and "1 \<le> m'" "days_before_month y m' \<le> doy" "doy < days_before_month y (m' + 1)"
  shows "m = m'"
proof (rule ccontr)
  assume "m \<noteq> m'"
  then consider "m < m'" | "m' < m" by linarith
  then show False
  proof cases
    case 1 then show False using days_before_month_mono[of "m + 1" m' y] assms by simp
  next
    case 2 then show False using days_before_month_mono[of "m' + 1" m y] assms by simp
  qed
qed

lemma days_before_month_1: "days_before_month y 1 = 0"
  by (simp add: days_before_month_def)

lemma civil_of_make_day:
  assumes v: "valid_ymd y m d"
  shows "civil_of_day (make_day y m d) = (y, m, d)"
proof -
  have yr: "year_of_day (make_day y m d) = y" using make_day_bounds[OF v] by (rule year_of_day_eq)
  let ?doy = "days_before_month y m + (d - 1)"
  have m: "1 \<le> m" "m \<le> 12" "1 \<le> d" using v by (simp_all add: valid_ymd_def)
  have lo: "days_before_month y m \<le> ?doy" using m by simp
  have hi: "?doy < days_before_month y (m + 1)" using day_in_month_bound[OF v] .
  have "days_before_month y (m + 1) \<le> days_before_month y 13" using m by (intro days_before_month_mono) simp_all
  then have b: "0 \<le> ?doy" "?doy < days_before_month y 13"
    using hi days_before_month_nonneg[OF m(1), of y] m by simp_all
  have "month_search y ?doy 1 = m"
    using month_search_bounds[of 1 y ?doy] b m lo hi month_unique[of "month_search y ?doy 1" y ?doy m]
    by (simp add: days_before_month_1)
  then show ?thesis using yr by (simp add: civil_of_day_def make_day_def Let_def)
qed

lemma length_pad_digits [simp]: "length (pad_digits k n) = k"
  by (induction k) simp_all

lemma pad_digits_numeral:
  "pad_digits (numeral k) n = ''0123456789'' ! nat (n div 10 ^ pred_numeral k mod 10) # pad_digits (pred_numeral k) n"
  by (simp add: numeral_eq_Suc)

lemma utc_day_local:
  assumes "0 \<le> tz" "tz < day_ms"
  shows "t div day_ms = local_day tz t - (if (t + tz) mod day_ms < tz then 1 else 0)"
proof -
  let ?q = "(t + tz) div day_ms" and ?r = "(t + tz) mod day_ms"
  have D: "0 < day_ms" by (simp add: day_ms_def)
  have "?q * day_ms + ?r = t + tz" by (rule div_mult_mod_eq)
  then have t: "t = (?r - tz) + ?q * day_ms" by linarith
  have r: "0 \<le> ?r" "?r < day_ms" using D by simp_all
  have "((?r - tz) + ?q * day_ms) div day_ms = ?q + (?r - tz) div day_ms"
    using D by (intro div_mult_self1) simp
  then have "t div day_ms = (?r - tz) div day_ms + ?q" using t by simp
  moreover have "(?r - tz) div day_ms = (if ?r < tz then -1 else 0)"
  proof (cases "?r < tz")
    case True
    have "(?r - tz + day_ms + (-1) * day_ms) div day_ms = -1 + (?r - tz + day_ms) div day_ms"
      using D by (intro div_mult_self1) simp
    moreover have "(?r - tz + day_ms) div day_ms = 0"
      using div_pos_pos_trivial[of "?r - tz + day_ms" day_ms] r assms True by linarith
    ultimately show ?thesis using True by simp
  next
    case False
    have "0 \<le> ?r - tz" "?r - tz < day_ms" using False r assms by linarith+
    then show ?thesis using div_pos_pos_trivial[of "?r - tz" day_ms] False by simp
  qed
  ultimately show ?thesis by (simp add: local_day_def)
qed

subsection \<open>Properties\<close>

text \<open>
  C29: the expiry report's file name carries the UTC date of the export, not
  the local one: in a time zone \<open>tz\<close> at or east of UTC it is the local date,
  except during the first \<open>tz\<close> milliseconds of the local day, when it is the
  day before.
\<close>

theorem report_filename_utc_date:
  assumes "0 \<le> tz" and "tz < day_ms"
  shows "expiry_report_filename w now =
         ''expiry-report-'' @ w @ ''days-'' @
         iso_date (if (now + tz) mod day_ms < tz then local_day tz now - 1 else local_day tz now) @ ''.csv''"
  using utc_day_local[OF assms, of now]
  by (simp add: expiry_report_filename_def iso_date_part_def)

theorem report_filename_utc_date_witness:
  "0 \<le> (19800000::int) \<and> (19800000::int) < day_ms \<and>
   local_day 19800000 (make_day 2025 1 14 * day_ms + 68400000) = make_day 2025 1 15 \<and>
   expiry_report_filename ''30'' (make_day 2025 1 14 * day_ms + 68400000) = ''expiry-report-30days-2025-01-14.csv''"
proof -
  have z: "0 \<le> (19800000::int)" "(19800000::int) < day_ms" by (simp_all add: day_ms_def)
  have v: "valid_ymd 2025 1 14" by (simp add: valid_ymd_def days_in_month_def)
  have l: "local_day 19800000 (make_day 2025 1 14 * day_ms + 68400000) = make_day 2025 1 14 + 1"
    "(make_day 2025 1 14 * day_ms + 68400000 + 19800000) mod day_ms < 19800000"
    by (simp_all add: local_day_def day_ms_def)
  have m: "make_day 2025 1 15 = make_day 2025 1 14 + 1" by (simp add: make_day_def)
  have i: "iso_date (make_day 2025 1 14) = ''2025-01-14''"
    using civil_of_make_day[OF v] by (simp add: iso_date_def iso_year_def pad_digits_numeral)
  show ?thesis using report_filename_utc_date[OF z, of "''30''" "make_day 2025 1 14 * day_ms + 68400000"] z l m i
    by simp
qed

end
