(* ===== verification/Inventory.thy ===== *)
theory Inventory
  imports Medicine
begin

text \<open>
  The inventory table of src/src/components/InventoryTable.tsx and the
  inventory page that feeds it (src/src/app/inventory/page.tsx). The table is
  a function of its props and its sort state: the rows it renders (a sorted
  copy of its \<open>medicines\<close> prop), the status badge, expiry text and tint of
  each row, the alerts above it and the counts below it. The page filters the
  fetched medicines by the search box and the active tab and passes the tab's
  props. Markup and styling beyond these choices are not modelled; the date
  formatting of the expiry column is not modelled either (it is display only).
\<close>

subsection \<open>Definitions\<close>

datatype stock_badge = SB_Expired | SB_LowStock | SB_ExpiringSoon | SB_InStock

text \<open>\<open>getStockBadge(medicine)\<close>, InventoryTable.tsx lines 77--88.\<close>

definition getStockBadge :: "medicine \<Rightarrow> stock_badge" where
  "getStockBadge m =
     (if isExpired m then SB_Expired else if isLowStock m then SB_LowStock
      else if isExpiringSoon m then SB_ExpiringSoon else SB_InStock)"

datatype expiry_status = ES_Expired | ES_DaysLeft int | ES_Days int

text \<open>\<open>getExpiryStatus(medicine)\<close>, lines 90--98.\<close>

definition getExpiryStatus :: "medicine \<Rightarrow> expiry_status" where
  "getExpiryStatus m =
     (if isExpired m then ES_Expired else if isExpiringSoon m then ES_DaysLeft (daysUntilExpiry m)
      else ES_Days (daysUntilExpiry m))"

datatype row_tint = TintRed | TintOrange | TintYellow

text \<open>The background classes of a row, lines 189--193, in template order.\<close>

definition row_classes :: "medicine \<Rightarrow> row_tint list" where
  "row_classes m =
     (if isExpired m then [TintRed] else []) @
     (if isLowStock m \<and> \<not> isExpired m then [TintOrange] else []) @
     (if isExpiringSoon m \<and> \<not> isLowStock m \<and> \<not> isExpired m then [TintYellow] else [])"

text \<open>The table's optional props, lines 24--38.\<close>

record table_props =
  tp_showAlerts :: bool
  tp_showExpiry :: bool
  tp_showSchedule :: bool

record table_view =
  tv_rows :: "medicine list"
  tv_lowAlert :: "nat option"
  tv_expiryAlert :: "nat option"
  tv_shown :: nat
  tv_lowCount :: nat
  tv_expiringCount :: nat
  tv_scheduleHCount :: nat
  tv_scheduleColumn :: bool

datatype table_render = EmptyTable | TableView table_view

definition is_schedule_h :: "medicine \<Rightarrow> bool" where
  "is_schedule_h m \<longleftrightarrow> schedule m = Some ''H''"

text \<open>
  The table, lines 32--253: with no medicines the empty state (lines
  100--109); otherwise the sorted copy \<open>[...medicines].sort(...)\<close> (line 51),
  the two alerts with their counts (lines 113--129), the footer counts over
  the unsorted prop (lines 246--253) and the Schedule column (line 182).
\<close>

definition inventory_table ::
  "table_props \<Rightarrow> medicine_field \<times> sort_direction \<Rightarrow> medicine list \<Rightarrow> table_render" where
  "inventory_table p st ms =
     (if ms = [] then EmptyTable
      else TableView
        \<lparr>tv_rows = sort_cmp (compare_medicines (fst st) (snd st)) ms,
         tv_lowAlert = (if tp_showAlerts p \<and> list_ex isLowStock ms
                        then Some (length (filter isLowStock ms)) else None),
         tv_expiryAlert = (if tp_showExpiry p \<and> list_ex isExpiringSoon ms
                           then Some (length (filter isExpiringSoon ms)) else None),
         tv_shown = length ms,
         tv_lowCount = length (filter isLowStock ms),
         tv_expiringCount = length (filter isExpiringSoon ms),
         tv_scheduleHCount = length (filter is_schedule_h ms),
         tv_scheduleColumn = tp_showSchedule p\<rparr>)"

text \<open>The table's initial sort state, lines 39--40.\<close>

definition table_sort_init :: "medicine_field \<times> sort_direction" where
  "table_sort_init = (F_name, Asc)"

datatype inventory_tab = TabAll | TabLowStock | TabExpiring | TabScheduleH

text \<open>The search of \<open>filterMedicines\<close>, inventory/page.tsx lines 69--75 (an empty term is falsy).\<close>

definition inventory_search :: "string \<Rightarrow> medicine \<Rightarrow> bool" where
  "inventory_search searchTerm m \<longleftrightarrow>
     js_includes (js_lower (name m)) (js_lower searchTerm) \<or>
     js_includes (js_lower (supplier m)) (js_lower searchTerm) \<or>
     js_includes (js_lower (batch m)) (js_lower searchTerm)"

text \<open>\<open>filterMedicines()\<close>, lines 65--94.\<close>

definition filterMedicines :: "string \<Rightarrow> inventory_tab \<Rightarrow> medicine list \<Rightarrow> medicine list" where
  "filterMedicines searchTerm activeTab ms =
     (let filtered = (if searchTerm \<noteq> [] then filter (inventory_search searchTerm) ms else ms)
      in case activeTab of
           TabLowStock \<Rightarrow> filter isLowStock filtered
         | TabExpiring \<Rightarrow> filter isExpiringSoon filtered
         | TabScheduleH \<Rightarrow> filter is_schedule_h filtered
         | TabAll \<Rightarrow> filtered)"

text \<open>The props each tab passes to the table, lines 214--268.\<close>

definition tab_props :: "inventory_tab \<Rightarrow> table_props" where
  "tab_props t =
     \<lparr>tp_showAlerts = (t = TabLowStock), tp_showExpiry = (t = TabExpiring),
      tp_showSchedule = (t = TabScheduleH)\<rparr>"

text \<open>What the page shows under the active tab, for the table's sort state \<open>st\<close>.\<close>

definition inventory_page ::
  "string \<Rightarrow> inventory_tab \<Rightarrow> medicine_field \<times> sort_direction \<Rightarrow> medicine list \<Rightarrow> table_render" where
  "inventory_page searchTerm t st ms = inventory_table (tab_props t) st (filterMedicines searchTerm t ms)"

definition table_rows :: "table_render \<Rightarrow> medicine list" where
  "table_rows r = (case r of EmptyTable \<Rightarrow> [] | TableView v \<Rightarrow> tv_rows v)"

text \<open>Sample rows: a plentiful medicine, a low-stock one expiring in 40 days, and an expired low-stock one.\<close>

definition stock_row :: "string \<Rightarrow> int \<Rightarrow> int \<Rightarrow> medicine" where
  "stock_row n s d =
     \<lparr>medicine_id = n, name = n, stock = s, price = 10, batch = ''B-'' @ n, supplier = ''MedSupply'',
      expiryDate = ''2024-06-01'', schedule = None, daysUntilExpiry = d, isLowStock = s < 10,
      isExpiringSoon = (0 \<le> d \<and> d \<le> 30), isExpired = d < 0\<rparr>"

definition inventory_sample :: "medicine list" where
  "inventory_sample = [stock_row ''Paracetamol'' 150 200, stock_row ''Crocin'' 8 40, stock_row ''Aspirin'' 5 (-3)]"

subsection \<open>Lemmas\<close>

lemma compare_name_key: "compare_medicines F_name Asc a b \<le> 0 \<longleftrightarrow> name a \<le> name b"
  by (simp add: compare_medicines_def localeCompare_le)

lemma compare_expiry_key:
  "parse_date (expiryDate a) = Some x \<Longrightarrow> parse_date (expiryDate b) = Some y \<Longrightarrow>
   (compare_medicines F_expiryDate Asc a b \<le> 0 \<longleftrightarrow> x \<le> y) \<and>
   (compare_medicines F_expiryDate Desc a b \<le> 0 \<longleftrightarrow> - x \<le> - y)"
  using parse_date_le[of "expiryDate a" x "expiryDate b" y] parse_date_le[of "expiryDate b" y "expiryDate a" x]
  by (simp add: compare_medicines_def localeCompare_le)

lemma table_rows_inventory_table:
  "table_rows (inventory_table p st ms) = sort_cmp (compare_medicines (fst st) (snd st)) ms"
  by (simp add: table_rows_def inventory_table_def sort_cmp_def)

lemma length_filter_sort_cmp: "length (filter P (sort_cmp cmp xs)) = length (filter P xs)"
  by (metis mset_filter mset_sort_cmp size_mset)

lemma inventory_table_TableView:
  assumes "inventory_table p st ms = TableView v"
  shows "ms \<noteq> [] \<and> tv_rows v = sort_cmp (compare_medicines (fst st) (snd st)) ms \<and>
         tv_lowAlert v = (if tp_showAlerts p \<and> list_ex isLowStock ms
                          then Some (length (filter isLowStock ms)) else None) \<and>
         tv_lowCount v = length (filter isLowStock ms)"
  using assms by (auto simp: inventory_table_def split: if_splits)

lemma inventory_sample_low_stock:
  "filterMedicines [] TabLowStock inventory_sample = [stock_row ''Crocin'' 8 40, stock_row ''Aspirin'' 5 (-3)]"
  by (simp add: filterMedicines_def inventory_sample_def stock_row_def)

lemma inventory_sample_low_stock_page:
  "inventory_page [] TabLowStock table_sort_init inventory_sample \<noteq> EmptyTable \<and>
   table_rows (inventory_page [] TabLowStock table_sort_init inventory_sample) =
     [stock_row ''Aspirin'' 5 (-3), stock_row ''Crocin'' 8 40]"
  by (simp add: inventory_page_def inventory_table_def table_rows_def table_sort_init_def inventory_sample_low_stock
      sort_cmp_key[OF compare_name_key] stock_row_def)

subsection \<open>Properties\<close>

text \<open>
  The background tint of an inventory row is the colour of its status
  badge: red for Expired, orange for Low Stock, yellow for Expiring Soon, none
  for In Stock; the three tint conditions never apply together.
\<close>

theorem row_tint_matches_badge:
  "row_classes m = (case getStockBadge m of SB_Expired \<Rightarrow> [TintRed] | SB_LowStock \<Rightarrow> [TintOrange]
                     | SB_ExpiringSoon \<Rightarrow> [TintYellow] | SB_InStock \<Rightarrow> [])"
  by (simp add: row_classes_def getStockBadge_def)


text \<open>
  In its initial sort state the inventory table lists the rows of the
  active tab and search ordered by name, ties in their fetched order.
\<close>

theorem inventory_default_order:
  "table_rows (inventory_page q t table_sort_init ms) = sort_key name (filterMedicines q t ms)"
  by (simp add: table_rows_def inventory_page_def inventory_table_def table_sort_init_def
      sort_cmp_key[OF compare_name_key])


text \<open>
  C33: Every row the inventory page shows is a fetched medicine, and under the
  Low Stock, Expiring Soon and Schedule H tabs it has that tab's flag.
\<close>

theorem tab_rows_sound:
  assumes "m \<in> set (table_rows (inventory_page q t st ms))"
  shows "m \<in> set ms \<and> (t = TabLowStock \<longrightarrow> isLowStock m) \<and> (t = TabExpiring \<longrightarrow> isExpiringSoon m) \<and>
         (t = TabScheduleH \<longrightarrow> is_schedule_h m)"
proof -
  have "m \<in> set (filterMedicines q t ms)"
    using assms by (auto simp: table_rows_def inventory_page_def inventory_table_def mset_sort_cmp
        simp flip: set_mset_mset split: if_splits)
  then show ?thesis by (cases t) (auto simp: filterMedicines_def Let_def split: if_splits)
qed


theorem tab_rows_sound_witness:
  "stock_row ''Crocin'' 8 40 \<in> set (table_rows (inventory_page [] TabLowStock table_sort_init inventory_sample)) \<and>
   isLowStock (stock_row ''Crocin'' 8 40) \<and> stock_row ''Crocin'' 8 40 \<in> set inventory_sample"
proof -
  have m: "stock_row ''Crocin'' 8 40 \<in> set (table_rows (inventory_page [] TabLowStock table_sort_init inventory_sample))"
    by (simp add: inventory_sample_low_stock_page)
  show ?thesis using tab_rows_sound[OF m] m by simp
qed


text \<open>
  C12: clicking the Expiry Date column sorts the rows chronologically, earliest
  first and then latest first, when every row's expiry date is a valid ISO
  date: the string comparison the column uses agrees with the order of the
  days the dates denote.
\<close>

theorem expiry_column_chronological:
  assumes "\<forall>m \<in> set ms. parse_date (expiryDate m) \<noteq> None"
  shows "table_rows (inventory_table p (F_expiryDate, Asc) ms) = sort_key (\<lambda>m. the (parse_date (expiryDate m))) ms \<and>
         table_rows (inventory_table p (F_expiryDate, Desc) ms) = sort_key (\<lambda>m. - the (parse_date (expiryDate m))) ms"
proof -
  have key: "(compare_medicines F_expiryDate Asc a b \<le> 0 \<longleftrightarrow> the (parse_date (expiryDate a)) \<le> the (parse_date (expiryDate b))) \<and>
        (compare_medicines F_expiryDate Desc a b \<le> 0 \<longleftrightarrow> - the (parse_date (expiryDate a)) \<le> - the (parse_date (expiryDate b)))"
    if "a \<in> set ms" "b \<in> set ms" for a b
  proof -
    have "parse_date (expiryDate a) \<noteq> None" "parse_date (expiryDate b) \<noteq> None" using assms that by auto
    then obtain x y where xy: "parse_date (expiryDate a) = Some x" "parse_date (expiryDate b) = Some y" by auto
    show ?thesis using compare_expiry_key[OF xy] unfolding xy option.sel .
  qed
  have "sort_cmp (compare_medicines F_expiryDate Asc) ms = sort_key (\<lambda>m. the (parse_date (expiryDate m))) ms"
  proof (rule sort_cmp_key_on, intro ballI)
    fix a b assume ab: "a \<in> set ms" "b \<in> set ms"
    show "compare_medicines F_expiryDate Asc a b \<le> 0 \<longleftrightarrow> the (parse_date (expiryDate a)) \<le> the (parse_date (expiryDate b))"
      by (rule conjunct1[OF key[OF ab]])
  qed
  moreover have "sort_cmp (compare_medicines F_expiryDate Desc) ms = sort_key (\<lambda>m. - the (parse_date (expiryDate m))) ms"
  proof (rule sort_cmp_key_on, intro ballI)
    fix a b assume ab: "a \<in> set ms" "b \<in> set ms"
    show "compare_medicines F_expiryDate Desc a b \<le> 0 \<longleftrightarrow> - the (parse_date (expiryDate a)) \<le> - the (parse_date (expiryDate b))"
      by (rule conjunct2[OF key[OF ab]])
  qed
  ultimately show ?thesis by (simp only: table_rows_inventory_table fst_conv snd_conv)
qed

theorem expiry_column_chronological_witness:
  "list_all (\<lambda>m. parse_date (expiryDate m) \<noteq> None)
     [stock_row ''Crocin'' 8 40, (stock_row ''Aspirin'' 5 (-3))\<lparr>expiryDate := ''2024-03-09''\<rparr>] \<and>
   map name (table_rows (inventory_table \<lparr>tp_showAlerts = True, tp_showExpiry = True, tp_showSchedule = False\<rparr> (F_expiryDate, Asc)
     [stock_row ''Crocin'' 8 40, (stock_row ''Aspirin'' 5 (-3))\<lparr>expiryDate := ''2024-03-09''\<rparr>])) =
   [''Aspirin'', ''Crocin'']"
proof -
  let ?ms = "[stock_row ''Crocin'' 8 40, (stock_row ''Aspirin'' 5 (-3))\<lparr>expiryDate := ''2024-03-09''\<rparr>]"
  have p: "parse_date (expiryDate (stock_row ''Crocin'' 8 40)) = Some 1717200000000"
          "parse_date ''2024-03-09'' = Some 1709942400000"
    by (simp_all add: stock_row_def date_eval)
  then have "list_all (\<lambda>m. parse_date (expiryDate m) \<noteq> None) ?ms" by simp
  moreover have "map name (sort_key (\<lambda>m. the (parse_date (expiryDate m))) ?ms) = [''Aspirin'', ''Crocin'']"
    using p by (simp add: stock_row_def)
  ultimately show ?thesis using expiry_column_chronological[of ?ms "\<lparr>tp_showAlerts = True, tp_showExpiry = True, tp_showSchedule = False\<rparr>"] by (simp add: list_all_iff)
qed

text \<open>
  Under the Low Stock tab the alert above the table is shown whenever the
  table is, and its count and the footer's low-stock count are the number of
  rows shown.
\<close>

theorem low_stock_alert_counts_rows:
  assumes "inventory_page q TabLowStock st ms = TableView v"
  shows "tv_lowAlert v = Some (length (tv_rows v)) \<and> tv_lowCount v = length (tv_rows v)"
proof -
  let ?fs = "filterMedicines q TabLowStock ms"
  have v: "?fs \<noteq> [] \<and> tv_rows v = sort_cmp (compare_medicines (fst st) (snd st)) ?fs \<and>
         tv_lowAlert v = (if list_ex isLowStock ?fs then Some (length (filter isLowStock ?fs)) else None) \<and>
         tv_lowCount v = length (filter isLowStock ?fs)"
    using inventory_table_TableView[of "tab_props TabLowStock" st ?fs v] assms
    by (simp add: inventory_page_def tab_props_def)
  have all: "filter isLowStock ?fs = ?fs" by (simp add: filterMedicines_def Let_def)
  have "list_ex isLowStock ?fs" using v all by (metis filter_False list_ex_iff)
  then show ?thesis using v all
    by (simp add: length_filter_sort_cmp[where P = "\<lambda>_. True", simplified])
qed


theorem low_stock_alert_counts_rows_witness:
  "\<exists>v. inventory_page [] TabLowStock table_sort_init inventory_sample = TableView v \<and>
       tv_lowAlert v = Some 2 \<and> tv_lowCount v = 2"
proof -
  obtain v where v: "inventory_page [] TabLowStock table_sort_init inventory_sample = TableView v"
    using inventory_sample_low_stock_page by (cases "inventory_page [] TabLowStock table_sort_init inventory_sample") auto
  have "length (tv_rows v) = 2" using inventory_sample_low_stock_page v by (simp add: table_rows_def)
  then show ?thesis using low_stock_alert_counts_rows[OF v] v by auto
qed






end

