(* ===== verification/AddStock.thy ===== *)
theory AddStock
  imports Prelude
begin

text \<open>
  The add-stock dialog of src/src/components/AddStockModal.tsx as the
  inventory page mounts it (src/src/app/inventory/page.tsx lines 179 and
  271--275): the page opens it, \<open>onClose\<close> hides it and \<open>onSuccess\<close> refetches
  the inventory. The dialog validates its form with a zod schema and posts it
  to /api/medicines (a route not in the sources); the reply is its own event.
  As in ScheduleH.thy the posts are an explicit list, and an input that is
  not rendered (the dialog is closed) or a disabled button ignores its event.
\<close>

subsection \<open>Definitions\<close>

record stock_entry =
  se_name :: string
  se_stock :: int
  se_price :: rat
  se_batch :: string
  se_supplier :: string
  se_expiryDate :: string
  se_schedule :: string

datatype stock_error =
    NameRequired | StockBelowOne | PriceNotPositive | BatchRequired | SupplierRequired | ExpiryRequired

text \<open>\<open>addStockSchema\<close>, lines 13--21 (the schedule is an optional string).\<close>

definition add_stock_errors :: "stock_entry \<Rightarrow> stock_error list" where
  "add_stock_errors e =
     (if se_name e = [] then [NameRequired] else []) @
     (if se_stock e < 1 then [StockBelowOne] else []) @
     (if se_price e < 0.01 then [PriceNotPositive] else []) @
     (if se_batch e = [] then [BatchRequired] else []) @
     (if se_supplier e = [] then [SupplierRequired] else []) @
     (if se_expiryDate e = [] then [ExpiryRequired] else [])"

text \<open>\<open>defaultValues\<close>, lines 34--42.\<close>

definition stock_defaults :: stock_entry where
  "stock_defaults =
     \<lparr>se_name = [], se_stock = 0, se_price = 0, se_batch = [], se_supplier = [], se_expiryDate = [],
      se_schedule = []\<rparr>"

text \<open>The options of the schedule select, lines 191--195.\<close>

datatype schedule_choice = ChooseRegular | ChooseH | ChooseX

definition schedule_value :: "schedule_choice \<Rightarrow> string" where
  "schedule_value c = (case c of ChooseRegular \<Rightarrow> [] | ChooseH \<Rightarrow> ''H'' | ChooseX \<Rightarrow> ''X'')"

record add_stock =
  as_open :: bool
  as_form :: stock_entry
  as_isSubmitting :: bool
  as_posted :: "stock_entry list"
  as_refetches :: nat

definition add_stock_init :: add_stock where
  "add_stock_init =
     \<lparr>as_open = False, as_form = stock_defaults, as_isSubmitting = False, as_posted = [], as_refetches = 0\<rparr>"

text \<open>
  The events: the page's "Add New Medicine" button, the inputs (stock through
  \<open>parseInt(...) || 0\<close>, price through \<open>parseFloat(...) || 0\<close>), the schedule
  select, submit, the reply to the post, and Cancel or the dialog's close.
\<close>

datatype add_stock_event =
    AS_Open | AS_SetName string | AS_SetStock int | AS_SetPrice rat | AS_SetBatch string
  | AS_SetSupplier string | AS_SetExpiry string | AS_SetSchedule schedule_choice
  | AS_Submit | AS_Response bool | AS_Close

definition set_field :: "(stock_entry \<Rightarrow> stock_entry) \<Rightarrow> add_stock \<Rightarrow> add_stock" where
  "set_field g s = (if as_open s then s\<lparr>as_form := g (as_form s)\<rparr> else s)"

text \<open>
  \<open>form.handleSubmit(onSubmit)\<close> (lines 45--55, 83, 207: the button is
  disabled while a post is pending) and the reply (lines 57--69: on success
  the form is reset, \<open>onSuccess\<close> refetches and \<open>onClose\<close> hides the dialog).
\<close>

fun add_stock_step :: "add_stock \<Rightarrow> add_stock_event \<Rightarrow> add_stock" where
  "add_stock_step s AS_Open = s\<lparr>as_open := True\<rparr>"
| "add_stock_step s (AS_SetName v) = set_field (\<lambda>e. e\<lparr>se_name := v\<rparr>) s"
| "add_stock_step s (AS_SetStock v) = set_field (\<lambda>e. e\<lparr>se_stock := v\<rparr>) s"
| "add_stock_step s (AS_SetPrice v) = set_field (\<lambda>e. e\<lparr>se_price := v\<rparr>) s"
| "add_stock_step s (AS_SetBatch v) = set_field (\<lambda>e. e\<lparr>se_batch := v\<rparr>) s"
| "add_stock_step s (AS_SetSupplier v) = set_field (\<lambda>e. e\<lparr>se_supplier := v\<rparr>) s"
| "add_stock_step s (AS_SetExpiry v) = set_field (\<lambda>e. e\<lparr>se_expiryDate := v\<rparr>) s"
| "add_stock_step s (AS_SetSchedule c) = set_field (\<lambda>e. e\<lparr>se_schedule := schedule_value c\<rparr>) s"
| "add_stock_step s AS_Submit =
     (if as_open s \<and> \<not> as_isSubmitting s \<and> add_stock_errors (as_form s) = []
      then s\<lparr>as_isSubmitting := True, as_posted := as_posted s @ [as_form s]\<rparr> else s)"
| "add_stock_step s (AS_Response ok) =
     (if as_isSubmitting s
      then (if ok then s\<lparr>as_isSubmitting := False, as_form := stock_defaults,
                           as_refetches := Suc (as_refetches s), as_open := False\<rparr>
            else s\<lparr>as_isSubmitting := False\<rparr>)
      else s)"
| "add_stock_step s AS_Close = s\<lparr>as_open := False\<rparr>"

fun add_stock_run :: "add_stock \<Rightarrow> add_stock_event list \<Rightarrow> add_stock" where
  "add_stock_run s [] = s"
| "add_stock_run s (e # es) = add_stock_run (add_stock_step s e) es"

text \<open>A sample input: opening the dialog, entering a complete medicine and submitting it.\<close>

definition paracetamol_entry :: "add_stock_event list" where
  "paracetamol_entry =
     [AS_Open, AS_SetName ''Paracetamol 500mg'', AS_SetStock 100, AS_SetPrice 12, AS_SetBatch ''PCM-2024-07'',
      AS_SetSupplier ''MedSupply'', AS_SetExpiry ''2025-12-31'', AS_SetSchedule ChooseRegular, AS_Submit]"

text \<open>The number of replies to posts in a sequence of events.\<close>

definition reply_count :: "add_stock_event list \<Rightarrow> nat" where
  "reply_count es = length (filter (\<lambda>e. case e of AS_Response _ \<Rightarrow> True | _ \<Rightarrow> False) es)"

text \<open>A posted entry: it passed the schema and its schedule is one the select offers.\<close>

definition valid_entry :: "stock_entry \<Rightarrow> bool" where
  "valid_entry e \<longleftrightarrow> add_stock_errors e = [] \<and> se_schedule e \<in> {[], ''H'', ''X''}"

definition add_stock_inv :: "add_stock \<Rightarrow> bool" where
  "add_stock_inv s \<longleftrightarrow> se_schedule (as_form s) \<in> {[], ''H'', ''X''} \<and> list_all valid_entry (as_posted s)"

subsection \<open>Lemmas\<close>

lemma add_stock_step_inv: "add_stock_inv s \<Longrightarrow> add_stock_inv (add_stock_step s e)"
  by (cases e) (auto simp: add_stock_inv_def set_field_def schedule_value_def valid_entry_def
      stock_defaults_def split: schedule_choice.splits)

lemma add_stock_run_inv: "add_stock_inv s \<Longrightarrow> add_stock_inv (add_stock_run s es)"
  by (induction es arbitrary: s) (simp_all add: add_stock_step_inv)

lemma add_stock_init_inv: "add_stock_inv add_stock_init"
  by (simp add: add_stock_inv_def add_stock_init_def stock_defaults_def)

lemma add_stock_step_potential:
  "length (as_posted (add_stock_step s e)) + (if as_isSubmitting (add_stock_step s e) then 0 else 1) \<le>
   length (as_posted s) + (if as_isSubmitting s then 0 else 1) + reply_count [e]"
  by (cases e) (auto simp: set_field_def reply_count_def)

lemma add_stock_run_potential:
  "length (as_posted (add_stock_run s es)) + (if as_isSubmitting (add_stock_run s es) then 0 else 1) \<le>
   length (as_posted s) + (if as_isSubmitting s then 0 else 1) + reply_count es"
proof (induction es arbitrary: s)
  case (Cons e es)
  have "reply_count (e # es) = reply_count [e] + reply_count es" by (simp add: reply_count_def)
  then show ?case using Cons.IH[of "add_stock_step s e"] add_stock_step_potential[of s e] by simp
qed (simp add: reply_count_def)

subsection \<open>Properties\<close>

text \<open>
  C30: every medicine the add-stock dialog posts, in any sequence of user
  actions and replies from the page's initial state, passed the schema (name,
  batch, supplier and expiry date given, stock at least 1, price at least
  0.01) and has a schedule the select offers.
\<close>

theorem posted_entries_valid:
  assumes "e \<in> set (as_posted (add_stock_run add_stock_init es))"
  shows "add_stock_errors e = [] \<and> se_schedule e \<in> {[], ''H'', ''X''}"
  using add_stock_run_inv[OF add_stock_init_inv, of es] assms
  by (auto simp: add_stock_inv_def list_all_iff valid_entry_def)

theorem posted_entries_valid_witness:
  "as_posted (add_stock_run add_stock_init paracetamol_entry) \<noteq> [] \<and>
   add_stock_errors (hd (as_posted (add_stock_run add_stock_init paracetamol_entry))) = []"
proof -
  have p: "as_posted (add_stock_run add_stock_init paracetamol_entry) =
           [\<lparr>se_name = ''Paracetamol 500mg'', se_stock = 100, se_price = 12, se_batch = ''PCM-2024-07'',
             se_supplier = ''MedSupply'', se_expiryDate = ''2025-12-31'', se_schedule = []\<rparr>]"
    by (simp add: paracetamol_entry_def add_stock_init_def stock_defaults_def set_field_def schedule_value_def
        add_stock_errors_def)
  then have m: "hd (as_posted (add_stock_run add_stock_init paracetamol_entry)) \<in>
                set (as_posted (add_stock_run add_stock_init paracetamol_entry))" by simp
  show ?thesis using posted_entries_valid[OF m] p by simp
qed

end
