(* ===== verification/InventoryFlow.thy ===== *)
theory InventoryFlow
  imports Inventory AddStock
begin

text \<open>
  The inventory page of src/src/app/inventory/page.tsx as a component: its
  state (lines 29--39), the fetch of /api/medicines split into its request
  and its reply (replies in any order), the filter effect (lines 45--47), the
  handlers of its controls, and what it renders (lines 101--277). While the
  page loads it renders only a skeleton, so the \<open>InventoryTable\<close> and the
  \<open>AddStockModal\<close> it mounts are unmounted and lose their state: the table's
  sort and the dialog's form (AddStock.thy). The dialog's own open flag is the
  page's \<open>showAddModal\<close>, which survives. A post the dialog sent keeps running
  after an unmount: its continuation still calls the page's \<open>onSuccess\<close>
  (\<open>fetchMedicines\<close>) and \<open>onClose\<close>; each pending post records the mount of
  the dialog that sent it. The issue number of each request, and of the one
  whose data the page shows, are ghost state.
\<close>

subsection \<open>Definitions\<close>

text \<open>\<open>stats\<close>, lines 35--39: computed by /api/medicines, a route not in the sources.\<close>

record inv_stats =
  totalMedicines :: int
  lowStockCount :: int
  expiringSoonCount :: int

definition zero_inv_stats :: inv_stats where
  "zero_inv_stats = \<lparr>totalMedicines = 0, lowStockCount = 0, expiringSoonCount = 0\<rparr>"

record inv_page =
  ip_medicines :: "medicine list"
  ip_filtered :: "medicine list"
  ip_search :: string
  ip_loading :: bool
  ip_tab :: inventory_tab
  ip_stats :: inv_stats
  ip_requests :: "nat list"
  ip_issued :: nat
  ip_shown :: "nat option"
  ip_sort :: "medicine_field \<times> sort_direction"
  ip_dialog :: add_stock
  ip_mount :: nat
  ip_posts :: "nat list"

definition del_at :: "nat \<Rightarrow> 'a list \<Rightarrow> 'a list" where
  "del_at i xs = take i xs @ drop (Suc i) xs"

text \<open>\<open>fetchMedicines\<close> up to its \<open>await\<close>, lines 49--52.\<close>

definition ip_fetch :: "inv_page \<Rightarrow> inv_page" where
  "ip_fetch s = s\<lparr>ip_loading := True, ip_requests := ip_requests s @ [ip_issued s], ip_issued := Suc (ip_issued s)\<rparr>"

text \<open>The mount, lines 29--43: the initial state and the first fetch.\<close>

definition ip_init :: inv_page where
  "ip_init = ip_fetch
     \<lparr>ip_medicines = [], ip_filtered = [], ip_search = [], ip_loading = True, ip_tab = TabAll,
      ip_stats = zero_inv_stats, ip_requests = [], ip_issued = 0, ip_shown = None,
      ip_sort = table_sort_init, ip_dialog = add_stock_init, ip_mount = 0, ip_posts = []\<rparr>"

text \<open>
  The events: the search box (line 172), the tabs (line 186), Refresh
  Inventory (lines 96--99 and 176; the empty table's button, InventoryTable.tsx
  line 104, fetches the same way), a column header of the table, an input of
  the dialog, the reply to the \<open>i\<close>-th pending post, and the reply or failure
  of the \<open>i\<close>-th request.
\<close>

datatype ip_event =
    IP_Search string | IP_Tab inventory_tab | IP_Refresh | IP_Sort medicine_field
  | IP_Dialog add_stock_event | IP_PostReply nat bool
  | IP_Reply nat "medicine list" inv_stats | IP_Fail nat

definition is_response :: "add_stock_event \<Rightarrow> bool" where
  "is_response e = (case e of AS_Response _ \<Rightarrow> True | _ \<Rightarrow> False)"

text \<open>
  An input of the mounted dialog; a submit that starts a post (the dialog
  turns \<open>isSubmitting\<close> on) adds it to the pending posts.
\<close>

definition ip_dialog_input :: "add_stock_event \<Rightarrow> inv_page \<Rightarrow> inv_page" where
  "ip_dialog_input e s =
     (let d' = add_stock_step (ip_dialog s) e
      in s\<lparr>ip_dialog := d',
           ip_posts := (if as_isSubmitting d' \<and> \<not> as_isSubmitting (ip_dialog s)
                        then ip_posts s @ [ip_mount s] else ip_posts s)\<rparr>)"

text \<open>
  The continuation of a post (AddStockModal.tsx lines 57--69). The dialog
  that sent it updates its own state only if it is still mounted; \<open>onSuccess\<close>
  (the page's \<open>fetchMedicines\<close>) and \<open>onClose\<close> (\<open>setShowAddModal(false)\<close>)
  act on the page in any case.
\<close>

definition ip_post_reply :: "nat \<Rightarrow> bool \<Rightarrow> inv_page \<Rightarrow> inv_page" where
  "ip_post_reply g ok s =
     (let mounted = (g = ip_mount s \<and> \<not> ip_loading s);
          d = (if mounted then add_stock_step (ip_dialog s) (AS_Response ok) else ip_dialog s)
      in if ok then ip_fetch (s\<lparr>ip_dialog := d\<lparr>as_open := False\<rparr>\<rparr>) else s\<lparr>ip_dialog := d\<rparr>)"

text \<open>
  The handlers. Every control is rendered only once the page has loaded
  (line 101), and the dialog is modal: while it is open the page's own
  controls are behind its overlay. Each tab has its own \<open>InventoryTable\<close> (lines 214--268) and
  Radix's \<open>TabsContent\<close> mounts only the active one, so a change of tab
  mounts a table with the initial sort; choosing the active tab changes
  nothing. A reply sets the medicines and the route's statistics and, in
  \<open>finally\<close>, clears \<open>loading\<close> whether or not other requests are in flight
  (lines 55--61); a failure only clears it.
\<close>

definition ip_blocked :: "inv_page \<Rightarrow> bool" where
  "ip_blocked s \<longleftrightarrow> ip_loading s \<or> as_open (ip_dialog s)"

fun ip_handle :: "inv_page \<Rightarrow> ip_event \<Rightarrow> inv_page" where
  "ip_handle s (IP_Search v) = (if ip_blocked s then s else s\<lparr>ip_search := v\<rparr>)"
| "ip_handle s (IP_Tab t) =
     (if ip_blocked s \<or> t = ip_tab s then s else s\<lparr>ip_tab := t, ip_sort := table_sort_init\<rparr>)"
| "ip_handle s IP_Refresh = (if ip_blocked s then s else ip_fetch s)"
| "ip_handle s (IP_Sort f) = (if ip_blocked s then s else s\<lparr>ip_sort := handleSort (ip_sort s) f\<rparr>)"
| "ip_handle s (IP_Dialog e) = (if ip_loading s \<or> is_response e then s else ip_dialog_input e s)"
| "ip_handle s (IP_PostReply i ok) =
     (if i < length (ip_posts s)
      then ip_post_reply (ip_posts s ! i) ok (s\<lparr>ip_posts := del_at i (ip_posts s)\<rparr>) else s)"
| "ip_handle s (IP_Reply i ms st) =
     (if i < length (ip_requests s)
      then s\<lparr>ip_medicines := ms, ip_stats := st, ip_loading := False, ip_shown := Some (ip_requests s ! i),
             ip_requests := del_at i (ip_requests s)\<rparr>
      else s)"
| "ip_handle s (IP_Fail i) =
     (if i < length (ip_requests s) then s\<lparr>ip_loading := False, ip_requests := del_at i (ip_requests s)\<rparr> else s)"

text \<open>
  Entering the loading state renders the skeleton: the table and the dialog
  are unmounted and will mount afresh (their state is reset; the page's
  \<open>showAddModal\<close> is kept).
\<close>

definition ip_unmount :: "inv_page \<Rightarrow> inv_page" where
  "ip_unmount s =
     s\<lparr>ip_sort := table_sort_init, ip_dialog := add_stock_init\<lparr>as_open := as_open (ip_dialog s)\<rparr>,
       ip_mount := Suc (ip_mount s)\<rparr>"

definition ip_deps :: "inv_page \<Rightarrow> medicine list \<times> string \<times> inventory_tab" where
  "ip_deps s = (ip_medicines s, ip_search s, ip_tab s)"

text \<open>
  An event, the render after it, and the filter effect, which runs when
  \<open>medicines\<close>, \<open>searchTerm\<close> or \<open>activeTab\<close> changed (lines 45--47).
\<close>

definition ip_render :: "inv_page \<Rightarrow> inv_page \<Rightarrow> inv_page" where
  "ip_render s s1 = (if ip_loading s1 \<and> \<not> ip_loading s then ip_unmount s1 else s1)"

definition ip_filter_effect :: "inv_page \<Rightarrow> inv_page \<Rightarrow> inv_page" where
  "ip_filter_effect s s2 =
     (if ip_deps s2 \<noteq> ip_deps s
      then s2\<lparr>ip_filtered := filterMedicines (ip_search s2) (ip_tab s2) (ip_medicines s2)\<rparr> else s2)"

definition ip_next :: "inv_page \<Rightarrow> ip_event \<Rightarrow> inv_page" where
  "ip_next s e = ip_filter_effect s (ip_render s (ip_handle s e))"

definition ip_run :: "ip_event list \<Rightarrow> inv_page" where
  "ip_run es = foldl ip_next ip_init es"

text \<open>What the page renders: the skeleton (lines 101--122), or the cards
  (lines 134--164), the tab badges (lines 188--211), the active tab's table
  over \<open>filteredMedicines\<close> and the dialog's open flag (lines 271--275).\<close>

record ip_badges =
  badge_all :: nat
  badge_low :: int
  badge_expiring :: int
  badge_scheduleH :: nat

datatype ip_view = IPV_Loading | IPV_Page inv_stats ip_badges inventory_tab table_render bool

definition ip_view :: "inv_page \<Rightarrow> ip_view" where
  "ip_view s =
     (if ip_loading s then IPV_Loading
      else IPV_Page (ip_stats s)
             \<lparr>badge_all = length (ip_medicines s), badge_low = lowStockCount (ip_stats s),
              badge_expiring = expiringSoonCount (ip_stats s),
              badge_scheduleH = length (filter is_schedule_h (ip_medicines s))\<rparr>
             (ip_tab s) (inventory_table (tab_props (ip_tab s)) (ip_sort s) (ip_filtered s))
             (as_open (ip_dialog s)))"

text \<open>The states the page reaches from its mount.\<close>

inductive ip_reach :: "inv_page \<Rightarrow> bool" where
  ip_reach_init: "ip_reach ip_init"
| ip_reach_step: "ip_reach s \<Longrightarrow> ip_reach (ip_next s e)"

text \<open>
  The invariant: the table's list is the filter of the current data, and
  the pending posts agree with the mounted dialog: each was sent by this
  mount or an earlier one, at most one by this mount, and the mounted
  dialog is submitting exactly when one of them is its own.
\<close>

definition ip_dinv :: "inv_page \<Rightarrow> bool" where
  "ip_dinv s \<longleftrightarrow>
     (\<forall>g\<in>set (ip_posts s). g \<le> ip_mount s) \<and> count (mset (ip_posts s)) (ip_mount s) \<le> 1 \<and>
     (if ip_loading s then \<not> as_isSubmitting (ip_dialog s) \<and> count (mset (ip_posts s)) (ip_mount s) = 0
      else as_isSubmitting (ip_dialog s) = (count (mset (ip_posts s)) (ip_mount s) = 1))"

definition ip_inv :: "inv_page \<Rightarrow> bool" where
  "ip_inv s \<longleftrightarrow> ip_filtered s = filterMedicines (ip_search s) (ip_tab s) (ip_medicines s) \<and> ip_dinv s"

definition view_table :: "ip_view \<Rightarrow> table_render option" where
  "view_table v = (case v of IPV_Loading \<Rightarrow> None | IPV_Page _ _ _ t _ \<Rightarrow> Some t)"

text \<open>The requests in flight were issued in increasing order, each before the counter.\<close>

definition ip_rinv :: "inv_page \<Rightarrow> bool" where
  "ip_rinv s \<longleftrightarrow> sorted_wrt (<) (ip_requests s) \<and> (\<forall>r\<in>set (ip_requests s). r < ip_issued s)"

text \<open>
  Two sessions. In the first the user adds a medicine and cancels the
  dialog while the post is pending. In the second the user then refreshes
  and the post succeeds: the refresh's request (number 1) and the refetch of
  the post's \<open>onSuccess\<close> (number 2) are both in flight.
\<close>

definition pending_post_prefix :: "ip_event list" where
  "pending_post_prefix = [IP_Reply 0 [] zero_inv_stats] @ map IP_Dialog paracetamol_entry @ [IP_Dialog AS_Close]"

definition race_prefix :: "ip_event list" where
  "race_prefix = pending_post_prefix @ [IP_Refresh, IP_PostReply 0 True]"

subsection \<open>Lemmas\<close>

lemma mset_del_at: "i < length xs \<Longrightarrow> mset (del_at i xs) = mset xs - {#xs ! i#}"
proof -
  assume "i < length xs"
  then have "mset xs = mset (take i xs @ drop (Suc i) xs) + {#xs ! i#}"
    by (subst id_take_nth_drop[of i xs]) simp_all
  then show ?thesis by (simp add: del_at_def)
qed

lemma set_del_at: "set (del_at i xs) \<subseteq> set xs"
  unfolding del_at_def by (auto dest: in_set_takeD in_set_dropD)

lemma ip_handle_filtered: "ip_filtered (ip_handle s e) = ip_filtered s"
  by (cases e) (simp_all add: ip_fetch_def ip_dialog_input_def ip_post_reply_def Let_def)

lemma ip_next_filtered:
  "ip_filtered s = filterMedicines (ip_search s) (ip_tab s) (ip_medicines s) \<Longrightarrow>
   ip_filtered (ip_next s e) = filterMedicines (ip_search (ip_next s e)) (ip_tab (ip_next s e)) (ip_medicines (ip_next s e))"
  by (auto simp: ip_next_def ip_filter_effect_def ip_render_def ip_unmount_def ip_deps_def ip_handle_filtered)

lemma add_stock_step_keeps_submitting:
  "\<not> is_response e \<Longrightarrow> as_isSubmitting d \<Longrightarrow> as_isSubmitting (add_stock_step d e)"
  by (cases e) (simp_all add: is_response_def set_field_def)

lemma count_above: "\<forall>g\<in>set xs. g \<le> m \<Longrightarrow> count (mset xs) (Suc m) = 0"
  by (induction xs) auto

lemma count_del_at:
  "i < length xs \<Longrightarrow> count (mset (del_at i xs)) x = count (mset xs) x - (if xs ! i = x then 1 else 0)"
  by (simp add: mset_del_at)

lemmas count_notin = count_mset_0_iff[THEN iffD2]

lemma count_nth_pos: "i < length xs \<Longrightarrow> 0 < count (mset xs) (xs ! i)"
  by (simp add: count_mset_gt_0)

lemma ip_dinv_unmount:
  assumes "\<forall>g\<in>set (ip_posts s). g \<le> ip_mount s" and "ip_loading s"
  shows "ip_dinv (ip_unmount s)"
  using assms by (auto simp: ip_dinv_def ip_unmount_def add_stock_init_def count_above[OF assms(1)] le_SucI)

lemma ip_dinv_view_fields [simp]:
  "ip_dinv (s\<lparr>ip_filtered := x\<rparr>) = ip_dinv s"
  "ip_dinv (s\<lparr>ip_search := v\<rparr>) = ip_dinv s"
  "ip_dinv (s\<lparr>ip_tab := t\<rparr>) = ip_dinv s"
  "ip_dinv (s\<lparr>ip_sort := st\<rparr>) = ip_dinv s"
  by (simp_all add: ip_dinv_def)

lemma ip_dinv_cong:
  "ip_posts t = ip_posts s \<Longrightarrow> ip_mount t = ip_mount s \<Longrightarrow> ip_loading t = ip_loading s \<Longrightarrow>
   as_isSubmitting (ip_dialog t) = as_isSubmitting (ip_dialog s) \<Longrightarrow> ip_dinv t = ip_dinv s"
  by (simp add: ip_dinv_def)

lemma ip_dinv_loaded:
  "ip_dinv s \<Longrightarrow> ip_dinv (s\<lparr>ip_loading := False, ip_requests := r\<rparr>)"
  by (cases "ip_loading s") (simp_all add: ip_dinv_def count_notin)

lemma ip_dinv_reply:
  "ip_dinv s \<Longrightarrow>
   ip_dinv (s\<lparr>ip_medicines := ms, ip_stats := st, ip_loading := False, ip_shown := x, ip_requests := r\<rparr>)"
  by (cases "ip_loading s") (simp_all add: ip_dinv_def count_notin)

lemma ip_dinv_dialog_input:
  assumes "ip_dinv s" "\<not> ip_loading s" "\<not> is_response e"
  shows "ip_dinv (ip_dialog_input e s)"
proof -
  have "count (mset (ip_posts s)) (ip_mount s) = (if as_isSubmitting (ip_dialog s) then 1 else 0)"
    using assms(1,2) by (auto simp: ip_dinv_def simp del: count_mset_0_iff)
  then show ?thesis
    using assms add_stock_step_keeps_submitting[OF assms(3), of "ip_dialog s"]
    by (auto simp: ip_dinv_def ip_dialog_input_def Let_def count_notin)
qed

lemma ip_dinv_post_reply:
  assumes "ip_dinv s" "i < length (ip_posts s)"
  shows "ip_dinv (ip_render s (ip_post_reply (ip_posts s ! i) ok (s\<lparr>ip_posts := del_at i (ip_posts s)\<rparr>)))"
proof -
  let ?m = "ip_mount s" and ?g = "ip_posts s ! i"
  have le: "\<forall>g\<in>set (del_at i (ip_posts s)). g \<le> ?m" using assms(1) set_del_at by (fastforce simp: ip_dinv_def)
  have cnt: "count (mset (del_at i (ip_posts s))) ?m = count (mset (ip_posts s)) ?m - (if ?g = ?m then 1 else 0)"
    using count_del_at[OF assms(2)] .
  have pos: "0 < count (mset (ip_posts s)) ?g" using count_nth_pos[OF assms(2)] .
  show ?thesis
  proof (cases ok)
    case ok: True
    let ?t = "ip_post_reply ?g ok (s\<lparr>ip_posts := del_at i (ip_posts s)\<rparr>)"
    have load: "ip_loading ?t" and posts: "ip_posts ?t = del_at i (ip_posts s)" and mnt: "ip_mount ?t = ?m"
      using ok by (simp_all add: ip_post_reply_def ip_fetch_def Let_def)
    show ?thesis
    proof (cases "ip_loading s")
      case False
      then show ?thesis using ip_dinv_unmount[of ?t] load posts mnt le by (simp add: ip_render_def)
    next
      case True
      then show ?thesis using assms(1) le cnt ok
        by (auto simp: ip_render_def ip_post_reply_def ip_fetch_def Let_def ip_dinv_def count_notin)
    qed
  next
    case False
    then show ?thesis using assms(1) le cnt pos
      by (auto simp: ip_render_def ip_post_reply_def Let_def ip_dinv_def count_notin)
  qed
qed

lemma ip_render_dinv:
  assumes "ip_dinv s" shows "ip_dinv (ip_render s (ip_handle s e))"
proof (cases e)
  case IP_Refresh
  have "\<forall>g\<in>set (ip_posts (ip_fetch s)). g \<le> ip_mount (ip_fetch s)" using assms by (simp add: ip_dinv_def ip_fetch_def)
  then show ?thesis using assms ip_dinv_unmount[of "ip_fetch s"] IP_Refresh
    by (simp add: ip_render_def ip_fetch_def ip_blocked_def)
next
  case (IP_Dialog d)
  then show ?thesis using assms ip_dinv_dialog_input[OF assms, of d]
    by (simp add: ip_render_def ip_dialog_input_def Let_def)
next
  case (IP_PostReply i ok)
  show ?thesis
  proof (cases "i < length (ip_posts s)")
    case True
    then show ?thesis using ip_dinv_post_reply[OF assms True, of ok] IP_PostReply by simp
  qed (use assms IP_PostReply in \<open>simp add: ip_render_def\<close>)
next
  case (IP_Reply i ms st)
  then show ?thesis using assms ip_dinv_reply[OF assms] by (simp add: ip_render_def)
next
  case (IP_Fail i)
  then show ?thesis using assms ip_dinv_loaded[OF assms] by (simp add: ip_render_def)
qed (use assms in \<open>simp_all add: ip_render_def\<close>)

lemma ip_next_inv: "ip_inv s \<Longrightarrow> ip_inv (ip_next s e)"
  using ip_next_filtered[of s e] ip_render_dinv[of s e]
  by (simp add: ip_inv_def ip_next_def ip_filter_effect_def)

lemma ip_reach_inv: "ip_reach s \<Longrightarrow> ip_inv s"
proof (induction rule: ip_reach.induct)
  case ip_reach_init
  show ?case by (simp add: ip_inv_def ip_dinv_def ip_init_def ip_fetch_def add_stock_init_def filterMedicines_def)
next
  case (ip_reach_step s e)
  then show ?case by (simp add: ip_next_inv)
qed

lemma sorted_wrt_del_at: "sorted_wrt P xs \<Longrightarrow> sorted_wrt P (del_at i xs)"
proof -
  assume "sorted_wrt P xs"
  then have "sorted_wrt P (take i xs @ drop i xs)" by simp
  then show ?thesis unfolding del_at_def sorted_wrt_append
    using set_drop_subset_set_drop[of i "Suc i" xs] sorted_wrt_drop[of P "drop i xs" 1]
    by (auto simp: drop_Suc drop_tl)
qed

lemma ip_next_requests:
  "ip_requests (ip_next s e) = ip_requests (ip_handle s e)" "ip_issued (ip_next s e) = ip_issued (ip_handle s e)"
  by (simp_all add: ip_next_def ip_filter_effect_def ip_render_def ip_unmount_def)

lemma ip_rinv_fetch: "ip_rinv s \<Longrightarrow> ip_rinv (ip_fetch s)"
  by (auto simp: ip_rinv_def ip_fetch_def sorted_wrt_append)

lemma ip_rinv_handle: "ip_rinv s \<Longrightarrow> ip_rinv (ip_handle s e)"
proof (cases e)
  case (IP_PostReply i ok) assume "ip_rinv s" then show ?thesis using IP_PostReply ip_rinv_fetch[of "_\<lparr>ip_posts := _, ip_dialog := _\<rparr>"]
    by (auto simp: ip_post_reply_def Let_def ip_rinv_def ip_fetch_def sorted_wrt_append)
next
  case (IP_Reply i ms st) assume "ip_rinv s" then show ?thesis using IP_Reply set_del_at[of i "ip_requests s"]
    by (auto simp: ip_rinv_def sorted_wrt_del_at)
next
  case (IP_Fail i) assume "ip_rinv s" then show ?thesis using IP_Fail set_del_at[of i "ip_requests s"]
    by (auto simp: ip_rinv_def sorted_wrt_del_at)
next
  case (IP_Dialog d) assume "ip_rinv s" then show ?thesis using IP_Dialog
    by (simp add: ip_rinv_def ip_dialog_input_def Let_def)
qed (auto simp: ip_rinv_def ip_fetch_def sorted_wrt_append)

lemma ip_reach_rinv: "ip_reach s \<Longrightarrow> ip_rinv s"
proof (induction rule: ip_reach.induct)
  case ip_reach_init
  show ?case by (simp add: ip_rinv_def ip_init_def ip_fetch_def)
next
  case (ip_reach_step s e)
  then show ?case using ip_rinv_handle[OF ip_reach_step.IH, of e] by (simp add: ip_rinv_def ip_next_requests)
qed

lemma ip_reach_run: "ip_reach (ip_run es)"
proof (induction es rule: rev_induct)
  case (snoc e es)
  then show ?case using ip_reach_step by (simp add: ip_run_def)
qed (simp add: ip_run_def ip_reach_init)

lemma ip_run_snoc: "ip_run (es @ [e]) = ip_next (ip_run es) e"
  by (simp add: ip_run_def)

lemma ip_filter_effect_eq:
  "ip_filter_effect s x =
   x\<lparr>ip_filtered := (if ip_deps x = ip_deps s then ip_filtered x
                      else filterMedicines (ip_search x) (ip_tab x) (ip_medicines x))\<rparr>"
  by (simp add: ip_filter_effect_def)

lemma ip_run_append: "ip_run (xs @ ys) = foldl ip_next (ip_run xs) ys"
  by (simp add: ip_run_def)

lemmas ip_eval_defs = ip_blocked_def ip_next_def ip_filter_effect_eq ip_deps_def ip_render_def ip_unmount_def ip_fetch_def ip_dialog_input_def
  ip_post_reply_def is_response_def del_at_def Let_def set_field_def schedule_value_def

subsection \<open>Properties\<close>

text \<open>
  C13: the stateful page renders what the pure model of Inventory.thy
  describes: in every reachable state, once loaded, the table under the
  active tab is \<open>inventory_page\<close> of the current search, tab, sort and data,
  because the filter effect keeps \<open>filteredMedicines\<close> in step with its
  dependencies.
\<close>

theorem inventory_view_refines:
  assumes "ip_reach s"
  shows "view_table (ip_view s) =
         (if ip_loading s then None
          else Some (inventory_page (ip_search s) (ip_tab s) (ip_sort s) (ip_medicines s)))"
  using ip_reach_inv[OF assms]
  by (simp add: ip_view_def view_table_def ip_inv_def inventory_page_def)

theorem inventory_view_refines_witness:
  "ip_reach (ip_run [IP_Reply 0 inventory_sample zero_inv_stats, IP_Tab TabLowStock]) \<and>
   view_table (ip_view (ip_run [IP_Reply 0 inventory_sample zero_inv_stats, IP_Tab TabLowStock])) =
   Some (inventory_page [] TabLowStock table_sort_init inventory_sample)"
proof -
  let ?es = "[IP_Reply 0 inventory_sample zero_inv_stats, IP_Tab TabLowStock]"
  have v: "\<not> ip_loading (ip_run ?es) \<and> ip_search (ip_run ?es) = [] \<and> ip_tab (ip_run ?es) = TabLowStock \<and>
           ip_sort (ip_run ?es) = table_sort_init \<and> ip_medicines (ip_run ?es) = inventory_sample"
    by (simp add: ip_run_def ip_next_def ip_init_def ip_fetch_def ip_render_def ip_filter_effect_def
        ip_deps_def del_at_def inventory_sample_def ip_blocked_def add_stock_init_def)
  show ?thesis using inventory_view_refines[OF ip_reach_run[of ?es]] v ip_reach_run[of ?es] by simp
qed

text \<open>
  C21: a successful add always refetches and closes the dialog, leaving no
  form in the submitting state, also when the dialog that sent the post has
  been unmounted since.
\<close>

theorem post_success_refetches:
  assumes "ip_reach s" and "i < length (ip_posts s)"
  shows "ip_loading (ip_next s (IP_PostReply i True)) \<and>
         ip_requests (ip_next s (IP_PostReply i True)) = ip_requests s @ [ip_issued s] \<and>
         \<not> as_open (ip_dialog (ip_next s (IP_PostReply i True))) \<and>
         \<not> as_isSubmitting (ip_dialog (ip_next s (IP_PostReply i True)))"
  using ip_reach_inv[OF assms(1)] assms(2)
  by (auto simp: ip_inv_def ip_dinv_def ip_next_def ip_filter_effect_def ip_render_def ip_unmount_def
      ip_post_reply_def ip_fetch_def Let_def add_stock_init_def)

theorem post_success_refetches_witness:
  "ip_reach (ip_run ([IP_Reply 0 [] zero_inv_stats] @ map IP_Dialog paracetamol_entry)) \<and>
   0 < length (ip_posts (ip_run ([IP_Reply 0 [] zero_inv_stats] @ map IP_Dialog paracetamol_entry))) \<and>
   ip_loading (ip_next (ip_run ([IP_Reply 0 [] zero_inv_stats] @ map IP_Dialog paracetamol_entry)) (IP_PostReply 0 True)) \<and>
   \<not> as_isSubmitting (ip_dialog (ip_next (ip_run ([IP_Reply 0 [] zero_inv_stats] @ map IP_Dialog paracetamol_entry))
                                           (IP_PostReply 0 True)))"
proof -
  let ?es = "[IP_Reply 0 [] zero_inv_stats] @ map IP_Dialog paracetamol_entry"
  have "ip_posts (ip_run ?es) = [0]"
    by (simp add: ip_run_def ip_init_def ip_eval_defs paracetamol_entry_def add_stock_init_def
        stock_defaults_def add_stock_errors_def)
  then show ?thesis using post_success_refetches[OF ip_reach_run[of ?es], of 0] ip_reach_run[of ?es] by simp
qed

text \<open>
  C17: replies are applied in the order they arrive, not the order the
  requests were issued: in every reachable state with two requests in
  flight, if the newer one answers first the page shows its data and leaves
  loading with the older still in flight, and when the older one answers
  the page shows the older data, with nothing in flight and not loading.
\<close>

theorem stale_refresh_race:
  assumes "ip_reach s" and "ip_requests s = [a, b]"
  shows "a < b \<and>
         ip_shown (ip_next s (IP_Reply 1 new st1)) = Some b \<and> \<not> ip_loading (ip_next s (IP_Reply 1 new st1)) \<and>
         ip_requests (ip_next s (IP_Reply 1 new st1)) = [a] \<and>
         ip_medicines (ip_next (ip_next s (IP_Reply 1 new st1)) (IP_Reply 0 old st0)) = old \<and>
         ip_shown (ip_next (ip_next s (IP_Reply 1 new st1)) (IP_Reply 0 old st0)) = Some a \<and>
         ip_requests (ip_next (ip_next s (IP_Reply 1 new st1)) (IP_Reply 0 old st0)) = [] \<and>
         \<not> ip_loading (ip_next (ip_next s (IP_Reply 1 new st1)) (IP_Reply 0 old st0))"
  using ip_reach_rinv[OF assms(1)] assms(2)
  by (simp add: ip_rinv_def ip_next_def ip_filter_effect_eq ip_render_def del_at_def)

theorem stale_refresh_race_witness:
  "ip_reach (ip_run race_prefix) \<and> ip_requests (ip_run race_prefix) = [1, 2] \<and>
   ip_medicines (ip_next (ip_next (ip_run race_prefix) (IP_Reply 1 inventory_sample zero_inv_stats)) (IP_Reply 0 [] zero_inv_stats)) = [] \<and>
   ip_shown (ip_next (ip_next (ip_run race_prefix) (IP_Reply 1 inventory_sample zero_inv_stats)) (IP_Reply 0 [] zero_inv_stats)) = Some 1"
proof -
  have r: "ip_requests (ip_run race_prefix) = [1, 2]"
    by (simp add: race_prefix_def pending_post_prefix_def ip_run_def ip_init_def ip_eval_defs paracetamol_entry_def
      add_stock_init_def stock_defaults_def add_stock_errors_def)
  show ?thesis using stale_refresh_race[OF ip_reach_run r, of inventory_sample zero_inv_stats "[]" zero_inv_stats] r ip_reach_run
    by simp
qed

text \<open>
  C25: the disabled Add button does not keep a second post from starting
  while one is pending: from any loaded page with the dialog closed, a
  refresh remounts the dialog, and filling it in and submitting starts a new
  post beside all pending ones.
\<close>

theorem two_posts_pending:
  assumes "\<not> ip_loading s" and "\<not> as_open (ip_dialog s)"
  shows "ip_posts (foldl ip_next s ([IP_Refresh, IP_Reply (length (ip_requests s)) ms st] @ map IP_Dialog paracetamol_entry)) =
           ip_posts s @ [Suc (ip_mount s)] \<and>
         as_isSubmitting (ip_dialog (foldl ip_next s ([IP_Refresh, IP_Reply (length (ip_requests s)) ms st] @ map IP_Dialog paracetamol_entry)))"
  using assms by (simp add: ip_eval_defs paracetamol_entry_def add_stock_init_def stock_defaults_def add_stock_errors_def nth_append)

theorem two_posts_pending_witness:
  "ip_posts (foldl ip_next (ip_run pending_post_prefix)
     ([IP_Refresh, IP_Reply 0 [] zero_inv_stats] @ map IP_Dialog paracetamol_entry)) = [0, 1]"
proof -
  let ?s = "ip_run pending_post_prefix"
  have a: "\<not> ip_loading ?s" "\<not> as_open (ip_dialog ?s)" "ip_posts ?s = [0]" "ip_mount ?s = 0" "ip_requests ?s = []"
    by (simp_all add: pending_post_prefix_def ip_run_def ip_init_def ip_eval_defs paracetamol_entry_def
      add_stock_init_def stock_defaults_def add_stock_errors_def)
  show ?thesis using two_posts_pending[OF a(1,2), of "[]" zero_inv_stats] a(3-5) by simp
qed

end
