(* ===== verification/Catalog.thy ===== *)
theory Catalog
  imports Prelude
begin

text \<open>
  The medicine picker of src/src/components/MedicineSearch.tsx: its catalogue
  (a module-level mock list standing in for an API) and the filter applied to
  the typed text. The component around them, with its 300 ms debounce timer,
  is Picker.thy.
\<close>

subsection \<open>Definitions\<close>

record catalog_medicine =
  cm_id :: string
  cm_name :: string
  cm_stock :: int
  cm_price :: rat
  cm_schedule :: "string option"

definition cm :: "string \<Rightarrow> string \<Rightarrow> int \<Rightarrow> rat \<Rightarrow> string option \<Rightarrow> catalog_medicine" where
  "cm i n s p sch = \<lparr>cm_id = i, cm_name = n, cm_stock = s, cm_price = p, cm_schedule = sch\<rparr>"

text \<open>The catalogue, MedicineSearch.tsx lines 9--20.\<close>

definition search_catalog :: "catalog_medicine list" where
  "search_catalog =
     [cm ''1'' ''Paracetamol 500mg'' 150 12 None,
      cm ''2'' ''Amoxicillin 250mg'' 80 45 (Some ''H''),
      cm ''3'' ''Crocin Tablets'' 8 15 None,
      cm ''4'' ''Azithromycin 500mg'' 25 120 (Some ''H''),
      cm ''5'' ''Ibuprofen 400mg'' 200 18 None,
      cm ''6'' ''Cetirizine 10mg'' 90 8 None,
      cm ''7'' ''Omeprazole 20mg'' 60 35 None,
      cm ''8'' ''Metformin 500mg'' 120 22 None,
      cm ''9'' ''Ciprofloxacin 500mg'' 40 85 (Some ''H''),
      cm ''10'' ''Aspirin 75mg'' 180 6 None]"

text \<open>
  The debounced filter, MedicineSearch.tsx lines 38--48: a blank query (after
  \<open>trim\<close>) lists everything, otherwise the names that contain the query,
  case-insensitively. The untrimmed query is what is searched for.
\<close>

definition filter_catalog :: "string \<Rightarrow> catalog_medicine list" where
  "filter_catalog searchValue =
     (if js_trim searchValue = [] then search_catalog
      else filter (\<lambda>m. js_includes (js_lower (cm_name m)) (js_lower searchValue)) search_catalog)"

text \<open>The markers of a dropdown entry, MedicineSearch.tsx lines 104--109.\<close>

definition shows_schedule_h :: "catalog_medicine \<Rightarrow> bool" where
  "shows_schedule_h m \<longleftrightarrow> cm_schedule m = Some ''H''"

definition shows_low_stock :: "catalog_medicine \<Rightarrow> bool" where
  "shows_low_stock m \<longleftrightarrow> cm_stock m < 10"

lemmas catalog_eval = search_catalog_def cm_def

subsection \<open>Properties\<close>


text \<open>
  The query is searched untrimmed although only the blank test trims it:
  "para" finds Paracetamol, but " para" (with a leading space) finds nothing.
\<close>

theorem filter_catalog_untrimmed:
  "map cm_name (filter_catalog ''para'') = [''Paracetamol 500mg''] \<and> filter_catalog '' para'' = []"
  by code_simp

end
