(* ===== verification/SaleForm.thy ===== *)
theory SaleForm
  imports Catalog
begin

text \<open>
  The multi-medicine sale/purchase form of
  src/src/components/MultiMedicineTransactionForm.tsx, without its rendering:
  the zod schema that guards submission, the item list operations, the running
  totals, the medicine table the form consults for Schedule H, and the
  request body it posts. The flow through the prescription dialog is in
  ScheduleH.thy.
\<close>

subsection \<open>Definitions\<close>

record form_item =
  fi_medicineId :: string
  fi_medicineName :: string
  fi_quantity :: rat
  fi_price :: rat
  fi_discount :: rat

record sale_form =
  sf_items :: "form_item list"
  sf_totalDiscount :: rat
  sf_customerName :: string
  sf_notes :: string

datatype form_error =
    MedicineNotSelected nat | NameRequired nat | QuantityBelowOne nat | PriceNotPositive nat
  | DiscountOutOfRange nat | NoItems | TotalDiscountOutOfRange

text \<open>\<open>transactionItemSchema\<close>, lines 17--23: the error of each failing check of item \<open>i\<close>.\<close>

definition item_errors :: "nat \<Rightarrow> form_item \<Rightarrow> form_error list" where
  "item_errors i it =
     (if fi_medicineId it = [] then [MedicineNotSelected i] else []) @
     (if fi_medicineName it = [] then [NameRequired i] else []) @
     (if fi_quantity it < 1 then [QuantityBelowOne i] else []) @
     (if fi_price it < 0.01 then [PriceNotPositive i] else []) @
     (if fi_discount it < 0 \<or> fi_discount it > 100 then [DiscountOutOfRange i] else [])"

text \<open>\<open>multiTransactionSchema\<close>, lines 25--30; \<open>handleSubmit\<close> calls \<open>onSubmit\<close> only when this is empty.\<close>

definition form_errors :: "sale_form \<Rightarrow> form_error list" where
  "form_errors f =
     concat (map (\<lambda>(i, it). item_errors i it) (enumerate 0 (sf_items f))) @
     (if sf_items f = [] then [NoItems] else []) @
     (if sf_totalDiscount f < 0 \<or> sf_totalDiscount f > 100 then [TotalDiscountOutOfRange] else [])"

text \<open>The blank line item (lines 46 and 324) and the initial form (lines 45--50).\<close>

definition blank_item :: form_item where
  "blank_item = \<lparr>fi_medicineId = [], fi_medicineName = [], fi_quantity = 1, fi_price = 0, fi_discount = 0\<rparr>"

definition initial_form :: sale_form where
  "initial_form = \<lparr>sf_items = [blank_item], sf_totalDiscount = 0, sf_customerName = [], sf_notes = []\<rparr>"

text \<open>\<open>onMedicineSelect(index, medicine)\<close>, lines 58--62 (the index is always a rendered row).\<close>

definition onMedicineSelect :: "nat \<Rightarrow> catalog_medicine \<Rightarrow> sale_form \<Rightarrow> sale_form" where
  "onMedicineSelect i m f =
     f\<lparr>sf_items := (sf_items f)[i := (sf_items f ! i)\<lparr>fi_medicineId := cm_id m,
                     fi_medicineName := cm_name m, fi_price := cm_price m\<rparr>]\<rparr>"

text \<open>"Add Another Medicine" (line 324) and the delete button, disabled on the last row (lines 222--223).\<close>

definition append_item :: "sale_form \<Rightarrow> sale_form" where
  "append_item f = f\<lparr>sf_items := sf_items f @ [blank_item]\<rparr>"

definition remove_item :: "nat \<Rightarrow> sale_form \<Rightarrow> sale_form" where
  "remove_item i f =
     (if length (sf_items f) = 1 then f
      else f\<lparr>sf_items := take i (sf_items f) @ drop (Suc i) (sf_items f)\<rparr>)"

record totals =
  subtotal :: rat
  totalDiscountAmount :: rat
  grandTotal :: rat

text \<open>\<open>calculateTotals()\<close>, lines 64--78.\<close>

definition calculateTotals :: "sale_form \<Rightarrow> totals" where
  "calculateTotals f =
     (let subtotal = js_sum (\<lambda>it. let itemTotal = fi_quantity it * fi_price it;
                                     itemDiscount = itemTotal * (fi_discount it / 100)
                                 in itemTotal - itemDiscount) (sf_items f);
          totalDiscountAmount = subtotal * (sf_totalDiscount f / 100);
          grandTotal = subtotal - totalDiscountAmount
      in \<lparr>subtotal = subtotal, totalDiscountAmount = totalDiscountAmount, grandTotal = grandTotal\<rparr>)"

text \<open>The form's own medicine table, lines 140--145 (four of the picker's ten medicines).\<close>

definition form_medicines :: "catalog_medicine list" where
  "form_medicines =
     [cm ''1'' ''Paracetamol 500mg'' 150 12 None,
      cm ''2'' ''Amoxicillin 250mg'' 80 45 (Some ''H''),
      cm ''3'' ''Crocin Tablets'' 8 15 None,
      cm ''4'' ''Azithromycin 500mg'' 25 120 (Some ''H'')]"

text \<open>\<open>mockMedicines.find(m => m.id === key)?.schedule === 'H'\<close>.\<close>

definition schedule_h_by :: "(catalog_medicine \<Rightarrow> string) \<Rightarrow> string \<Rightarrow> bool" where
  "schedule_h_by key k =
     (case find (\<lambda>m. key m = k) form_medicines of None \<Rightarrow> False | Some m \<Rightarrow> cm_schedule m = Some ''H'')"

text \<open>The Schedule H items of a submission, lines 82--85 (and the count posted, lines 109--112).\<close>

definition scheduleHItems_of :: "sale_form \<Rightarrow> form_item list" where
  "scheduleHItems_of f = filter (\<lambda>it. schedule_h_by cm_id (fi_medicineId it)) (sf_items f)"

text \<open>The row badge, lines 309--316: it looks the row's medicine \<^emph>\<open>name\<close> up among the ids.\<close>

definition row_badge_shown :: "form_item \<Rightarrow> bool" where
  "row_badge_shown it = schedule_h_by cm_id (fi_medicineName it)"

datatype tx_kind = Sell | Purchase

text \<open>The body \<open>processTransaction\<close> posts to /api/transactions/multi, lines 105--113.\<close>

record multi_request =
  mr_form :: sale_form
  mr_type :: tx_kind
  mr_prescriptionSkipped :: bool
  mr_scheduleHCount :: nat

definition make_request :: "tx_kind \<Rightarrow> sale_form \<Rightarrow> bool \<Rightarrow> multi_request" where
  "make_request ty f skipped =
     \<lparr>mr_form = f, mr_type = ty, mr_prescriptionSkipped = skipped,
      mr_scheduleHCount = length (scheduleHItems_of f)\<rparr>"

text \<open>The specification's pricing of a line without tax (spec 4.2, tax rate 0).\<close>

definition line_taxable :: "form_item \<Rightarrow> rat" where
  "line_taxable it = fi_quantity it * fi_price it * (1 - fi_discount it / 100)"

text \<open>A sale of Amoxicillin 250mg (a Schedule H medicine) picked into the first row.\<close>

definition amox_form :: sale_form where
  "amox_form = onMedicineSelect 0 (search_catalog ! 1) initial_form"

lemmas form_eval = form_medicines_def search_catalog_def cm_def schedule_h_by_def initial_form_def
  blank_item_def onMedicineSelect_def form_errors_def item_errors_def scheduleHItems_of_def amox_form_def

subsection \<open>Lemmas\<close>

lemma item_errors_Nil_iff:
  "item_errors i it = [] \<longleftrightarrow>
     fi_medicineId it \<noteq> [] \<and> fi_medicineName it \<noteq> [] \<and> 1 \<le> fi_quantity it \<and>
     0.01 \<le> fi_price it \<and> 0 \<le> fi_discount it \<and> fi_discount it \<le> 100"
  by (auto simp: item_errors_def)

lemma enumerate_item_errors_Nil:
  "concat (map (\<lambda>(i, it). item_errors i it) (enumerate n xs)) = [] \<longleftrightarrow>
     (\<forall>it \<in> set xs. item_errors 0 it = [])"
  by (induction xs arbitrary: n) (auto simp: item_errors_Nil_iff)

lemma form_errors_Nil_iff:
  "form_errors f = [] \<longleftrightarrow>
     sf_items f \<noteq> [] \<and> 0 \<le> sf_totalDiscount f \<and> sf_totalDiscount f \<le> 100 \<and>
     (\<forall>it \<in> set (sf_items f). item_errors 0 it = [])"
  unfolding form_errors_def append_is_Nil_conv enumerate_item_errors_Nil by auto

lemma line_total_fun:
  "(\<lambda>it. let itemTotal = fi_quantity it * fi_price it;
              itemDiscount = itemTotal * (fi_discount it / 100)
          in itemTotal - itemDiscount) = line_taxable"
  by (rule ext) (simp add: line_taxable_def Let_def algebra_simps)

lemma calculateTotals_eq:
  "calculateTotals f =
     \<lparr>subtotal = sum_list (map line_taxable (sf_items f)),
      totalDiscountAmount = sum_list (map line_taxable (sf_items f)) * (sf_totalDiscount f / 100),
      grandTotal = sum_list (map line_taxable (sf_items f)) -
                   sum_list (map line_taxable (sf_items f)) * (sf_totalDiscount f / 100)\<rparr>"
  unfolding calculateTotals_def line_total_fun by (simp add: js_sum_eq Let_def)

lemma line_taxable_nonneg: "item_errors i it = [] \<Longrightarrow> 0 \<le> line_taxable it"
  by (auto simp: item_errors_Nil_iff line_taxable_def intro!: mult_nonneg_nonneg)

subsection \<open>Properties\<close>

text \<open>
  C6: on a form the schema accepts, the totals the form displays are bounded:
  the overall discount and the grand total are non-negative and the grand total
  does not exceed the subtotal.
\<close>

theorem totals_bounds:
  assumes "form_errors f = []"
  shows "0 \<le> totalDiscountAmount (calculateTotals f) \<and>
         0 \<le> grandTotal (calculateTotals f) \<and>
         grandTotal (calculateTotals f) \<le> subtotal (calculateTotals f)"
proof -
  let ?S = "sum_list (map line_taxable (sf_items f))"
  let ?d = "sf_totalDiscount f / 100"
  from assms have d: "0 \<le> ?d" "?d \<le> 1" by (simp_all add: form_errors_Nil_iff)
  from assms have "\<forall>it \<in> set (sf_items f). 0 \<le> line_taxable it"
    by (auto simp: form_errors_Nil_iff intro: line_taxable_nonneg)
  then have S: "0 \<le> ?S" by (intro sum_list_nonneg) auto
  have "0 \<le> ?S * ?d" using S d by simp
  moreover have "?S * ?d \<le> ?S" using mult_left_le[OF d(2) S] by simp
  ultimately show ?thesis by (simp add: calculateTotals_eq)
qed

text \<open>
  C27: the form's grand total is the specification's taxable amount (spec 4.2
  with tax rate 0: quantity times price less the line discount) summed over
  the lines, less the overall discount percentage. The form computes no tax.
\<close>

theorem grand_total_spec:
  "grandTotal (calculateTotals f) = sum_list (map line_taxable (sf_items f)) * (1 - sf_totalDiscount f / 100)"
  by (simp add: calculateTotals_eq algebra_simps)

text \<open>
  The Schedule H badge of a form row is never shown for a medicine picked
  from the search catalogue, Schedule H or not: the row looks its medicine's
  name up among the table's ids.
\<close>

theorem row_badge_never_shown:
  assumes "i < length (sf_items f)" and "m \<in> set search_catalog"
  shows "\<not> row_badge_shown (sf_items (onMedicineSelect i m f) ! i)"
proof -
  have "cm_name m \<notin> cm_id ` set form_medicines"
    using assms(2) by (auto simp: search_catalog_def form_medicines_def cm_def)
  then have "find (\<lambda>x. cm_id x = cm_name m) form_medicines = None"
    by (force simp: find_None_iff)
  then show ?thesis
    using assms(1) by (simp add: row_badge_shown_def schedule_h_by_def onMedicineSelect_def)
qed

theorem row_badge_never_shown_witness:
  "0 < length (sf_items initial_form) \<and> search_catalog ! 1 \<in> set search_catalog \<and>
   cm_schedule (search_catalog ! 1) = Some ''H'' \<and>
   \<not> row_badge_shown (sf_items (onMedicineSelect 0 (search_catalog ! 1) initial_form) ! 0)"
proof -
  have i: "0 < length (sf_items initial_form)" by (simp add: initial_form_def)
  have m: "search_catalog ! 1 \<in> set search_catalog" by (simp add: search_catalog_def)
  show ?thesis using row_badge_never_shown[OF i m] i m by (simp add: search_catalog_def cm_def)
qed

text \<open>
  Ciprofloxacin 500mg is Schedule H in the picker's catalogue but absent
  from the form's own table, so a form holding it has no Schedule H items.
\<close>

theorem cipro_not_schedule_h_in_form:
  "cm_name (search_catalog ! 8) = ''Ciprofloxacin 500mg'' \<and> cm_schedule (search_catalog ! 8) = Some ''H'' \<and>
   scheduleHItems_of (onMedicineSelect 0 (search_catalog ! 8) initial_form) = []"
  by (simp add: form_eval)

theorem totals_bounds_witness:
  "form_errors (amox_form\<lparr>sf_totalDiscount := 10\<rparr>) = [] \<and>
   0 \<le> totalDiscountAmount (calculateTotals (amox_form\<lparr>sf_totalDiscount := 10\<rparr>)) \<and>
   0 \<le> grandTotal (calculateTotals (amox_form\<lparr>sf_totalDiscount := 10\<rparr>)) \<and>
   grandTotal (calculateTotals (amox_form\<lparr>sf_totalDiscount := 10\<rparr>)) \<le>
     subtotal (calculateTotals (amox_form\<lparr>sf_totalDiscount := 10\<rparr>))"
proof -
  have h: "form_errors (amox_form\<lparr>sf_totalDiscount := 10\<rparr>) = []" by (simp add: form_eval)
  show ?thesis using totals_bounds[OF h] h by simp
qed

end
