(* ===== verification/PrescriptionDialog.thy ===== *)
theory PrescriptionDialog
  imports Prelude
begin

text \<open>
  The prescription dialog of src/src/components/ScheduleHModal.tsx as a
  component of its own: its state (\<open>selectedFile\<close>, \<open>isUploading\<close>), the
  prop \<open>isOpen\<close> its parent passes, and the callbacks \<open>onComplete\<close> and
  \<open>onClose\<close> it invokes. One user action is \<open>dialog_step\<close>: it returns the new
  state and the callbacks called, in order. Both transaction forms
  (MultiMedicineTransactionForm.tsx and TransactionForm.tsx) consume this
  interface through the contract lemmas at the end: what the dialog keeps
  invariant, and when it reports an uploaded file.

  A control the dialog disables (the file input, Skip and Upload while
  uploading, Upload with no file: lines 101, 123, 130) or does not render
  (the dialog is closed) ignores the action. The 2-second simulated upload
  (lines 52--53) is split into the click that starts it and its completion,
  which happens whether or not the dialog is still open: the component stays
  mounted. What the open dialog renders is \<open>ScheduleHModal_view\<close>; the
  controls it shows enabled are exactly those whose action has an effect
  (\<open>dialog_view_guards\<close>).
\<close>

subsection \<open>Definitions\<close>

record upload_file =
  file_name :: string
  file_type :: string
  file_size :: nat

text \<open>The checks of \<open>handleFileChange\<close>, lines 22--40.\<close>

definition allowed_types :: "string list" where
  "allowed_types = [''image/jpeg'', ''image/jpg'', ''image/png'', ''application/pdf'']"

definition valid_file :: "upload_file \<Rightarrow> bool" where
  "valid_file f \<longleftrightarrow> file_type f \<in> set allowed_types \<and> \<not> file_size f > 5 * 1024 * 1024"

text \<open>The dialog's state, lines 19--20.\<close>

record dialog_state =
  dl_selectedFile :: "upload_file option"
  dl_isUploading :: bool

definition dialog_init :: dialog_state where
  "dialog_init = \<lparr>dl_selectedFile = None, dl_isUploading = False\<rparr>"

datatype dialog_event = ChooseFile upload_file | ClickUpload | UploadFinished | ClickSkip | CloseDialog

datatype dialog_call = OnComplete bool | OnClose

text \<open>\<open>resetModal()\<close>, lines 71--75: clears the state and calls \<open>onClose\<close>.\<close>

definition resetModal :: "dialog_state \<Rightarrow> dialog_state \<times> dialog_call list" where
  "resetModal d = (d\<lparr>dl_selectedFile := None, dl_isUploading := False\<rparr>, [OnClose])"

text \<open>
  One action on the dialog with \<open>isOpen\<close> as given: \<open>handleFileChange\<close>
  (lines 22--40), \<open>handleUpload\<close> split at its \<open>await\<close> (lines 42--63: the
  completion calls \<open>onComplete(true)\<close>, then \<open>resetModal\<close>; \<open>finally\<close> clears
  \<open>isUploading\<close> again), \<open>handleSkip\<close> (lines 65--69) and the dialog's
  \<open>onOpenChange={onClose}\<close> (line 78), which does not reset.
\<close>

fun dialog_step :: "bool \<Rightarrow> dialog_state \<Rightarrow> dialog_event \<Rightarrow> dialog_state \<times> dialog_call list" where
  "dialog_step isOpen d (ChooseFile f) =
     (if isOpen \<and> \<not> dl_isUploading d \<and> valid_file f then (d\<lparr>dl_selectedFile := Some f\<rparr>, []) else (d, []))"
| "dialog_step isOpen d ClickUpload =
     (if isOpen \<and> \<not> dl_isUploading d \<and> dl_selectedFile d \<noteq> None
      then (d\<lparr>dl_isUploading := True\<rparr>, []) else (d, []))"
| "dialog_step isOpen d UploadFinished =
     (if dl_isUploading d
      then (let (d', cs) = resetModal d in (d'\<lparr>dl_isUploading := False\<rparr>, OnComplete True # cs))
      else (d, []))"
| "dialog_step isOpen d ClickSkip =
     (if isOpen \<and> \<not> dl_isUploading d
      then (let (d', cs) = resetModal d in (d', OnComplete False # cs)) else (d, []))"
| "dialog_step isOpen d CloseDialog = (if isOpen then (d, [OnClose]) else (d, []))"

text \<open>The dialog's invariant: a selected file passed the checks, and an upload runs only with a file.\<close>

definition dialog_inv :: "dialog_state \<Rightarrow> bool" where
  "dialog_inv d \<longleftrightarrow>
     (case dl_selectedFile d of None \<Rightarrow> \<not> dl_isUploading d | Some f \<Rightarrow> valid_file f)"

text \<open>A sample input: a 200 kB PDF prescription.\<close>

definition sample_prescription :: upload_file where
  "sample_prescription = \<lparr>file_name = ''rx.pdf'', file_type = ''application/pdf'', file_size = 200000\<rparr>"

text \<open>
  What the dialog renders while open, lines 77--145: the medicine's name, the
  selected file's name and size, and which of the file input, Skip and
  Upload are enabled (lines 101, 123, 130), with Upload's label (line 133).
\<close>

record dialog_view =
  dv_medicine :: string
  dv_selected :: "(string \<times> nat) option"
  dv_input_enabled :: bool
  dv_skip_enabled :: bool
  dv_upload_enabled :: bool
  dv_upload_label :: string

definition ScheduleHModal_view :: "bool \<Rightarrow> string \<Rightarrow> dialog_state \<Rightarrow> dialog_view option" where
  "ScheduleHModal_view isOpen medicineName d =
     (if \<not> isOpen then None
      else Some \<lparr>dv_medicine = medicineName,
                 dv_selected = map_option (\<lambda>f. (file_name f, file_size f)) (dl_selectedFile d),
                 dv_input_enabled = \<not> dl_isUploading d, dv_skip_enabled = \<not> dl_isUploading d,
                 dv_upload_enabled = (dl_selectedFile d \<noteq> None \<and> \<not> dl_isUploading d),
                 dv_upload_label = (if dl_isUploading d then ''Uploading...'' else ''Upload & Continue'')\<rparr>)"

subsection \<open>The dialog's contract\<close>

lemma dialog_init_inv: "dialog_inv dialog_init"
  by (simp add: dialog_inv_def dialog_init_def)

lemma dialog_step_inv: "dialog_inv d \<Longrightarrow> dialog_inv (fst (dialog_step isOpen d e))"
  by (cases e) (auto simp: dialog_inv_def resetModal_def split: option.splits)

text \<open>The dialog reports an upload only when a file that passed the checks was selected.\<close>

lemma dialog_complete_true:
  "dialog_inv d \<Longrightarrow> OnComplete True \<in> set (snd (dialog_step isOpen d e)) \<Longrightarrow>
   e = UploadFinished \<and> (\<exists>f. dl_selectedFile d = Some f \<and> valid_file f)"
  by (cases e) (auto simp: dialog_inv_def resetModal_def split: if_splits option.splits)

text \<open>The callbacks of one action: none, \<open>onClose\<close>, or \<open>onComplete\<close> followed by \<open>onClose\<close>.\<close>

lemma dialog_calls_cases:
  "snd (dialog_step isOpen d e) = [] \<or> snd (dialog_step isOpen d e) = [OnClose] \<or>
   (\<exists>b. snd (dialog_step isOpen d e) = [OnComplete b, OnClose])"
  by (cases e) (auto simp: resetModal_def)

lemma dialog_skip:
  "isOpen \<Longrightarrow> \<not> dl_isUploading d \<Longrightarrow>
   dialog_step isOpen d ClickSkip = (d\<lparr>dl_selectedFile := None, dl_isUploading := False\<rparr>, [OnComplete False, OnClose])"
  by (simp add: resetModal_def)

lemma dialog_upload_finished:
  "dl_isUploading d \<Longrightarrow>
   dialog_step isOpen d UploadFinished = (d\<lparr>dl_selectedFile := None, dl_isUploading := False\<rparr>, [OnComplete True, OnClose])"
  by (simp add: resetModal_def)

lemma dialog_close:
  "dialog_step isOpen d CloseDialog = (d, if isOpen then [OnClose] else [])"
  by simp

text \<open>
  The rendered controls and the actions agree: on the open dialog, Upload and
  Skip act exactly when they are rendered enabled.
\<close>

lemma dialog_view_guards:
  assumes "ScheduleHModal_view isOpen n d = Some v"
  shows "dv_upload_enabled v = (dialog_step isOpen d ClickUpload \<noteq> (d, [])) \<and>
         dv_skip_enabled v = (dialog_step isOpen d ClickSkip \<noteq> (d, []))"
proof -
  have o: "isOpen" and v: "v = the (ScheduleHModal_view isOpen n d)" using assms by (auto simp: ScheduleHModal_view_def split: if_splits)
  have u: "d\<lparr>dl_isUploading := True\<rparr> \<noteq> d" if "\<not> dl_isUploading d" using that by (cases d) simp
  show ?thesis using o u
    by (auto simp: v ScheduleHModal_view_def resetModal_def)
qed

end
