(* ===== verification/ScheduleH.thy ===== *)
theory ScheduleH
  imports SaleForm PrescriptionDialog
begin

text \<open>
  The Schedule H gate of the multi-medicine form: the form's \<open>onSubmit\<close>,
  \<open>processTransaction\<close> and \<open>handleScheduleHComplete\<close>
  (src/src/components/MultiMedicineTransactionForm.tsx) driving the
  prescription dialog of PrescriptionDialog.thy, as one deterministic machine
  over the form's React state with the dialog's state inside it. An event the
  UI does not offer in a state (a disabled button, a control hidden behind
  the modal dialog) is a no-op. The server's reply to a post is its own event.
  Each post records, as ghost state, the file that was selected in the dialog
  when it reported an upload.
\<close>

subsection \<open>Definitions\<close>

record flow =
  fl_type :: tx_kind
  fl_form :: sale_form
  fl_showModal :: bool
  fl_isSubmitting :: bool
  fl_scheduleHItems :: "form_item list"
  fl_dialog :: dialog_state
  fl_posted :: "(multi_request \<times> upload_file option) list"

datatype flow_event =
    SelectMedicine nat catalog_medicine | AddItem | RemoveItem nat
  | SetQuantity nat rat | SetPrice nat rat | SetDiscount nat rat | SetTotalDiscount rat
  | Submit | ServerResponse bool | Dialog dialog_event

text \<open>The form's state, lines 39--51, with the dialog mounted in its initial state.\<close>

definition flow_init :: "tx_kind \<Rightarrow> flow" where
  "flow_init ty =
     \<lparr>fl_type = ty, fl_form = initial_form, fl_showModal = False, fl_isSubmitting = False,
      fl_scheduleHItems = [], fl_dialog = dialog_init, fl_posted = []\<rparr>"

text \<open>
  \<open>processTransaction(data, prescriptionSkipped)\<close>, form lines 96--113: the
  post is sent; \<open>uf\<close> is the ghost record of the uploaded file, if any.
\<close>

definition processTransaction :: "sale_form \<Rightarrow> bool \<Rightarrow> upload_file option \<Rightarrow> flow \<Rightarrow> flow" where
  "processTransaction f skipped uf s =
     s\<lparr>fl_isSubmitting := True,
       fl_posted := fl_posted s @ [(make_request (fl_type s) f skipped, uf)]\<rparr>"

text \<open>\<open>handleScheduleHComplete(prescriptionUploaded)\<close>, form lines 132--135: posts the form's current values.\<close>

definition handleScheduleHComplete :: "bool \<Rightarrow> upload_file option \<Rightarrow> flow \<Rightarrow> flow" where
  "handleScheduleHComplete uploaded uf s =
     processTransaction (fl_form s) (\<not> uploaded) (if uploaded then uf else None) s"

text \<open>The dialog's callbacks as the form wires them, lines 358--363.\<close>

fun apply_call :: "upload_file option \<Rightarrow> flow \<Rightarrow> dialog_call \<Rightarrow> flow" where
  "apply_call uf s (OnComplete b) = handleScheduleHComplete b uf s"
| "apply_call uf s OnClose = s\<lparr>fl_showModal := False\<rparr>"

text \<open>\<open>form.handleSubmit(onSubmit)\<close>: the schema, then \<open>onSubmit\<close>, form lines 80--94.\<close>

definition onSubmit :: "flow \<Rightarrow> flow" where
  "onSubmit s =
     (if form_errors (fl_form s) \<noteq> [] then s
      else let hItems = scheduleHItems_of (fl_form s) in
        if fl_type s = Sell \<and> hItems \<noteq> [] then s\<lparr>fl_scheduleHItems := hItems, fl_showModal := True\<rparr>
        else processTransaction (fl_form s) False None s)"

text \<open>The quantity, price and discount inputs of row \<open>i\<close>, form lines 255--302.\<close>

definition set_item :: "nat \<Rightarrow> (form_item \<Rightarrow> form_item) \<Rightarrow> sale_form \<Rightarrow> sale_form" where
  "set_item i g f = f\<lparr>sf_items := (sf_items f)[i := g (sf_items f ! i)]\<rparr>"

text \<open>
  One event. Form edits and submission happen only while the dialog is closed
  (it is modal); submission only while no post is pending (the button is
  disabled, line 351). A dialog action goes to the dialog with \<open>isOpen\<close> the
  form's \<open>showScheduleHModal\<close>, and the callbacks it calls run in order; the
  file recorded with a reported upload is the one selected before the action.
  A successful reply resets the form (\<open>form.reset()\<close>, line 121).
\<close>

fun flow_step :: "flow \<Rightarrow> flow_event \<Rightarrow> flow" where
  "flow_step s (SelectMedicine i m) =
     (if fl_showModal s then s else s\<lparr>fl_form := onMedicineSelect i m (fl_form s)\<rparr>)"
| "flow_step s AddItem = (if fl_showModal s then s else s\<lparr>fl_form := append_item (fl_form s)\<rparr>)"
| "flow_step s (RemoveItem i) =
     (if fl_showModal s then s else s\<lparr>fl_form := remove_item i (fl_form s)\<rparr>)"
| "flow_step s (SetQuantity i q) =
     (if fl_showModal s then s else s\<lparr>fl_form := set_item i (\<lambda>it. it\<lparr>fi_quantity := q\<rparr>) (fl_form s)\<rparr>)"
| "flow_step s (SetPrice i p) =
     (if fl_showModal s then s else s\<lparr>fl_form := set_item i (\<lambda>it. it\<lparr>fi_price := p\<rparr>) (fl_form s)\<rparr>)"
| "flow_step s (SetDiscount i d) =
     (if fl_showModal s then s else s\<lparr>fl_form := set_item i (\<lambda>it. it\<lparr>fi_discount := d\<rparr>) (fl_form s)\<rparr>)"
| "flow_step s (SetTotalDiscount d) =
     (if fl_showModal s then s else s\<lparr>fl_form := (fl_form s)\<lparr>sf_totalDiscount := d\<rparr>\<rparr>)"
| "flow_step s Submit = (if fl_showModal s \<or> fl_isSubmitting s then s else onSubmit s)"
| "flow_step s (ServerResponse ok) =
     (if fl_isSubmitting s
      then s\<lparr>fl_isSubmitting := False, fl_form := (if ok then initial_form else fl_form s)\<rparr>
      else s)"
| "flow_step s (Dialog e) =
     (let (d', cs) = dialog_step (fl_showModal s) (fl_dialog s) e
      in foldl (apply_call (dl_selectedFile (fl_dialog s))) (s\<lparr>fl_dialog := d'\<rparr>) cs)"

fun flow_run :: "flow \<Rightarrow> flow_event list \<Rightarrow> flow" where
  "flow_run s [] = s"
| "flow_run s (e # es) = flow_run (flow_step s e) es"

text \<open>
  The gate's invariant: the dialog's invariant, a non-empty item list, and
  every sale posted with Schedule H items (as the form counts them) either
  marked as skipped, with no file, or sent after a valid file was uploaded.
\<close>

definition gated_post :: "multi_request \<times> upload_file option \<Rightarrow> bool" where
  "gated_post p \<longleftrightarrow>
     (mr_type (fst p) = Sell \<and> 0 < mr_scheduleHCount (fst p) \<longrightarrow>
        (mr_prescriptionSkipped (fst p) \<and> snd p = None) \<or>
        (\<not> mr_prescriptionSkipped (fst p) \<and> (\<exists>f. snd p = Some f \<and> valid_file f)))"

definition flow_inv :: "flow \<Rightarrow> bool" where
  "flow_inv s \<longleftrightarrow> dialog_inv (fl_dialog s) \<and> sf_items (fl_form s) \<noteq> [] \<and> list_all gated_post (fl_posted s)"

text \<open>
  Sample inputs: a sale of Amoxicillin 250mg (Schedule H) submitted; the same
  sale completed by uploading the sample prescription.
\<close>

definition amox_sale :: "flow_event list" where
  "amox_sale = [SelectMedicine 0 (search_catalog ! 1), Submit]"

definition amox_upload :: "flow_event list" where
  "amox_upload = amox_sale @ [Dialog (ChooseFile sample_prescription), Dialog ClickUpload, Dialog UploadFinished]"

lemmas flow_eval = flow_init_def dialog_init_def form_eval onSubmit_def processTransaction_def resetModal_def
  handleScheduleHComplete_def valid_file_def allowed_types_def sample_prescription_def make_request_def set_item_def

subsection \<open>Lemmas\<close>

lemma flow_run_append: "flow_run s (es @ fs) = flow_run (flow_run s es) fs"
  by (induction es arbitrary: s) simp_all

lemma items_nonempty_edits:
  "sf_items f \<noteq> [] \<Longrightarrow> sf_items (onMedicineSelect i m f) \<noteq> []"
  "sf_items f \<noteq> [] \<Longrightarrow> sf_items (append_item f) \<noteq> []"
  "sf_items f \<noteq> [] \<Longrightarrow> sf_items (remove_item i f) \<noteq> []"
  "sf_items f \<noteq> [] \<Longrightarrow> sf_items (set_item i g f) \<noteq> []"
proof -
  assume ne: "sf_items f \<noteq> []"
  show "sf_items (onMedicineSelect i m f) \<noteq> []" using ne by (simp add: onMedicineSelect_def)
  show "sf_items (append_item f) \<noteq> []" by (simp add: append_item_def)
  show "sf_items (set_item i g f) \<noteq> []" using ne by (simp add: set_item_def)
  show "sf_items (remove_item i f) \<noteq> []"
  proof (cases "length (sf_items f) = 1")
    case True then show ?thesis using ne by (simp add: remove_item_def)
  next
    case False
    have "length (sf_items f) \<noteq> 0" using ne by simp
    with False have "2 \<le> length (sf_items f)" by arith
    then have "take i (sf_items f) @ drop (Suc i) (sf_items f) \<noteq> []"
      by (cases "i < length (sf_items f)") auto
    with False show ?thesis by (simp add: remove_item_def)
  qed
qed

lemma onSubmit_inv: "flow_inv s \<Longrightarrow> flow_inv (onSubmit s)"
  by (auto simp: onSubmit_def flow_inv_def processTransaction_def Let_def gated_post_def
      make_request_def)

text \<open>A callback keeps the form, the kind and the dialog, and posts at most one request.\<close>

lemma apply_call_fields:
  "fl_form (apply_call uf s c) = fl_form s" "fl_type (apply_call uf s c) = fl_type s"
  "fl_dialog (apply_call uf s c) = fl_dialog s"
  by (cases c; simp add: handleScheduleHComplete_def processTransaction_def)+

lemma apply_call_posted:
  "fl_posted (apply_call uf s (OnComplete b)) =
     fl_posted s @ [(make_request (fl_type s) (fl_form s) (\<not> b), if b then uf else None)]"
  "fl_posted (apply_call uf s OnClose) = fl_posted s"
  by (simp_all add: handleScheduleHComplete_def processTransaction_def)

lemma dialog_event_inv:
  assumes inv: "flow_inv s"
  shows "flow_inv (flow_step s (Dialog e))"
proof -
  obtain d' cs where ds: "dialog_step (fl_showModal s) (fl_dialog s) e = (d', cs)" by fastforce
  have d': "dialog_inv d'" using dialog_step_inv[of "fl_dialog s" "fl_showModal s" e] inv ds
    by (simp add: flow_inv_def)
  let ?uf = "dl_selectedFile (fl_dialog s)"
  have up: "\<exists>f. ?uf = Some f \<and> valid_file f" if "OnComplete True \<in> set cs"
    using dialog_complete_true[of "fl_dialog s" "fl_showModal s" e] inv ds that by (simp add: flow_inv_def)
  have step: "flow_step s (Dialog e) = foldl (apply_call ?uf) (s\<lparr>fl_dialog := d'\<rparr>) cs"
    using ds by simp
  from dialog_calls_cases[of "fl_showModal s" "fl_dialog s" e] ds
  consider "cs = []" | "cs = [OnClose]" | b where "cs = [OnComplete b, OnClose]" by auto
  then have "flow_inv (foldl (apply_call ?uf) (s\<lparr>fl_dialog := d'\<rparr>) cs)"
  proof cases
    case 3
    then show ?thesis using inv d' up
      by (cases b) (auto simp: flow_inv_def handleScheduleHComplete_def processTransaction_def gated_post_def make_request_def)
  qed (use inv d' in \<open>simp_all add: flow_inv_def\<close>)
  then show ?thesis unfolding step .
qed

lemma flow_step_inv: "flow_inv s \<Longrightarrow> flow_inv (flow_step s e)"
proof (cases e)
  case Submit
  then show "flow_inv s \<Longrightarrow> flow_inv (flow_step s e)" by (simp add: onSubmit_inv)
next
  case (Dialog x)
  then show "flow_inv s \<Longrightarrow> flow_inv (flow_step s e)" by (simp only: dialog_event_inv)
qed (auto simp: flow_inv_def items_nonempty_edits initial_form_def)

lemma flow_init_inv: "flow_inv (flow_init ty)"
  by (simp add: flow_inv_def flow_init_def initial_form_def dialog_init_inv)

lemma flow_run_inv: "flow_inv s \<Longrightarrow> flow_inv (flow_run s es)"
  by (induction es arbitrary: s) (simp_all add: flow_step_inv)

lemma amox_sale_state:
  "fl_showModal (flow_run (flow_init Sell) amox_sale) \<and>
   fl_dialog (flow_run (flow_init Sell) amox_sale) = dialog_init \<and>
   fl_posted (flow_run (flow_init Sell) amox_sale) = [] \<and>
   fl_form (flow_run (flow_init Sell) amox_sale) = amox_form \<and> fl_type (flow_run (flow_init Sell) amox_sale) = Sell"
  by (simp add: amox_sale_def flow_eval Let_def)

lemma amox_upload_posted:
  "fl_posted (flow_run (flow_init Sell) amox_upload) = [(make_request Sell amox_form False, Some sample_prescription)]"
  by (simp add: amox_upload_def amox_sale_def flow_eval Let_def)

text \<open>Setting a row's quantity to 0 makes the form invalid.\<close>

lemma quantity_zero_errors:
  assumes "i < length (sf_items f)"
  shows "form_errors (set_item i (\<lambda>it. it\<lparr>fi_quantity := 0\<rparr>) f) \<noteq> []"
proof -
  have "(i, (sf_items f)[i := (sf_items f ! i)\<lparr>fi_quantity := 0\<rparr>] ! i)
          \<in> set (enumerate 0 ((sf_items f)[i := (sf_items f ! i)\<lparr>fi_quantity := 0\<rparr>]))"
    using assms by (simp add: in_set_enumerate_eq)
  moreover have "item_errors i ((sf_items f ! i)\<lparr>fi_quantity := 0\<rparr>) \<noteq> []"
    by (simp add: item_errors_def)
  ultimately show ?thesis using assms
    by (simp add: form_errors_def set_item_def) (metis (no_types, lifting) case_prod_conv)
qed

subsection \<open>Properties\<close>

text \<open>
  C3: every sale the form posts that contains Schedule H items (as the form
  counts them), in any sequence of user actions and server replies from the
  initial state, is either marked as skipped and sent with no prescription,
  or sent after a prescription file that passed the dialog's type and size
  checks was uploaded.
\<close>

theorem gate_posts_are_gated:
  assumes "p \<in> set (fl_posted (flow_run (flow_init ty) es))"
    and "mr_type (fst p) = Sell" and "0 < mr_scheduleHCount (fst p)"
  shows "(mr_prescriptionSkipped (fst p) \<and> snd p = None) \<or>
         (\<not> mr_prescriptionSkipped (fst p) \<and> (\<exists>f. snd p = Some f \<and> valid_file f))"
proof -
  have "flow_inv (flow_run (flow_init ty) es)" by (rule flow_run_inv[OF flow_init_inv])
  then have "gated_post p" using assms(1) by (simp add: flow_inv_def list_all_iff)
  then show ?thesis using assms(2,3) by (simp add: gated_post_def)
qed

theorem gate_posts_are_gated_witness:
  "(make_request Sell amox_form False, Some sample_prescription) \<in> set (fl_posted (flow_run (flow_init Sell) amox_upload)) \<and>
   mr_type (make_request Sell amox_form False) = Sell \<and> 0 < mr_scheduleHCount (make_request Sell amox_form False) \<and>
   \<not> mr_prescriptionSkipped (make_request Sell amox_form False) \<and> valid_file sample_prescription"
proof -
  have m: "(make_request Sell amox_form False, Some sample_prescription) \<in> set (fl_posted (flow_run (flow_init Sell) amox_upload))"
    by (simp add: amox_upload_posted)
  have t: "mr_type (fst (make_request Sell amox_form False, Some sample_prescription)) = Sell"
    by (simp add: make_request_def)
  have c: "0 < mr_scheduleHCount (fst (make_request Sell amox_form False, Some sample_prescription))"
    by (simp add: flow_eval)
  show ?thesis using gate_posts_are_gated[OF m t c] m t c by auto
qed

text \<open>
  A valid sale with Schedule H items does not post on submit: it opens the
  prescription dialog.
\<close>

theorem submit_opens_dialog:
  assumes "\<not> fl_showModal s" and "\<not> fl_isSubmitting s" and "form_errors (fl_form s) = []"
    and "fl_type s = Sell" and "scheduleHItems_of (fl_form s) \<noteq> []"
  shows "fl_showModal (flow_step s Submit) \<and> fl_posted (flow_step s Submit) = fl_posted s"
  using assms by (simp add: onSubmit_def Let_def)

theorem submit_opens_dialog_witness:
  "\<not> fl_showModal (flow_step (flow_init Sell) (SelectMedicine 0 (search_catalog ! 1))) \<and>
   \<not> fl_isSubmitting (flow_step (flow_init Sell) (SelectMedicine 0 (search_catalog ! 1))) \<and>
   form_errors (fl_form (flow_step (flow_init Sell) (SelectMedicine 0 (search_catalog ! 1)))) = [] \<and>
   fl_type (flow_step (flow_init Sell) (SelectMedicine 0 (search_catalog ! 1))) = Sell \<and>
   scheduleHItems_of (fl_form (flow_step (flow_init Sell) (SelectMedicine 0 (search_catalog ! 1)))) \<noteq> [] \<and>
   fl_showModal (flow_step (flow_step (flow_init Sell) (SelectMedicine 0 (search_catalog ! 1))) Submit)"
proof -
  let ?s = "flow_step (flow_init Sell) (SelectMedicine 0 (search_catalog ! 1))"
  have a: "\<not> fl_showModal ?s" "\<not> fl_isSubmitting ?s" "form_errors (fl_form ?s) = []" "fl_type ?s = Sell"
      "scheduleHItems_of (fl_form ?s) \<noteq> []"
    by (simp_all add: flow_eval)
  show ?thesis using submit_opens_dialog[OF a] a by simp
qed

text \<open>
  C26: from the open dialog, when no upload runs, Skip always completes the
  sale: it posts the form marked as skipped with no file, closes the dialog
  and clears the selected file.
\<close>

theorem skip_always_posts:
  assumes "fl_showModal s" and "\<not> dl_isUploading (fl_dialog s)"
  shows "fl_posted (flow_step s (Dialog ClickSkip)) = fl_posted s @ [(make_request (fl_type s) (fl_form s) True, None)] \<and>
         \<not> fl_showModal (flow_step s (Dialog ClickSkip)) \<and> dl_selectedFile (fl_dialog (flow_step s (Dialog ClickSkip))) = None"
  using assms by (simp add: resetModal_def handleScheduleHComplete_def processTransaction_def)

theorem skip_always_posts_witness:
  "fl_showModal (flow_run (flow_init Sell) amox_sale) \<and> \<not> dl_isUploading (fl_dialog (flow_run (flow_init Sell) amox_sale)) \<and>
   fl_posted (flow_step (flow_run (flow_init Sell) amox_sale) (Dialog ClickSkip)) = [(make_request Sell amox_form True, None)]"
proof -
  have a: "fl_showModal (flow_run (flow_init Sell) amox_sale)" "\<not> dl_isUploading (fl_dialog (flow_run (flow_init Sell) amox_sale))"
    using amox_sale_state by (simp_all add: dialog_init_def)
  show ?thesis using skip_always_posts[OF a] a amox_sale_state by simp
qed

text \<open>
  C9: closing the dialog does not clear the chosen file, so a prescription
  chosen for one sale is uploaded with a different sale later: from any open
  dialog with a file chosen and no upload running, closing it, changing a
  row to another Schedule H medicine, submitting and clicking Upload without
  choosing again posts the new sale with the old file.
\<close>

theorem stale_prescription_reused:
  assumes "fl_showModal s" and "dl_selectedFile (fl_dialog s) = Some f" and "\<not> dl_isUploading (fl_dialog s)"
    and "\<not> fl_isSubmitting s" and "fl_type s = Sell"
    and "form_errors (onMedicineSelect i m (fl_form s)) = []"
    and "scheduleHItems_of (onMedicineSelect i m (fl_form s)) \<noteq> []"
  shows "fl_posted (flow_run s [Dialog CloseDialog, SelectMedicine i m, Submit, Dialog ClickUpload, Dialog UploadFinished]) =
         fl_posted s @ [(make_request Sell (onMedicineSelect i m (fl_form s)) False, Some f)]"
  using assms by (simp add: onSubmit_def resetModal_def handleScheduleHComplete_def processTransaction_def Let_def)

theorem stale_prescription_reused_witness:
  "fl_posted (flow_run (flow_run (flow_init Sell) (amox_sale @ [Dialog (ChooseFile sample_prescription)]))
     [Dialog CloseDialog, SelectMedicine 0 (search_catalog ! 3), Submit, Dialog ClickUpload, Dialog UploadFinished]) =
   [(make_request Sell (onMedicineSelect 0 (search_catalog ! 3) amox_form) False, Some sample_prescription)]"
proof -
  let ?s = "flow_run (flow_init Sell) (amox_sale @ [Dialog (ChooseFile sample_prescription)])"
  have a: "fl_showModal ?s" "dl_selectedFile (fl_dialog ?s) = Some sample_prescription"
    "\<not> dl_isUploading (fl_dialog ?s)" "\<not> fl_isSubmitting ?s" "fl_type ?s = Sell"
    "form_errors (onMedicineSelect 0 (search_catalog ! 3) (fl_form ?s)) = []"
    "scheduleHItems_of (onMedicineSelect 0 (search_catalog ! 3) (fl_form ?s)) \<noteq> []"
    "fl_posted ?s = []" "fl_form ?s = amox_form"
    by (simp_all add: amox_sale_def flow_eval Let_def)
  show ?thesis using stale_prescription_reused[OF a(1-7)] a(8,9) by simp
qed

text \<open>
  C10: an upload keeps running when the dialog is closed, and its completion
  posts the form as it is then, without validating it again: from any state
  with an upload running, closing the dialog and setting a row's quantity
  to 0 posts the invalid form.
\<close>

theorem upload_posts_unvalidated_form:
  assumes "fl_showModal s" and "dl_selectedFile (fl_dialog s) = Some f" and "dl_isUploading (fl_dialog s)"
    and "i < length (sf_items (fl_form s))"
  shows "fl_posted (flow_run s [Dialog CloseDialog, SetQuantity i 0, Dialog UploadFinished]) =
           fl_posted s @ [(make_request (fl_type s) (set_item i (\<lambda>it. it\<lparr>fi_quantity := 0\<rparr>) (fl_form s)) False, Some f)] \<and>
         form_errors (set_item i (\<lambda>it. it\<lparr>fi_quantity := 0\<rparr>) (fl_form s)) \<noteq> []"
  using assms quantity_zero_errors[OF assms(4)]
  by (simp add: resetModal_def handleScheduleHComplete_def processTransaction_def Let_def set_item_def)

theorem upload_posts_unvalidated_form_witness:
  "fl_posted (flow_run (flow_run (flow_init Sell)
       (amox_sale @ [Dialog (ChooseFile sample_prescription), Dialog ClickUpload]))
     [Dialog CloseDialog, SetQuantity 0 0, Dialog UploadFinished]) =
     [(make_request Sell (set_item 0 (\<lambda>it. it\<lparr>fi_quantity := 0\<rparr>) amox_form) False, Some sample_prescription)] \<and>
   form_errors (set_item 0 (\<lambda>it. it\<lparr>fi_quantity := 0\<rparr>) amox_form) \<noteq> []"
proof -
  let ?s = "flow_run (flow_init Sell) (amox_sale @ [Dialog (ChooseFile sample_prescription), Dialog ClickUpload])"
  have a: "fl_showModal ?s" "dl_selectedFile (fl_dialog ?s) = Some sample_prescription"
    "dl_isUploading (fl_dialog ?s)" "0 < length (sf_items (fl_form ?s))"
    "fl_posted ?s = []" "fl_form ?s = amox_form" "fl_type ?s = Sell"
    by (simp_all add: amox_sale_def flow_eval Let_def)
  show ?thesis using upload_posts_unvalidated_form[OF a(1-4)] a(5-7) by simp
qed

text \<open>
  C8: Ciprofloxacin is Schedule H in the picker's catalog but absent from the
  form's medicine table, so a sale whose rows all name medicines missing from
  that table is posted directly on submit, with no prescription dialog and a
  Schedule H count of 0.
\<close>

theorem cipro_sale_not_gated:
  assumes "fl_type s = Sell" and "\<not> fl_showModal s" and "\<not> fl_isSubmitting s"
    and "form_errors (fl_form s) = []"
    and "\<forall>it\<in>set (sf_items (fl_form s)). fi_medicineId it \<notin> set (map cm_id form_medicines)"
  shows "flow_step s Submit = processTransaction (fl_form s) False None s \<and>
         mr_scheduleHCount (make_request Sell (fl_form s) False) = 0 \<and>
         cm_schedule (search_catalog ! 8) = Some ''H'' \<and> cm_id (search_catalog ! 8) \<notin> set (map cm_id form_medicines)"
proof -
  have h: "scheduleHItems_of (fl_form s) = []"
    using assms(5) by (auto simp: scheduleHItems_of_def schedule_h_by_def filter_empty_conv split: option.splits
      dest!: find_Some_iff[THEN iffD1]) (metis image_eqI nth_mem)
  show ?thesis using assms h by (simp add: onSubmit_def make_request_def form_eval)
qed

theorem cipro_sale_not_gated_witness:
  "fl_posted (flow_step (flow_run (flow_init Sell) [SelectMedicine 0 (search_catalog ! 8)]) Submit) =
     [(make_request Sell (onMedicineSelect 0 (search_catalog ! 8) initial_form) False, None)] \<and>
   mr_scheduleHCount (make_request Sell (onMedicineSelect 0 (search_catalog ! 8) initial_form) False) = 0"
proof -
  let ?s = "flow_run (flow_init Sell) [SelectMedicine 0 (search_catalog ! 8)]"
  have s: "?s = flow_init Sell\<lparr>fl_form := onMedicineSelect 0 (search_catalog ! 8) initial_form\<rparr>"
    by (simp add: flow_init_def)
  have a: "fl_type ?s = Sell" "\<not> fl_showModal ?s" "\<not> fl_isSubmitting ?s" "form_errors (fl_form ?s) = []"
    "\<forall>it\<in>set (sf_items (fl_form ?s)). fi_medicineId it \<notin> set (map cm_id form_medicines)"
    unfolding s by (simp_all add: flow_init_def form_eval)
  show ?thesis using cipro_sale_not_gated[OF a] s by (simp add: processTransaction_def flow_init_def)
qed

end
