(* ===== verification/SingleForm.thy ===== *)
theory SingleForm
  imports SaleForm PrescriptionDialog
begin

text \<open>
  The single-medicine sale/purchase form of src/src/components/TransactionForm.tsx:
  its zod schema, the medicine it remembers from the picker, its submission
  through the prescription dialog of PrescriptionDialog.thy, and the body it
  posts to /api/transactions. As in ScheduleH.thy the form and the mounted
  dialog form one deterministic machine; an input that is not rendered (the
  purchase-only fields of a sale) or is hidden behind the modal dialog ignores
  its event. Unlike the multi-medicine form, this form decides Schedule H from
  the medicine picked in the catalogue.
\<close>

subsection \<open>Definitions\<close>

record single_form =
  sg_medicineId :: string
  sg_medicineName :: string
  sg_quantity :: rat
  sg_price :: rat
  sg_batch :: string
  sg_supplier :: string
  sg_expiryDate :: string

datatype single_error = S_MedicineNotSelected | S_NameRequired | S_QuantityBelowOne | S_PriceNotPositive

text \<open>\<open>transactionSchema\<close>, lines 15--23 (the optional strings never fail).\<close>

definition single_errors :: "single_form \<Rightarrow> single_error list" where
  "single_errors f =
     (if sg_medicineId f = [] then [S_MedicineNotSelected] else []) @
     (if sg_medicineName f = [] then [S_NameRequired] else []) @
     (if sg_quantity f < 1 then [S_QuantityBelowOne] else []) @
     (if sg_price f < 0.01 then [S_PriceNotPositive] else [])"

text \<open>\<open>defaultValues\<close>, lines 38--46.\<close>

definition single_initial :: single_form where
  "single_initial =
     \<lparr>sg_medicineId = [], sg_medicineName = [], sg_quantity = 1, sg_price = 0,
      sg_batch = [], sg_supplier = [], sg_expiryDate = []\<rparr>"

text \<open>The body posted to /api/transactions, lines 81--86.\<close>

record single_request =
  sr_form :: single_form
  sr_type :: tx_kind
  sr_prescriptionSkipped :: bool
  sr_scheduleH :: bool

text \<open>\<open>selectedMedicine?.schedule === 'H'\<close>.\<close>

definition selected_schedule_h :: "catalog_medicine option \<Rightarrow> bool" where
  "selected_schedule_h sel \<longleftrightarrow> (case sel of None \<Rightarrow> False | Some m \<Rightarrow> cm_schedule m = Some ''H'')"

text \<open>The component's state, lines 32--47, with the dialog's state inside it.\<close>

record sflow =
  sg_type :: tx_kind
  sg_form :: single_form
  sg_selectedMedicine :: "catalog_medicine option"
  sg_showModal :: bool
  sg_isSubmitting :: bool
  sg_dialog :: dialog_state
  sg_posted :: "(single_request \<times> upload_file option) list"

datatype single_event =
    S_Select catalog_medicine | S_SetQuantity rat | S_SetPrice rat
  | S_SetBatch string | S_SetSupplier string | S_SetExpiry string
  | S_Submit | S_ServerResponse bool | S_Dialog dialog_event

definition sflow_init :: "tx_kind \<Rightarrow> sflow" where
  "sflow_init ty =
     \<lparr>sg_type = ty, sg_form = single_initial, sg_selectedMedicine = None, sg_showModal = False,
      sg_isSubmitting = False, sg_dialog = dialog_init, sg_posted = []\<rparr>"

text \<open>
  \<open>onMedicineSelect(medicine)\<close>, lines 49--60. The picker's entries have no
  batch, supplier or expiry date, so \<open>medicine.batch || ''\<close> and the like are
  the empty string.
\<close>

definition single_select :: "catalog_medicine \<Rightarrow> sflow \<Rightarrow> sflow" where
  "single_select m s =
     s\<lparr>sg_selectedMedicine := Some m,
       sg_form := (let f = (sg_form s)\<lparr>sg_medicineId := cm_id m, sg_medicineName := cm_name m,
                                       sg_price := cm_price m\<rparr>
                   in if sg_type s = Purchase then f\<lparr>sg_batch := [], sg_supplier := [], sg_expiryDate := []\<rparr>
                      else f)\<rparr>"

text \<open>\<open>processTransaction(data, prescriptionSkipped)\<close>, lines 72--87: the post is sent.\<close>

definition single_process :: "single_form \<Rightarrow> bool \<Rightarrow> upload_file option \<Rightarrow> sflow \<Rightarrow> sflow" where
  "single_process f skipped uf s =
     s\<lparr>sg_isSubmitting := True,
       sg_posted := sg_posted s @
         [(\<lparr>sr_form = f, sr_type = sg_type s, sr_prescriptionSkipped = skipped,
             sr_scheduleH = selected_schedule_h (sg_selectedMedicine s)\<rparr>, uf)]\<rparr>"

text \<open>The reply, lines 89--104: on success the form, the selection and the dialog flag are reset.\<close>

definition single_response :: "bool \<Rightarrow> sflow \<Rightarrow> sflow" where
  "single_response ok s =
     (if ok then s\<lparr>sg_isSubmitting := False, sg_form := single_initial, sg_selectedMedicine := None,
                  sg_showModal := False\<rparr>
      else s\<lparr>sg_isSubmitting := False\<rparr>)"

text \<open>\<open>form.handleSubmit(onSubmit)\<close>: the schema, then \<open>onSubmit\<close>, lines 62--70.\<close>

definition single_submit :: "sflow \<Rightarrow> sflow" where
  "single_submit s =
     (if single_errors (sg_form s) \<noteq> [] then s
      else if sg_type s = Sell \<and> selected_schedule_h (sg_selectedMedicine s) then s\<lparr>sg_showModal := True\<rparr>
      else single_process (sg_form s) False None s)"

text \<open>\<open>handleScheduleHComplete\<close> (lines 107--110) and \<open>onClose\<close> (line 249) as the dialog's callbacks.\<close>

fun single_call :: "upload_file option \<Rightarrow> sflow \<Rightarrow> dialog_call \<Rightarrow> sflow" where
  "single_call uf s (OnComplete b) = single_process (sg_form s) (\<not> b) (if b then uf else None) s"
| "single_call uf s OnClose = s\<lparr>sg_showModal := False\<rparr>"

text \<open>
  One event of the rendered form, lines 112--252: the picker, the quantity and
  price inputs, the purchase-only inputs (line 175), the submit button
  disabled while a post is pending (line 240), and the dialog.
\<close>

fun single_step :: "sflow \<Rightarrow> single_event \<Rightarrow> sflow" where
  "single_step s (S_Select m) = (if sg_showModal s then s else single_select m s)"
| "single_step s (S_SetQuantity q) =
     (if sg_showModal s then s else s\<lparr>sg_form := (sg_form s)\<lparr>sg_quantity := q\<rparr>\<rparr>)"
| "single_step s (S_SetPrice p) =
     (if sg_showModal s then s else s\<lparr>sg_form := (sg_form s)\<lparr>sg_price := p\<rparr>\<rparr>)"
| "single_step s (S_SetBatch b) =
     (if sg_showModal s \<or> sg_type s \<noteq> Purchase then s else s\<lparr>sg_form := (sg_form s)\<lparr>sg_batch := b\<rparr>\<rparr>)"
| "single_step s (S_SetSupplier b) =
     (if sg_showModal s \<or> sg_type s \<noteq> Purchase then s else s\<lparr>sg_form := (sg_form s)\<lparr>sg_supplier := b\<rparr>\<rparr>)"
| "single_step s (S_SetExpiry b) =
     (if sg_showModal s \<or> sg_type s \<noteq> Purchase then s else s\<lparr>sg_form := (sg_form s)\<lparr>sg_expiryDate := b\<rparr>\<rparr>)"
| "single_step s S_Submit = (if sg_showModal s \<or> sg_isSubmitting s then s else single_submit s)"
| "single_step s (S_ServerResponse ok) = (if sg_isSubmitting s then single_response ok s else s)"
| "single_step s (S_Dialog e) =
     (let (d', cs) = dialog_step (sg_showModal s) (sg_dialog s) e
      in foldl (single_call (dl_selectedFile (sg_dialog s))) (s\<lparr>sg_dialog := d'\<rparr>) cs)"

fun single_run :: "sflow \<Rightarrow> single_event list \<Rightarrow> sflow" where
  "single_run s [] = s"
| "single_run s (e # es) = single_run (single_step s e) es"

text \<open>
  The gate's invariant for this form: the dialog's invariant, and every sale
  posted for a Schedule H medicine either marked as skipped with no file or
  sent after a valid file was uploaded.
\<close>

definition single_gated :: "single_request \<times> upload_file option \<Rightarrow> bool" where
  "single_gated p \<longleftrightarrow>
     (sr_type (fst p) = Sell \<and> sr_scheduleH (fst p) \<longrightarrow>
        (sr_prescriptionSkipped (fst p) \<and> snd p = None) \<or>
        (\<not> sr_prescriptionSkipped (fst p) \<and> (\<exists>f. snd p = Some f \<and> valid_file f)))"

definition sflow_inv :: "sflow \<Rightarrow> bool" where
  "sflow_inv s \<longleftrightarrow>
     dialog_inv (sg_dialog s) \<and> list_all single_gated (sg_posted s)"

text \<open>A sample input: a sale of Ciprofloxacin 500mg (Schedule H in the picker) submitted.\<close>

definition cipro_sale :: "single_event list" where
  "cipro_sale = [S_Select (search_catalog ! 8), S_Submit]"

lemmas single_eval = sflow_init_def single_initial_def dialog_init_def single_select_def single_submit_def
  single_errors_def single_process_def selected_schedule_h_def resetModal_def search_catalog_def cm_def
  valid_file_def allowed_types_def sample_prescription_def

subsection \<open>Lemmas\<close>

lemma sflow_inv_showModal [simp]: "sflow_inv (s\<lparr>sg_showModal := b\<rparr>) = sflow_inv s"
  by (simp add: sflow_inv_def)

lemma single_process_inv:
  "sflow_inv s \<Longrightarrow> sg_type s = Sell \<longrightarrow> selected_schedule_h (sg_selectedMedicine s) \<longrightarrow> skipped \<and> uf = None
   \<Longrightarrow> sflow_inv (single_process f skipped uf s)"
  by (auto simp: sflow_inv_def single_process_def single_gated_def)

lemma single_dialog_inv:
  assumes inv: "sflow_inv s"
  shows "sflow_inv (single_step s (S_Dialog e))"
proof -
  obtain d' cs where ds: "dialog_step (sg_showModal s) (sg_dialog s) e = (d', cs)" by fastforce
  have d': "dialog_inv d'" using dialog_step_inv[of "sg_dialog s" "sg_showModal s" e] inv ds
    by (simp add: sflow_inv_def)
  let ?uf = "dl_selectedFile (sg_dialog s)"
  have up: "\<exists>f. ?uf = Some f \<and> valid_file f" if "OnComplete True \<in> set cs"
    using dialog_complete_true[of "sg_dialog s" "sg_showModal s" e] inv ds that by (simp add: sflow_inv_def)
  have step: "single_step s (S_Dialog e) = foldl (single_call ?uf) (s\<lparr>sg_dialog := d'\<rparr>) cs"
    using ds by simp
  from dialog_calls_cases[of "sg_showModal s" "sg_dialog s" e] ds
  consider "cs = []" | "cs = [OnClose]" | b where "cs = [OnComplete b, OnClose]" by auto
  then have "sflow_inv (foldl (single_call ?uf) (s\<lparr>sg_dialog := d'\<rparr>) cs)"
  proof cases
    case 3
    then show ?thesis using inv d' up
      by (cases b) (auto simp: sflow_inv_def single_process_def single_gated_def)
  qed (use inv d' in \<open>simp_all add: sflow_inv_def\<close>)
  then show ?thesis unfolding step .
qed

lemma single_step_inv: "sflow_inv s \<Longrightarrow> sflow_inv (single_step s e)"
proof (cases e)
  case S_Submit
  then show "sflow_inv s \<Longrightarrow> sflow_inv (single_step s e)"
    by (auto simp: single_submit_def intro!: single_process_inv)
next
  case (S_Dialog x)
  then show "sflow_inv s \<Longrightarrow> sflow_inv (single_step s e)" by (simp only: single_dialog_inv)
qed (auto simp: sflow_inv_def single_select_def single_response_def Let_def)

lemma sflow_init_inv: "sflow_inv (sflow_init ty)"
  by (simp add: sflow_inv_def sflow_init_def dialog_init_inv)

lemma single_run_inv: "sflow_inv s \<Longrightarrow> sflow_inv (single_run s es)"
  by (induction es arbitrary: s) (simp_all add: single_step_inv)

lemma cipro_upload_posted:
  "sg_posted (single_run (sflow_init Sell)
     (cipro_sale @ [S_Dialog (ChooseFile sample_prescription), S_Dialog ClickUpload, S_Dialog UploadFinished])) =
   [(\<lparr>sr_form = sg_form (single_run (sflow_init Sell) cipro_sale), sr_type = Sell, sr_prescriptionSkipped = False,
      sr_scheduleH = True\<rparr>, Some sample_prescription)]"
  by (simp add: cipro_sale_def single_eval Let_def)

subsection \<open>Properties\<close>

text \<open>
  C7: in every run of the single-medicine form and its prescription dialog
  from the initial state, each posted sale of a Schedule H medicine is either
  marked skipped with no file or sent after a file passing the dialog's
  checks was uploaded.
\<close>

theorem single_gate_posts_are_gated:
  assumes "p \<in> set (sg_posted (single_run (sflow_init ty) es))"
    and "sr_type (fst p) = Sell" and "sr_scheduleH (fst p)"
  shows "(sr_prescriptionSkipped (fst p) \<and> snd p = None) \<or>
         (\<not> sr_prescriptionSkipped (fst p) \<and> (\<exists>f. snd p = Some f \<and> valid_file f))"
proof -
  have "sflow_inv (single_run (sflow_init ty) es)" by (rule single_run_inv[OF sflow_init_inv])
  then have "single_gated p" using assms(1) by (simp add: sflow_inv_def list_all_iff)
  then show ?thesis using assms(2,3) by (simp add: single_gated_def)
qed

theorem single_gate_posts_are_gated_witness:
  "(\<lparr>sr_form = sg_form (single_run (sflow_init Sell) cipro_sale), sr_type = Sell, sr_prescriptionSkipped = False,
      sr_scheduleH = True\<rparr>, Some sample_prescription) \<in>
     set (sg_posted (single_run (sflow_init Sell)
       (cipro_sale @ [S_Dialog (ChooseFile sample_prescription), S_Dialog ClickUpload, S_Dialog UploadFinished]))) \<and>
   valid_file sample_prescription"
proof -
  let ?p = "(\<lparr>sr_form = sg_form (single_run (sflow_init Sell) cipro_sale), sr_type = Sell, sr_prescriptionSkipped = False,
      sr_scheduleH = True\<rparr>, Some sample_prescription)"
  have m: "?p \<in> set (sg_posted (single_run (sflow_init Sell)
       (cipro_sale @ [S_Dialog (ChooseFile sample_prescription), S_Dialog ClickUpload, S_Dialog UploadFinished])))"
    by (simp only: cipro_upload_posted) simp
  have t: "sr_type (fst ?p) = Sell" "sr_scheduleH (fst ?p)" by simp_all
  show ?thesis using single_gate_posts_are_gated[OF m t] m by auto
qed

text \<open>
  The single-medicine form gates a Ciprofloxacin sale: submitting it opens
  the prescription dialog and posts nothing (the multi-medicine form posts it
  directly).
\<close>

theorem single_cipro_sale_gated:
  "sg_showModal (single_run (sflow_init Sell) cipro_sale) \<and> sg_posted (single_run (sflow_init Sell) cipro_sale) = []"
  by (simp add: cipro_sale_def single_eval Let_def)

end

