(* ===== verification/Site.thy ===== *)
theory Site
  imports Prelude
begin

text \<open>
  The shell of the app: the root layout (src/src/app/layout.tsx), which
  renders the navigation bar above the page of the current path; the
  navigation bar (src/src/components/Navigation.tsx) with its active link and
  its mobile sheet; and the dashboard (src/src/app/page.tsx), whose figures
  are constants and whose quick actions are links. Which page a path renders
  is Next.js's file routing over the page files of src/src/app, a function
  \<open>route_page\<close> of the path. CSS classes are reduced to the one choice they
  encode (the active link's highlight).
\<close>

subsection \<open>Definitions\<close>

text \<open>\<open>navigationItems\<close>, lines 10--16: (href, label).\<close>

definition navigationItems :: "(string \<times> string) list" where
  "navigationItems =
     [(''/'', ''Dashboard''), (''/transactions'', ''Transactions''), (''/inventory'', ''Inventory''),
      (''/expiry'', ''Expiry Tracking''), (''/accounting'', ''CA Portal'')]"

record nav_link =
  nl_href :: string
  nl_label :: string
  nl_active :: bool

text \<open>\<open>NavLinks\<close>, lines 23--40: a link per item, highlighted when \<open>pathname === item.href\<close>.\<close>

definition NavLinks :: "string \<Rightarrow> nav_link list" where
  "NavLinks pathname =
     map (\<lambda>(h, l). \<lparr>nl_href = h, nl_label = l, nl_active = (pathname = h)\<rparr>) navigationItems"

text \<open>The bar's state: the router's \<open>pathname\<close> (line 19) and the sheet's \<open>isOpen\<close> (line 21).\<close>

record nav_state =
  nav_path :: string
  nav_open :: bool

datatype nav_event = NavOpenChange bool | NavFollow string

text \<open>
  The sheet's \<open>onOpenChange={setIsOpen}\<close> (line 53) and a click on a link,
  which calls \<open>setIsOpen(false)\<close> (line 34) and navigates to its \<open>href\<close>.
\<close>

fun nav_step :: "nav_state \<Rightarrow> nav_event \<Rightarrow> nav_state" where
  "nav_step s (NavOpenChange b) = s\<lparr>nav_open := b\<rparr>"
| "nav_step s (NavFollow h) = s\<lparr>nav_open := False, nav_path := h\<rparr>"

text \<open>
  What the bar renders, lines 42--73: on a small screen the Menu button and,
  while the sheet is open, the links in it; otherwise the links inline.
\<close>

datatype nav_view = NavSheet bool "nav_link list" | NavInline "nav_link list"

definition Navigation :: "bool \<Rightarrow> nav_state \<Rightarrow> nav_view" where
  "Navigation isMobile s =
     (if isMobile then NavSheet (nav_open s) (if nav_open s then NavLinks (nav_path s) else [])
      else NavInline (NavLinks (nav_path s)))"

text \<open>The dashboard's figures, lines 7--12 (mock data, as the comment on line 6 says).\<close>

record dashboard_stats =
  todayTransactions :: nat
  lowStockAlerts :: nat
  expiringMedicines :: nat
  totalInventory :: nat

definition dashboard_stats :: dashboard_stats where
  "dashboard_stats =
     \<lparr>todayTransactions = 24, lowStockAlerts = 8, expiringMedicines = 12, totalInventory = 450\<rparr>"

text \<open>The stats cards, lines 24--63: title, figure and caption.\<close>

record dash_card =
  dc_title :: string
  dc_value :: nat
  dc_note :: string

definition dashboard_cards :: "dash_card list" where
  "dashboard_cards =
     [\<lparr>dc_title = ''Today's Transactions'', dc_value = todayTransactions dashboard_stats,
       dc_note = ''Sales and purchases''\<rparr>,
      \<lparr>dc_title = ''Low Stock Alerts'', dc_value = lowStockAlerts dashboard_stats,
       dc_note = ''Items need restocking''\<rparr>,
      \<lparr>dc_title = ''Expiring Soon'', dc_value = expiringMedicines dashboard_stats,
       dc_note = ''Within 30 days''\<rparr>,
      \<lparr>dc_title = ''Total Inventory'', dc_value = totalInventory dashboard_stats,
       dc_note = ''Medicine types''\<rparr>]"

text \<open>The quick actions, lines 66--109: title, description, link and button.\<close>

record quick_action =
  qa_title :: string
  qa_description :: string
  qa_href :: string
  qa_button :: string

definition quick_actions :: "quick_action list" where
  "quick_actions =
     [\<lparr>qa_title = ''Quick Sale'', qa_description = ''Process a medicine sale transaction quickly'',
       qa_href = ''/transactions'', qa_button = ''Start Sale''\<rparr>,
      \<lparr>qa_title = ''Inventory Check'', qa_description = ''View current stock levels and manage inventory'',
       qa_href = ''/inventory'', qa_button = ''View Inventory''\<rparr>,
      \<lparr>qa_title = ''Expiry Management'', qa_description = ''Check medicines nearing expiry and export reports'',
       qa_href = ''/expiry'', qa_button = ''Check Expiry''\<rparr>]"

definition dashboard_links :: "string list" where
  "dashboard_links = map qa_href quick_actions"

text \<open>
  The Recent Activity card, lines 112--142: fixed entries (the rupee amounts
  are kept as numbers).
\<close>

datatype activity_detail = QtyAmount nat nat | ActivityNote string

record activity =
  act_title :: string
  act_detail :: activity_detail
  act_when :: string

definition recent_activity :: "activity list" where
  "recent_activity =
     [\<lparr>act_title = ''Paracetamol 500mg - Sale'', act_detail = QtyAmount 2 24, act_when = ''2 min ago''\<rparr>,
      \<lparr>act_title = ''Amoxicillin 250mg - Purchase'', act_detail = QtyAmount 100 1200, act_when = ''1 hour ago''\<rparr>,
      \<lparr>act_title = ''Low Stock Alert'', act_detail = ActivityNote ''Crocin tablets below 10 units'',
       act_when = ''3 hours ago''\<rparr>]"

text \<open>\<open>Dashboard()\<close>, lines 5--146: it renders constants only.\<close>

definition Dashboard :: "dash_card list \<times> quick_action list \<times> activity list" where
  "Dashboard = (dashboard_cards, quick_actions, recent_activity)"

text \<open>
  The pages of src/src/app: app/page.tsx, app/inventory/page.tsx,
  app/expiry/page.tsx and app/accounting/page.tsx; any other path is
  Next.js's 404 page.
\<close>

datatype page = DashboardPage | InventoryPage | ExpiryPage | AccountingPage | NotFound

definition route_page :: "string \<Rightarrow> page" where
  "route_page p =
     (if p = ''/'' then DashboardPage else if p = ''/inventory'' then InventoryPage
      else if p = ''/expiry'' then ExpiryPage else if p = ''/accounting'' then AccountingPage else NotFound)"

text \<open>\<open>RootLayout\<close>, lines 14--32: the navigation bar above the current path's page.\<close>

definition RootLayout :: "bool \<Rightarrow> nav_state \<Rightarrow> nav_view \<times> page" where
  "RootLayout isMobile s = (Navigation isMobile s, route_page (nav_path s))"

subsection \<open>Lemmas\<close>

lemma navigationItems_hrefs_distinct: "distinct (map fst navigationItems)"
  by (simp add: navigationItems_def)

lemma filter_active_links:
  "filter nl_active (map (\<lambda>(h, l). \<lparr>nl_href = h, nl_label = l, nl_active = (p = h)\<rparr>) xs) =
   map (\<lambda>(h, l). \<lparr>nl_href = h, nl_label = l, nl_active = True\<rparr>) (filter (\<lambda>(h, l). h = p) xs)"
  by (induction xs) auto

lemma NavLinks_active_filter:
  "filter nl_active (NavLinks p) =
   map (\<lambda>(h, l). \<lparr>nl_href = h, nl_label = l, nl_active = True\<rparr>) (filter (\<lambda>(h, l). h = p) navigationItems)"
  unfolding NavLinks_def by (rule filter_active_links)

lemma distinct_filter_fst_eq:
  "distinct (map fst xs) \<Longrightarrow> length (filter (\<lambda>(h, l). h = p) xs) = (if p \<in> fst ` set xs then 1 else 0)"
  by (induction xs) (auto simp: filter_empty_conv)

subsection \<open>Properties\<close>

text \<open>
  The bar highlights exactly one link on a path it lists and none on any
  other path.
\<close>

theorem nav_one_active:
  "length (filter nl_active (NavLinks p)) = (if p \<in> fst ` set navigationItems then 1 else 0)"
  using distinct_filter_fst_eq[OF navigationItems_hrefs_distinct, of p] by (simp add: NavLinks_active_filter)

text \<open>
  Following a link of the bar closes the mobile sheet, and the bar then
  highlights that link and no other.
\<close>

theorem nav_follow_highlights:
  assumes "(h, l) \<in> set navigationItems"
  shows "\<not> nav_open (nav_step s (NavFollow h)) \<and>
         filter nl_active (NavLinks (nav_path (nav_step s (NavFollow h)))) =
         [\<lparr>nl_href = h, nl_label = l, nl_active = True\<rparr>]"
  using assms by (auto simp: NavLinks_active_filter navigationItems_def)

theorem nav_follow_highlights_witness:
  "(''/expiry'', ''Expiry Tracking'') \<in> set navigationItems \<and>
   \<not> nav_open (nav_step \<lparr>nav_path = ''/'', nav_open = True\<rparr> (NavFollow ''/expiry'')) \<and>
   filter nl_active (NavLinks (nav_path (nav_step \<lparr>nav_path = ''/'', nav_open = True\<rparr> (NavFollow ''/expiry'')))) =
   [\<lparr>nl_href = ''/expiry'', nl_label = ''Expiry Tracking'', nl_active = True\<rparr>]"
  using nav_follow_highlights[of "''/expiry''" "''Expiry Tracking''" "\<lparr>nav_path = ''/'', nav_open = True\<rparr>"]
  by (simp add: navigationItems_def)

end
