(* ===== verification/Picker.thy ===== *)
theory Picker
  imports Catalog
begin

text \<open>
  The medicine picker of src/src/components/MedicineSearch.tsx as a
  component: its state (lines 29--31), the \<open>value\<close> prop its form passes
  (the form's medicine name), and the \<open>onSelect\<close> callback it calls. One
  event is \<open>pk_step\<close>; it returns the new state and the medicines reported
  through \<open>onSelect\<close>. The effects (lines 34--51) are run in the step of the
  event that changed their dependency: the first copies a new \<open>value\<close> prop
  into the box, the second (re)starts the 300 ms debounce timer whenever the
  box's text changed, cancelling the previous one. The timer's firing is an
  event of its own.
\<close>

subsection \<open>Definitions\<close>

record picker =
  pk_open :: bool
  pk_search :: string
  pk_filtered :: "catalog_medicine list"
  pk_timer :: bool
  pk_value :: string

text \<open>The mount with the prop \<open>value\<close>: both effects run, so the timer starts.\<close>

definition picker_init :: "string \<Rightarrow> picker" where
  "picker_init v =
     \<lparr>pk_open = False, pk_search = v, pk_filtered = search_catalog, pk_timer = True, pk_value = v\<rparr>"

datatype picker_event = PK_Type string | PK_Click | PK_Timer | PK_Pick nat | PK_Prop string

text \<open>\<open>setSearchValue(v)\<close> followed by the second effect: the timer restarts when the text changed.\<close>

definition set_search :: "string \<Rightarrow> picker \<Rightarrow> picker" where
  "set_search v s = s\<lparr>pk_search := v, pk_timer := (pk_timer s \<or> v \<noteq> pk_search s)\<rparr>"

text \<open>
  The handlers: \<open>handleInputChange\<close> (lines 59--65: a blank text does not
  open the list, nor close it), \<open>handleInputClick\<close> (lines 67--69), the
  timer's callback (lines 39--48), a click on the \<open>i\<close>-th entry of the open
  list, \<open>handleSelect\<close> (lines 53--57), and a new \<open>value\<close> prop (lines 34--36).
\<close>

fun pk_step :: "picker \<Rightarrow> picker_event \<Rightarrow> picker \<times> catalog_medicine list" where
  "pk_step s (PK_Type v) =
     ((set_search v s)\<lparr>pk_open := (if js_trim v \<noteq> [] then True else pk_open s)\<rparr>, [])"
| "pk_step s PK_Click = (s\<lparr>pk_open := True\<rparr>, [])"
| "pk_step s PK_Timer =
     (if pk_timer s then (s\<lparr>pk_filtered := filter_catalog (pk_search s), pk_timer := False\<rparr>, []) else (s, []))"
| "pk_step s (PK_Pick i) =
     (if pk_open s \<and> i < length (pk_filtered s)
      then (let m = pk_filtered s ! i in ((set_search (cm_name m) s)\<lparr>pk_open := False\<rparr>, [m]))
      else (s, []))"
| "pk_step s (PK_Prop v) = (if v \<noteq> pk_value s then (set_search v s\<lparr>pk_value := v\<rparr>, []) else (s, []))"

fun pk_run :: "picker \<Rightarrow> picker_event list \<Rightarrow> picker \<times> catalog_medicine list" where
  "pk_run s [] = (s, [])"
| "pk_run s (e # es) =
     (let (s1, c1) = pk_step s e; (s2, c2) = pk_run s1 es in (s2, c1 @ c2))"

text \<open>
  The picker's invariant: it lists catalogue entries only, and when no timer
  is pending it lists exactly the entries matching the box.
\<close>

definition pk_inv :: "picker \<Rightarrow> bool" where
  "pk_inv s \<longleftrightarrow>
     set (pk_filtered s) \<subseteq> set search_catalog \<and>
     (\<not> pk_timer s \<longrightarrow> pk_filtered s = filter_catalog (pk_search s))"

text \<open>
  What the picker renders, lines 71--121: the box with its text and, while
  open, the dropdown: "No medicines found." or an entry per listed medicine
  with its name, price, stock and markers (lines 93--111).
\<close>

record pk_entry_view =
  pe_name :: string
  pe_price :: rat
  pe_stock :: int
  pe_scheduleH :: bool
  pe_lowStock :: bool

definition pk_entry :: "catalog_medicine \<Rightarrow> pk_entry_view" where
  "pk_entry m =
     \<lparr>pe_name = cm_name m, pe_price = cm_price m, pe_stock = cm_stock m,
      pe_scheduleH = shows_schedule_h m, pe_lowStock = shows_low_stock m\<rparr>"

datatype pk_dropdown = PK_NoneFound | PK_List "pk_entry_view list"

definition pk_view :: "picker \<Rightarrow> string \<times> pk_dropdown option" where
  "pk_view s =
     (pk_search s,
      if pk_open s then Some (if pk_filtered s = [] then PK_NoneFound else PK_List (map pk_entry (pk_filtered s)))
      else None)"

subsection \<open>Lemmas\<close>

lemma filter_catalog_subset: "set (filter_catalog q) \<subseteq> set search_catalog"
  by (auto simp: filter_catalog_def)

lemma picker_init_inv: "pk_inv (picker_init v)"
  by (simp add: pk_inv_def picker_init_def)

lemma set_search_inv: "pk_inv s \<Longrightarrow> pk_inv (set_search v s)"
  by (auto simp: pk_inv_def set_search_def)

lemma pk_step_inv:
  assumes "pk_inv s" shows "pk_inv (fst (pk_step s e))"
proof (cases e)
  case (PK_Type v) then show ?thesis using set_search_inv[OF assms, of v] assms by (simp add: pk_inv_def set_search_def)
next
  case (PK_Pick i)
  have "pk_inv ((set_search (cm_name (pk_filtered s ! i)) s)\<lparr>pk_open := False\<rparr>)"
    using set_search_inv[OF assms, of "cm_name (pk_filtered s ! i)"] by (simp add: pk_inv_def)
  with PK_Pick show ?thesis using assms by (simp add: Let_def)
next
  case (PK_Prop v) then show ?thesis using set_search_inv[OF assms, of v] assms by (simp add: pk_inv_def set_search_def)
qed (use assms in \<open>auto simp: pk_inv_def filter_catalog_subset\<close>)

lemma pk_step_calls: "pk_inv s \<Longrightarrow> set (snd (pk_step s e)) \<subseteq> set search_catalog"
  by (cases e) (auto simp: pk_inv_def Let_def dest: nth_mem)

lemma pk_run_inv:
  "pk_inv s \<Longrightarrow> pk_inv (fst (pk_run s es)) \<and> set (snd (pk_run s es)) \<subseteq> set search_catalog"
proof (induction es arbitrary: s)
  case (Cons e es)
  have "pk_inv (fst (pk_step s e))" using pk_step_inv[OF Cons.prems] .
  then show ?case using Cons.IH pk_step_calls[OF Cons.prems, of e] by (simp add: split_beta)
qed simp

subsection \<open>Properties\<close>

text \<open>
  C22: the debounce settles: in every reachable state, once the timer fires
  (or at once, when none is pending) the list shows exactly the catalogue
  entries matching the text in the box.
\<close>

theorem picker_list_settles:
  "pk_filtered (fst (pk_step (fst (pk_run (picker_init v) es)) PK_Timer)) =
     filter_catalog (pk_search (fst (pk_run (picker_init v) es)))"
  using pk_run_inv[OF picker_init_inv, of v es] by (auto simp: pk_inv_def)

text \<open>
  C28: a click on an entry of the rendered dropdown reports the medicine that
  entry shows, puts its name in the box and closes the dropdown.
\<close>

theorem pick_reports_shown_entry:
  assumes "snd (pk_view s) = Some (PK_List es)" and "i < length es"
  shows "\<exists>m. snd (pk_step s (PK_Pick i)) = [m] \<and> pk_entry m = es ! i \<and>
             fst (pk_view (fst (pk_step s (PK_Pick i)))) = cm_name m \<and> snd (pk_view (fst (pk_step s (PK_Pick i)))) = None"
proof -
  have o: "pk_open s" and es: "es = map pk_entry (pk_filtered s)"
    using assms(1) by (auto simp: pk_view_def split: if_splits)
  then have "i < length (pk_filtered s)" using assms(2) by simp
  then show ?thesis using o es by (simp add: pk_view_def set_search_def Let_def)
qed

theorem pick_reports_shown_entry_witness:
  "snd (pk_view (fst (pk_step (picker_init []) PK_Click))) = Some (PK_List (map pk_entry search_catalog)) \<and>
   0 < length (map pk_entry search_catalog) \<and>
   (\<exists>m. snd (pk_step (fst (pk_step (picker_init []) PK_Click)) (PK_Pick 0)) = [m] \<and>
        pk_entry m = map pk_entry search_catalog ! 0 \<and>
        fst (pk_view (fst (pk_step (fst (pk_step (picker_init []) PK_Click)) (PK_Pick 0)))) = cm_name m \<and>
        snd (pk_view (fst (pk_step (fst (pk_step (picker_init []) PK_Click)) (PK_Pick 0)))) = None)"
proof -
  have v: "snd (pk_view (fst (pk_step (picker_init []) PK_Click))) = Some (PK_List (map pk_entry search_catalog))"
    by (simp add: pk_view_def picker_init_def search_catalog_def)
  have l: "0 < length (map pk_entry search_catalog)" by (simp add: search_catalog_def)
  show ?thesis using pick_reports_shown_entry[OF v l] v l by blast
qed

end
