(* ===== verification/Spec2Isabelle.thy ===== *)
theory Spec2Isabelle
  imports ExpiryExport DateDisplay IsoDate InventoryFlow AccountingFlow ScheduleH SingleForm AddStock Site Picker
begin

text \<open>
  \<^bold>\<open>A verification development of the pharmacy store.\<close>

  The program (src/src) is a Next.js pharmacy inventory and billing app. Its
  logic lives in a few places: date and stock helpers (src/src/lib/utils.ts);
  medicine tables that classify, sort and filter rows by expiry and stock
  (components/InventoryTable.tsx, components/ExpiryList.tsx and the pages
  app/inventory, app/expiry); an in-memory accounting API
  (app/api/accounting/transactions/route.ts) with its page; and sale/purchase
  forms (components/MultiMedicineTransactionForm.tsx, TransactionForm.tsx)
  that pick medicines from a searchable catalogue (components/MedicineSearch.tsx)
  and, for a sale with Schedule H medicines, pass through a prescription dialog
  (components/ScheduleHModal.tsx) before posting. The routes the forms and the
  tables call for medicines and sales (/api/medicines, /api/transactions) are
  not part of the sources.

  \<^bold>\<open>Theories.\<close>
  \<^item> Prelude: the model's types (\<open>money\<close> = \<open>rat\<close>, \<open>millis\<close> = \<open>int\<close>, \<open>jsnum\<close> =
    \<open>rat option\<close> for numbers that may be \<open>undefined\<close>/NaN), the \<open>reduce\<close>
    sum idiom, ASCII \<open>toLowerCase\<close>, \<open>includes\<close> and \<open>trim\<close>, and their lemmas.
  \<^item> Dates: \<open>new Date('YYYY-MM-DD')\<close> as ECMAScript's MakeDay (UTC midnight;
    \<open>None\<close> for the invalid date), \<open>setHours(0,0,0,0)\<close> in a host time zone
    with fixed offset \<open>tz\<close>, utils.ts \<open>calculateDaysUntilExpiry\<close> and the
    expiry page's inline day count. Lemmas: the day count is the difference
    of local calendar days east of UTC and one less west of UTC; the page's
    count is the difference of UTC days; the two disagree.
  \<^item> DateDisplay: \<open>new Date(s).toLocaleDateString(...)\<close> as the local
    calendar day of the parsed instant (Intl's rendering of a day is a
    parameter); utils.ts \<open>formatDate\<close> and the copies in InventoryTable,
    ExpiryList and the accounting page (\<open>acct_formatDate\<close>). Lemma: every
    table shows the local day of the string's UTC midnight, so west of UTC
    every date is shown one day early.
  \<^item> DateOrder: the string order of valid \<open>YYYY-MM-DD\<close> dates is the order
    of the days they denote (\<open>parse_date_less\<close>): digit groups compare as
    their values and MakeDay is strictly increasing on valid dates, since a
    year's length is the sum of its months (\<open>year_length\<close>).
  \<^item> Medicine: the \<open>Medicine\<close> record, \<open>isLowStock\<close>, \<open>getStockStatus\<close>, the
    flags of a row (modelled from the specification, since /api/medicines is
    absent), the column comparator and \<open>handleSort\<close>. \<open>Array.prototype.sort\<close>
    is a stable insertion sort \<open>sort_cmp\<close>, proved equal to \<open>sort_key\<close> when the
    comparator agrees with a key order.
  \<^item> ExpiryList: filter, search, sort (in place on the parent's array when no
    filter applies, so the function returns the parent's array after the
    call too), badge, CSV status column, summary counts and the expiry page's
    statistics.
  \<^item> ExpiryView: ExpiryList's rendering (texts, tints, rows, summary) and
    inputs as an event machine \<open>el_step\<close>, and the expiry page as one
    (\<open>xp_handle\<close>, \<open>xp_next\<close>, \<open>xp_run\<close>): the fetch split into request
    and reply, the statistics, Refresh Data, and the loading skeleton that
    unmounts the list. Lemmas: the cards always show the statistics of the
    medicines the page holds (the in-place sort permutes them only), Refresh
    resets the list's search, filter and sort, a row's tint is its badge.
  \<^item> Accounting: the route's store as explicit state; \<open>accounting_GET\<close> and
    \<open>accounting_POST\<close> (result \<open>post_error + (transaction \<times> transaction list)\<close>).
    Lemmas: the summary refines the specification's \<open>summarize\<close>, a POST then
    GET adds exactly the new row, validation is truthiness, the fixture's
    summary, and the error paths.
  \<^item> Inventory: InventoryTable as a function of its props and sort state
    (\<open>inventory_table\<close>: sorted rows, status badge, expiry text, row tint,
    alerts, footer counts) and the inventory page's search and tab filter
    (\<open>filterMedicines\<close>, \<open>inventory_page\<close>). Lemmas: default order by name,
    rows carry the tab's flag, alert and footer counts equal the rows shown,
    tint agrees with badge, the Expiry Date column sorts chronologically.
  \<^item> InventoryFlow: the inventory page as an event machine (\<open>ip_handle\<close>,
    \<open>ip_next\<close>: handler, render, filter effect) with the add-stock dialog
    mounted in it. The loading skeleton unmounts the table and the dialog, a
    change of tab remounts the table, and a post's continuation outlives its
    dialog; each pending post records the mount that sent it. The reachable
    states are the inductive \<open>ip_reach\<close>, and the invariant \<open>ip_inv\<close> holds
    in all of them, by rule induction (\<open>ip_reach_inv\<close>), as does the order
    of the requests in flight (\<open>ip_reach_rinv\<close>). Lemmas: the page renders
    the pure \<open>inventory_page\<close>, a successful add always refetches, from
    every reachable state with two requests in flight the older reply can
    overwrite the newer, and from every loaded page a refresh lets a second
    post start beside the pending ones.
  \<^item> Csv: utils.ts \<open>exportToCSV\<close> (the text it writes, its empty-data
    error) and an RFC 4180 reader \<open>parse_csv\<close>, a character-level state
    machine; the export reads back exactly (\<open>export_csv_roundtrip\<close>).
  \<^item> IsoDate: \<open>toISOString().split('T')[0]\<close> from ECMAScript's YearFromTime
    (a search from an estimate, \<open>year_down\<close> and \<open>year_up\<close>, whose
    termination is proved by measures), MonthFromTime and DateFromTime, and
    a fixed-width decimal printer; the file \<open>exportToCSV\<close> saves (name and
    text) and the expiry report's file name. Lemmas: the decomposition of
    MakeDay's day gives the date back (\<open>civil_of_make_day\<close>), and the file
    name carries the UTC date, a day behind the local one just after local
    midnight east of UTC.
  \<^item> ExpiryExport: the expiry report's rows on top of \<open>exportToCSV\<close>.
  \<^item> AccountingPage: the accounting page's search and tab filter and its own
    CSV export (the file it saves), which reads back only when no cell holds
    a quote and, unlike utils.ts, saves a header-only file for no rows.
  \<^item> AccountingFlow: the accounting page as a component over the route:
    its state record, a fetch split into its request and its reply (replies
    may arrive in any order), the two effects and React's loop that re-runs
    them until their dependencies settle (\<open>ap_settle\<close>, a
    \<open>partial_function (option)\<close>, shown to settle after one round, so every
    visit yields a state), and what the page renders (skeleton, cards,
    \<open>AccountingTable\<close>). The selects, the search box and the tabs exist
    only once loaded, so they are no-ops while loading. Lemmas: the cards
    and the table always show one fetched list; a reply to the current
    selection shows the route's answer.
  \<^item> AddStock: the add-stock dialog with the inventory page's wiring, as an
    event machine \<open>add_stock_step\<close>: it posts only entries the schema
    accepts; taken alone it never has two posts pending
    (\<open>add_stock_run_potential\<close>), which the page's remount breaks
    (InventoryFlow).
  \<^item> Catalog: the picker's catalogue and debounced filter.
  \<^item> Picker: MedicineSearch as a component: open state, the \<open>value\<close> prop,
    the debounce timer as an event, selection and the \<open>onSelect\<close> callback.
    It reports catalogue entries only, its list settles on the entries
    matching the box, and a click reports the entry the dropdown shows
    (\<open>pk_view\<close>).
  \<^item> Site: the root layout, the navigation bar (active link, mobile sheet)
    and the dashboard (\<open>Dashboard\<close>: constant cards, quick actions and
    activity); Next.js's file routing is a
    function \<open>route_page\<close> of the path.
  \<^item> SaleForm: the multi-medicine form's schema (\<open>form_errors\<close> lists every
    failing check), item operations, totals, Schedule H table and posted body.
  \<^item> PrescriptionDialog: ScheduleHModal as a component with an interface:
    \<open>dialog_step isOpen d e\<close> returns the dialog's new state and the callbacks
    it calls (\<open>OnComplete b\<close>, \<open>OnClose\<close>), in order; its rendering agrees
    with its guards. Its contract lemmas
    (\<open>dialog_step_inv\<close>, \<open>dialog_complete_true\<close>, \<open>dialog_calls_cases\<close>) are
    all the two forms use of it.
  \<^item> ScheduleH: the multi-medicine form with the dialog mounted, as one event
    machine \<open>flow_step\<close>: each disabled or hidden control is a no-op, the
    simulated upload is split into its click and its completion, the posts
    are an explicit list recording the file uploaded with each (ghost
    state). The invariant \<open>flow_inv\<close> holds in every reachable state
    (\<open>flow_run_inv\<close>, by induction over the event sequence); the gate's
    safety and progress follow, and its defects are stated over every state
    from which they occur.
  \<^item> SingleForm: TransactionForm, the single-medicine form, over the same
    dialog interface (\<open>single_step\<close>, invariant \<open>sflow_inv\<close>); it decides
    Schedule H from the picked catalogue entry.

  \<^bold>\<open>Modelling choices.\<close> Money is exact (\<open>rat\<close>): the code does no rounding
  and the model abstracts from floating point. Strings are ASCII for case
  folding. The time zone is a fixed offset (no daylight saving). A timer or a
  network call is split into the event that starts it and the event that
  ends it; nothing in the model needs fuel, since every operation is a total
  function over finite data and loops are structural recursion on lists or
  searches with a termination measure (the year of a day). The one loop that need not end in general, React re-running the effects whose
  dependencies changed, is a \<open>partial_function (option)\<close> (\<open>ap_settle\<close>),
  and that it ends is proved (\<open>ap_settle_eq\<close>, \<open>ap_session_eq\<close>).

  Library formatting whose output the model needs (\<open>String(number)\<close>,
  \<open>toFixed\<close>, \<open>toLocaleDateString\<close>) is a parameter of the definitions that
  use it, so the theorems hold for every formatting.

  \<^bold>\<open>Not modelled.\<close> JSX markup and styling beyond the choices the
  theories name (the active link, badges, tints, which cards and tables
  render), toasts, the browser's saving of a download (the file saved is
  modelled), the \<open>cn\<close> class helper and the
  locale formatting of numbers and dates (parameters where their output
  matters), the page metadata and fonts of layout.tsx; and the
  routes the sources call but do not contain (/api/medicines,
  /api/transactions, /api/transactions/multi), of which only the derived
  flags of a medicine row are modelled, from the specification.
\<close>

end
